theory Spec2Isabelle
  imports Complex_Main
begin

section \<open>Anime Hub: a model of \<^verbatim>\<open>anime.py\<close>\<close>

text \<open>
  The program is one Streamlit script. Every user interaction runs the script from top
  to bottom (a render pass); the only state that survives a pass is the favorites list of
  the session and the cache of the four fetch functions.

  Modelling decisions:
  \<^item> A Python value, as the JSON decoder produces it, is a \<open>pyval\<close>. The result \<open>None\<close> of a
    failed fetch is the same value as a JSON \<open>null\<close>, as in Python. A float is modelled by
    its (finite) rational value.
  \<^item> A \<open>str\<close> is held as its UTF-8 bytes; the emoji of the source's labels are the constants
    \<open>glyph_...\<close>. The operations that look inside a \<open>str\<close> (\<open>len\<close>, slicing, iteration) are
    reached only where a payload holds a \<open>str\<close> in the place of a list; they agree with Python
    on ASCII text.
  \<^item> An f-string is kept as its list of pieces, \<open>Lit\<close> for the literal text and \<open>Fmt\<close> for a
    formatted value, so a value is visibly inserted as it is. The text of a value, \<open>str()\<close>,
    is modelled where the identity of a widget key depends on it.
  \<^item> The exceptions are those of the Python operations the script itself performs, of
    \<open>requests\<close>, and of the Streamlit commands that check their arguments: \<open>st.image\<close>,
    \<open>st.metric\<close>, \<open>st.link_button\<close> and \<open>st.button\<close> with a key. The other Streamlit commands
    of the script take any text and append an element to the page. Layout only (columns,
    spinners, style sheets) is not recorded.
  \<^item> The network is a parameter: it maps the number of requests already sent and the URL
    to a reply and the seconds the exchange takes.
\<close>

subsection \<open>Python values\<close>

datatype pyval =
    PNone
  | PBool bool
  | PInt int
  | PFloat rat
  | PStr string
  | PList "pyval list"
  | PDict "(string \<times> pyval) list"

text \<open>Truth value of an object, as \<^verbatim>\<open>if x:\<close> tests it.\<close>

fun truthy :: "pyval \<Rightarrow> bool" where
  "truthy PNone = False"
| "truthy (PBool b) = b"
| "truthy (PInt i) = (i \<noteq> 0)"
| "truthy (PFloat r) = (r \<noteq> 0)"
| "truthy (PStr s) = (s \<noteq> [])"
| "truthy (PList xs) = (xs \<noteq> [])"
| "truthy (PDict kvs) = (kvs \<noteq> [])"

text \<open>
  Python's \<^verbatim>\<open>==\<close>: \<open>bool\<close>, \<open>int\<close> and \<open>float\<close> compare by numeric value
  (\<^verbatim>\<open>True == 1 == 1.0\<close>), lists element by element, dicts key by key whatever the order
  of their items.
\<close>

fun num_val :: "pyval \<Rightarrow> rat option" where
  "num_val (PBool b) = Some (if b then 1 else 0)"
| "num_val (PInt i) = Some (of_int i)"
| "num_val (PFloat r) = Some r"
| "num_val _ = None"

lemma size_list_elem: "x \<in> set xs \<Longrightarrow> size x < Suc (size_list size xs)"
  for x :: pyval
  by (induction xs) auto

lemma size_dict_value:
  "(k, v) \<in> set kvs \<Longrightarrow> size v < Suc (size_list (size_prod (\<lambda>_. 0) size) kvs)"
  for v :: pyval
  by (induction kvs) auto

function py_eq :: "pyval \<Rightarrow> pyval \<Rightarrow> bool" where
  "py_eq PNone y = (y = PNone)"
| "py_eq (PBool b) y = (num_val y = Some (if b then 1 else 0))"
| "py_eq (PInt i) y = (num_val y = Some (of_int i))"
| "py_eq (PFloat r) y = (num_val y = Some r)"
| "py_eq (PStr s) y = (y = PStr s)"
| "py_eq (PList xs) y =
     (case y of
        PList ys \<Rightarrow> length xs = length ys \<and> (\<forall>i < length xs. py_eq (xs ! i) (ys ! i))
      | _ \<Rightarrow> False)"
| "py_eq (PDict kvs) y =
     (case y of
        PDict kvs' \<Rightarrow>
          set (map fst kvs) = set (map fst kvs') \<and>
          list_all (\<lambda>(k, v). case map_of kvs' k of
                       None \<Rightarrow> False
                     | Some v' \<Rightarrow> map_of kvs k = Some v \<longrightarrow> py_eq v v') kvs
      | _ \<Rightarrow> False)"
  by pat_completeness auto
termination
  by (relation "measure (\<lambda>(x, y). size x)")
     (auto simp: size_list_elem size_dict_value)

text \<open>\<^verbatim>\<open>x in xs\<close> and \<^verbatim>\<open>x not in xs\<close> on a list.\<close>

definition py_in :: "pyval \<Rightarrow> pyval list \<Rightarrow> bool" where
  "py_in x xs = list_ex (\<lambda>e. py_eq e x) xs"

subsection \<open>Exceptions and the operations that raise them\<close>

datatype net_error = ConnectionFailed | TimedOut | OtherRequestError

datatype exn =
    AttributeError
  | TypeError
  | KeyError string
  | ValueError
  | RequestException net_error
  | HTTPError nat
  | JSONDecodeError
  | MediaFileStorageError
  | StreamlitAPIException
  | DuplicateElementKey

definition and_then :: "exn + 'a \<Rightarrow> ('a \<Rightarrow> exn + 'b) \<Rightarrow> exn + 'b" where
  "and_then r f = (case r of Inl e \<Rightarrow> Inl e | Inr v \<Rightarrow> f v)"

text \<open>\<^verbatim>\<open>x.get(k, d)\<close>: only a dict has the method.\<close>

fun py_get :: "pyval \<Rightarrow> string \<Rightarrow> pyval \<Rightarrow> exn + pyval" where
  "py_get (PDict kvs) k d = Inr (case map_of kvs k of None \<Rightarrow> d | Some v \<Rightarrow> v)"
| "py_get _ k d = Inl AttributeError"

text \<open>\<^verbatim>\<open>x[k]\<close> for a string key \<open>k\<close>.\<close>

fun py_item :: "pyval \<Rightarrow> string \<Rightarrow> exn + pyval" where
  "py_item (PDict kvs) k = (case map_of kvs k of None \<Rightarrow> Inl (KeyError k) | Some v \<Rightarrow> Inr v)"
| "py_item _ k = Inl TypeError"

text \<open>
  \<^verbatim>\<open>x[:n]\<close>. A dict raises too (\<open>TypeError\<close> up to Python 3.11, \<open>KeyError\<close> from 3.12);
  the model takes the former.
\<close>

fun py_slice :: "pyval \<Rightarrow> nat \<Rightarrow> exn + pyval" where
  "py_slice (PList xs) n = Inr (PList (take n xs))"
| "py_slice (PStr s) n = Inr (PStr (take n s))"
| "py_slice _ n = Inl TypeError"

text \<open>The items a \<^verbatim>\<open>for\<close> loop visits, and \<^verbatim>\<open>len\<close>.\<close>

fun py_iter :: "pyval \<Rightarrow> exn + pyval list" where
  "py_iter (PList xs) = Inr xs"
| "py_iter (PStr s) = Inr (map (\<lambda>c. PStr [c]) s)"
| "py_iter (PDict kvs) = Inr (map (\<lambda>kv. PStr (fst kv)) kvs)"
| "py_iter _ = Inl TypeError"

fun py_len :: "pyval \<Rightarrow> exn + pyval" where
  "py_len (PList xs) = Inr (PInt (int (length xs)))"
| "py_len (PStr s) = Inr (PInt (int (length s)))"
| "py_len (PDict kvs) = Inr (PInt (int (length kvs)))"
| "py_len _ = Inl TypeError"

text \<open>\<^verbatim>\<open>[f(g) for g in xs]\<close>: the first failure ends the comprehension.\<close>

fun map_exn :: "('a \<Rightarrow> exn + 'b) \<Rightarrow> 'a list \<Rightarrow> exn + 'b list" where
  "map_exn f [] = Inr []"
| "map_exn f (x # xs) =
     (case f x of
        Inl e \<Rightarrow> Inl e
      | Inr y \<Rightarrow> (case map_exn f xs of Inl e \<Rightarrow> Inl e | Inr ys \<Rightarrow> Inr (y # ys)))"

text \<open>\<^verbatim>\<open>sep.join(xs)\<close>: every item must be a \<open>str\<close>.\<close>

fun str_of :: "pyval \<Rightarrow> exn + string" where
  "str_of (PStr s) = Inr s"
| "str_of _ = Inl TypeError"

fun intercalate :: "string \<Rightarrow> string list \<Rightarrow> string" where
  "intercalate sep [] = []"
| "intercalate sep [s] = s"
| "intercalate sep (s # t # ts) = s @ sep @ intercalate sep (t # ts)"

definition py_join :: "string \<Rightarrow> pyval list \<Rightarrow> exn + pyval" where
  "py_join sep xs =
     (case map_exn str_of xs of Inl e \<Rightarrow> Inl e | Inr ss \<Rightarrow> Inr (PStr (intercalate sep ss)))"

text \<open>\<^verbatim>\<open>s.capitalize()\<close> on ASCII text; \<open>None\<close> has no such method.\<close>

definition upper_char :: "char \<Rightarrow> char" where
  "upper_char c =
     (let n = (of_char c :: nat) in if 97 \<le> n \<and> n \<le> 122 then char_of (n - 32) else c)"

definition lower_char :: "char \<Rightarrow> char" where
  "lower_char c =
     (let n = (of_char c :: nat) in if 65 \<le> n \<and> n \<le> 90 then char_of (n + 32) else c)"

fun capitalize :: "string \<Rightarrow> string" where
  "capitalize [] = []"
| "capitalize (c # cs) = upper_char c # map lower_char cs"

fun py_capitalize :: "pyval \<Rightarrow> exn + pyval" where
  "py_capitalize (PStr s) = Inr (PStr (capitalize s))"
| "py_capitalize _ = Inl AttributeError"

text \<open>
  \<^verbatim>\<open>xs.remove(x)\<close>: the first item equal to \<open>x\<close> goes; \<open>ValueError\<close> when there is none.
\<close>

fun remove_first :: "pyval \<Rightarrow> pyval list \<Rightarrow> pyval list" where
  "remove_first x [] = []"
| "remove_first x (e # es) = (if py_eq e x then es else e # remove_first x es)"

definition py_remove :: "pyval \<Rightarrow> pyval list \<Rightarrow> exn + pyval list" where
  "py_remove x xs = (if py_in x xs then Inr (remove_first x xs) else Inl ValueError)"

subsection \<open>Text, page elements, buttons\<close>

datatype piece = Lit string | Fmt pyval | FmtExc exn

type_synonym fstring = "piece list"

definition glyph_flags :: string where
  "glyph_flags = [CHR 0xF0, CHR 0x9F, CHR 0x8E, CHR 0x8C]"
definition glyph_star :: string where
  "glyph_star = [CHR 0xE2, CHR 0xAD, CHR 0x90]"
definition glyph_tv :: string where
  "glyph_tv = [CHR 0xF0, CHR 0x9F, CHR 0x93, CHR 0xBA]"
definition glyph_calendar :: string where
  "glyph_calendar = [CHR 0xF0, CHR 0x9F, CHR 0x93, CHR 0x85]"
definition glyph_chart :: string where
  "glyph_chart = [CHR 0xF0, CHR 0x9F, CHR 0x93, CHR 0x8A]"
definition glyph_tag :: string where
  "glyph_tag = [CHR 0xF0, CHR 0x9F, CHR 0x8F, CHR 0xB7, CHR 0xEF, CHR 0xB8, CHR 0x8F]"
definition glyph_book :: string where
  "glyph_book = [CHR 0xF0, CHR 0x9F, CHR 0x93, CHR 0x96]"
definition glyph_heart :: string where
  "glyph_heart = [CHR 0xE2, CHR 0x9D, CHR 0xA4, CHR 0xEF, CHR 0xB8, CHR 0x8F]"
definition glyph_link :: string where
  "glyph_link = [CHR 0xF0, CHR 0x9F, CHR 0x94, CHR 0x97]"
definition glyph_clapper :: string where
  "glyph_clapper = [CHR 0xF0, CHR 0x9F, CHR 0x8E, CHR 0xAC]"
definition glyph_house :: string where
  "glyph_house = [CHR 0xF0, CHR 0x9F, CHR 0x8F, CHR 0xA0]"
definition glyph_magnifier :: string where
  "glyph_magnifier = [CHR 0xF0, CHR 0x9F, CHR 0x94, CHR 0x8D]"
definition glyph_fire :: string where
  "glyph_fire = [CHR 0xF0, CHR 0x9F, CHR 0x94, CHR 0xA5]"
definition glyph_point_up :: string where
  "glyph_point_up = [CHR 0xF0, CHR 0x9F, CHR 0x91, CHR 0x86]"
definition glyph_left :: string where
  "glyph_left = [CHR 0xE2, CHR 0xAC, CHR 0x85, CHR 0xEF, CHR 0xB8, CHR 0x8F]"
definition glyph_right :: string where
  "glyph_right = [CHR 0xE2, CHR 0x9E, CHR 0xA1, CHR 0xEF, CHR 0xB8, CHR 0x8F]"
definition glyph_bin :: string where
  "glyph_bin = [CHR 0xF0, CHR 0x9F, CHR 0x97, CHR 0x91, CHR 0xEF, CHR 0xB8, CHR 0x8F]"
definition glyph_bullet :: string where
  "glyph_bullet = [CHR 0xE2, CHR 0x80, CHR 0xA2]"

text \<open>
  A button is known by its \<open>key\<close> when it has one and by its label otherwise. At most one
  button is clicked in a pass: \<^verbatim>\<open>st.button\<close> returns \<open>True\<close> for it only.
\<close>

datatype button_id = Keyed fstring | Labelled string

datatype element =
    Container
  | Divider
  | Image pyval
  | Title string
  | Header fstring
  | Subheader string
  | Markdown fstring
  | Metric string pyval
  | Expander string pyval
  | Button string button_id
  | LinkButton string pyval
  | Radio "string list" nat
  | Selectbox string "pyval list" nat
  | TextInput string string
  | NumberInput string int int int
  | ErrorMsg fstring
  | WarningMsg fstring
  | InfoMsg fstring
  | SuccessMsg fstring

subsection \<open>The text of a value\<close>

text \<open>
  \<^verbatim>\<open>str(v)\<close>, for the values whose text the model knows: \<open>None\<close>, a \<open>bool\<close>, an \<open>int\<close> and
  a \<open>str\<close>. The catalog's identifiers are integers.
\<close>

function digits :: "nat \<Rightarrow> string" where
  "digits n = (if n < 10 then [char_of (48 + n)] else digits (n div 10) @ [char_of (48 + n mod 10)])"
  by pat_completeness auto
termination
  by (relation "measure id") auto

declare digits.simps [simp del]

definition str_int :: "int \<Rightarrow> string" where
  "str_int i = (if i < 0 then CHR ''-'' # digits (nat (- i)) else digits (nat i))"

fun text_of :: "pyval \<Rightarrow> string option" where
  "text_of PNone = Some ''None''"
| "text_of (PBool b) = Some (if b then ''True'' else ''False'')"
| "text_of (PInt i) = Some (str_int i)"
| "text_of (PStr s) = Some s"
| "text_of _ = None"

fun piece_text :: "piece \<Rightarrow> string option" where
  "piece_text (Lit s) = Some s"
| "piece_text (Fmt v) = text_of v"
| "piece_text (FmtExc e) = None"

fun fstring_text :: "fstring \<Rightarrow> string option" where
  "fstring_text [] = Some []"
| "fstring_text (p # ps) =
     (case piece_text p of
        None \<Rightarrow> None
      | Some a \<Rightarrow> (case fstring_text ps of None \<Rightarrow> None | Some b \<Rightarrow> Some (a @ b)))"

text \<open>
  Two keys are the same widget key when they are the same text. Where the model does not
  know the text of a key (its value is a float, a list or a dict) it takes the key to be
  the same as itself only.
\<close>

definition key_id :: "fstring \<Rightarrow> string + fstring" where
  "key_id k = (case fstring_text k of Some t \<Rightarrow> Inl t | None \<Rightarrow> Inr k)"

definition same_key :: "fstring \<Rightarrow> fstring \<Rightarrow> bool" where
  "same_key k k' \<longleftrightarrow> key_id k = key_id k'"

subsection \<open>Streamlit commands that check their arguments\<close>

text \<open>
  \<^verbatim>\<open>st.image(v)\<close>. A string that is an http or https URL goes to the page as it is, and
  nothing is loaded by the script. Any other string is read as the path of a file, and the
  command raises when there is no such file; the model takes it that there is none. Other
  ways to give an image (a data URL, a list of images) are outside the model, which takes
  them to raise as well; \<open>StreamlitAPIException\<close> stands for the exception of a value that is
  no string. A URL here is plain printable ASCII without brackets, the scheme \<open>http\<close> or
  \<open>https\<close> in lower case, and a host that starts with a letter or a digit.
\<close>

definition printable :: "char \<Rightarrow> bool" where
  "printable c = (let n = (of_char c :: nat) in 33 \<le> n \<and> n \<le> 126)"

definition letter_or_digit :: "char \<Rightarrow> bool" where
  "letter_or_digit c =
     (let n = (of_char c :: nat)
      in (48 \<le> n \<and> n \<le> 57) \<or> (65 \<le> n \<and> n \<le> 90) \<or> (97 \<le> n \<and> n \<le> 122))"

definition after_scheme :: "string \<Rightarrow> string option" where
  "after_scheme s =
     (if take 7 s = ''http://'' then Some (drop 7 s)
      else if take 8 s = ''https://'' then Some (drop 8 s)
      else None)"

definition http_url :: "string \<Rightarrow> bool" where
  "http_url s =
     (list_all printable s \<and> CHR ''['' \<notin> set s \<and> CHR '']'' \<notin> set s
      \<and> (case after_scheme s of
            None \<Rightarrow> False
          | Some [] \<Rightarrow> False
          | Some (c # cs) \<Rightarrow> letter_or_digit c))"

fun st_image :: "pyval \<Rightarrow> exn + element" where
  "st_image (PStr s) = (if http_url s then Inr (Image (PStr s)) else Inl MediaFileStorageError)"
| "st_image v = Inl StreamlitAPIException"

text \<open>\<^verbatim>\<open>st.metric(label, v)\<close> takes \<open>None\<close>, a number or a string, and raises on a list or a dict.\<close>

fun st_metric :: "string \<Rightarrow> pyval \<Rightarrow> exn + element" where
  "st_metric label (PList xs) = Inl TypeError"
| "st_metric label (PDict kvs) = Inl TypeError"
| "st_metric label v = Inr (Metric label v)"

text \<open>\<^verbatim>\<open>st.link_button(label, url)\<close> takes a string for the URL.\<close>

fun st_link_button :: "string \<Rightarrow> pyval \<Rightarrow> exn + element" where
  "st_link_button label (PStr u) = Inr (LinkButton label (PStr u))"
| "st_link_button label v = Inl TypeError"

subsection \<open>State\<close>

datatype call =
    TopAnime int int
  | SearchAnime string
  | AnimeDetails pyval
  | SeasonalAnime pyval pyval

record entry =
  payload :: pyval
  replay :: "element list"
  created :: nat

text \<open>
  \<open>favorites\<close> is \<^verbatim>\<open>st.session_state.favorites\<close>, \<open>cache\<close> the store behind
  \<^verbatim>\<open>st.cache_data\<close>, \<open>clock\<close> the time in seconds, \<open>sent\<close> the URLs requested so far, in
  order, \<open>screen\<close> the elements the running pass has put on the page, and \<open>widget_keys\<close>
  the keys of the buttons the running pass has drawn.
\<close>

record state =
  favorites :: "pyval list"
  cache :: "call \<Rightarrow> entry option"
  clock :: nat
  sent :: "fstring list"
  screen :: "element list"
  widget_keys :: "fstring list"

datatype control = Next | Rerun | Raise exn

type_synonym step = "state \<Rightarrow> control \<times> state"

text \<open>What a stretch of straight-line code puts on the page before it ends or raises.\<close>

type_synonym written = "element list \<times> exn option"

definition render :: "written \<Rightarrow> step" where
  "render out s =
     (case snd out of None \<Rightarrow> Next | Some e \<Rightarrow> Raise e, s\<lparr>screen := screen s @ fst out\<rparr>)"

definition emit :: "element \<Rightarrow> step" where
  "emit e = render ([e], None)"

definition skip :: step where
  "skip s = (Next, s)"

fun run_steps :: "step list \<Rightarrow> step" where
  "run_steps [] s = (Next, s)"
| "run_steps (f # fs) s = (case f s of (Next, s') \<Rightarrow> run_steps fs s' | r \<Rightarrow> r)"

text \<open>Evaluate an expression; its exception, if any, ends the pass.\<close>

definition eval :: "exn + 'a \<Rightarrow> ('a \<Rightarrow> step) \<Rightarrow> step" where
  "eval r k s = (case r of Inl e \<Rightarrow> (Raise e, s) | Inr v \<Rightarrow> k v s)"

fun for_each :: "('a \<Rightarrow> step) \<Rightarrow> 'a list \<Rightarrow> step" where
  "for_each f [] s = (Next, s)"
| "for_each f (x # xs) s = (case f x s of (Next, s') \<Rightarrow> for_each f xs s' | r \<Rightarrow> r)"

text \<open>
  \<^verbatim>\<open>st.button(label, key=k)\<close> raises when the pass has drawn a button with the same key;
  otherwise it draws the button. It returns \<open>True\<close> when the button clicked is this one.
\<close>

definition st_button :: "string \<Rightarrow> fstring \<Rightarrow> step" where
  "st_button label k s =
     (if list_ex (same_key k) (widget_keys s) then (Raise DuplicateElementKey, s)
      else (Next, s\<lparr>screen := screen s @ [Button label (Keyed k)],
                    widget_keys := widget_keys s @ [k]\<rparr>))"

fun is_clicked :: "button_id option \<Rightarrow> fstring \<Rightarrow> bool" where
  "is_clicked (Some (Keyed k')) k = same_key k' k"
| "is_clicked _ k = False"

subsection \<open>HTTP\<close>

record response =
  status_code :: nat
  json_body :: "pyval option"

datatype reply = Fails net_error | Responds response

type_synonym network = "nat \<Rightarrow> fstring \<Rightarrow> reply \<times> nat"

text \<open>\<^verbatim>\<open>requests.get(url, timeout=10)\<close>; a timeout is the reply \<open>Fails TimedOut\<close>.\<close>

definition requests_get :: "network \<Rightarrow> fstring \<Rightarrow> state \<Rightarrow> reply \<times> state" where
  "requests_get net url s =
     (case net (length (sent s)) url of
        (r, dt) \<Rightarrow> (r, s\<lparr>sent := sent s @ [url], clock := clock s + dt\<rparr>))"

definition raise_for_status :: "response \<Rightarrow> exn + response" where
  "raise_for_status r =
     (if 400 \<le> status_code r \<and> status_code r < 600 then Inl (HTTPError (status_code r))
      else Inr r)"

definition response_json :: "response \<Rightarrow> exn + pyval" where
  "response_json r = (case json_body r of None \<Rightarrow> Inl JSONDecodeError | Some v \<Rightarrow> Inr v)"

text \<open>The three lines inside each \<^verbatim>\<open>try\<close>: get, \<^verbatim>\<open>raise_for_status\<close>, \<^verbatim>\<open>json\<close>.\<close>

definition get_json :: "network \<Rightarrow> fstring \<Rightarrow> state \<Rightarrow> (exn + pyval) \<times> state" where
  "get_json net url s =
     (case requests_get net url s of
        (Fails e, s') \<Rightarrow> (Inl (RequestException e), s')
      | (Responds r, s') \<Rightarrow> (and_then (raise_for_status r) response_json, s'))"

subsection \<open>\<^verbatim>\<open>st.cache_data(ttl=3600)\<close>\<close>

text \<open>
  The decorator keeps, for each function and argument tuple, the value returned and the
  elements the function put on the page, and replays both while the entry is younger than
  the time to live. The cache holds any number of entries.
\<close>

definition ttl :: nat where
  "ttl = 3600"

definition live_entry :: "state \<Rightarrow> call \<Rightarrow> entry option" where
  "live_entry s k =
     (case cache s k of
        None \<Rightarrow> None
      | Some e \<Rightarrow> if clock s < created e + ttl then Some e else None)"

definition cache_data :: "call \<Rightarrow> (state \<Rightarrow> (pyval \<times> element list) \<times> state) \<Rightarrow> state \<Rightarrow> pyval \<times> state" where
  "cache_data k body s =
     (case live_entry s k of
        Some e \<Rightarrow> (payload e, s\<lparr>screen := screen s @ replay e\<rparr>)
      | None \<Rightarrow>
          (case body s of
             ((v, msgs), s') \<Rightarrow>
               (v, s'\<lparr>cache := (cache s')(k \<mapsto> \<lparr>payload = v, replay = msgs, created = clock s'\<rparr>),
                      screen := screen s' @ msgs\<rparr>)))"

subsection \<open>The four fetch functions\<close>

definition api :: string where
  "api = ''https://api.jikan.moe/v4''"

definition top_anime_url :: "int \<Rightarrow> int \<Rightarrow> fstring" where
  "top_anime_url page limit =
     [Lit (api @ ''/top/anime?page=''), Fmt (PInt page), Lit ''&limit='', Fmt (PInt limit)]"

definition search_url :: "string \<Rightarrow> fstring" where
  "search_url query = [Lit (api @ ''/anime?q=''), Fmt (PStr query), Lit ''&limit=20'']"

definition details_url :: "pyval \<Rightarrow> fstring" where
  "details_url anime_id = [Lit (api @ ''/anime/''), Fmt anime_id, Lit ''/full'']"

definition seasonal_url :: "pyval \<Rightarrow> pyval \<Rightarrow> fstring" where
  "seasonal_url year season = [Lit (api @ ''/seasons/''), Fmt year, Lit ''/'', Fmt season]"

text \<open>\<^verbatim>\<open>try: ... return response.json()  except Exception as e: st.error(...); return None\<close>\<close>

definition try_fetch :: "network \<Rightarrow> fstring \<Rightarrow> string \<Rightarrow> state \<Rightarrow> (pyval \<times> element list) \<times> state" where
  "try_fetch net url msg s =
     (case get_json net url s of
        (Inr v, s') \<Rightarrow> ((v, []), s')
      | (Inl e, s') \<Rightarrow> ((PNone, [ErrorMsg [Lit msg, FmtExc e]]), s'))"

definition fetch_top_anime_body :: "network \<Rightarrow> int \<Rightarrow> int \<Rightarrow> state \<Rightarrow> (pyval \<times> element list) \<times> state" where
  "fetch_top_anime_body net page limit =
     try_fetch net (top_anime_url page limit) ''Error fetching anime data: ''"

definition search_anime_body :: "network \<Rightarrow> string \<Rightarrow> state \<Rightarrow> (pyval \<times> element list) \<times> state" where
  "search_anime_body net query = try_fetch net (search_url query) ''Error searching anime: ''"

definition fetch_anime_details_body :: "network \<Rightarrow> pyval \<Rightarrow> state \<Rightarrow> (pyval \<times> element list) \<times> state" where
  "fetch_anime_details_body net anime_id =
     try_fetch net (details_url anime_id) ''Error fetching anime details: ''"

definition fetch_seasonal_anime_body :: "network \<Rightarrow> pyval \<Rightarrow> pyval \<Rightarrow> state \<Rightarrow> (pyval \<times> element list) \<times> state" where
  "fetch_seasonal_anime_body net year season =
     try_fetch net (seasonal_url year season) ''Error fetching seasonal anime: ''"

definition fetch_top_anime :: "network \<Rightarrow> int \<Rightarrow> int \<Rightarrow> state \<Rightarrow> pyval \<times> state" where
  "fetch_top_anime net page limit =
     cache_data (TopAnime page limit) (fetch_top_anime_body net page limit)"

definition search_anime :: "network \<Rightarrow> string \<Rightarrow> state \<Rightarrow> pyval \<times> state" where
  "search_anime net query = cache_data (SearchAnime query) (search_anime_body net query)"

definition fetch_anime_details :: "network \<Rightarrow> pyval \<Rightarrow> state \<Rightarrow> pyval \<times> state" where
  "fetch_anime_details net anime_id =
     cache_data (AnimeDetails anime_id) (fetch_anime_details_body net anime_id)"

definition fetch_seasonal_anime :: "network \<Rightarrow> pyval \<Rightarrow> pyval \<Rightarrow> state \<Rightarrow> pyval \<times> state" where
  "fetch_seasonal_anime net year season =
     cache_data (SeasonalAnime year season) (fetch_seasonal_anime_body net year season)"

subsection \<open>\<^verbatim>\<open>display_anime_card\<close>\<close>

definition compute :: "exn + 'a \<Rightarrow> ('a \<Rightarrow> written) \<Rightarrow> written" where
  "compute r k = (case r of Inl e \<Rightarrow> ([], Some e) | Inr v \<Rightarrow> k v)"

definition put :: "element \<Rightarrow> written \<Rightarrow> written" where
  "put e w = (e # fst w, snd w)"

definition nothing :: written where
  "nothing = ([], None)"

text \<open>\<^verbatim>\<open>anime.get('images', {}).get('jpg', {}).get('large_image_url')\<close>\<close>

definition image_url :: "pyval \<Rightarrow> exn + pyval" where
  "image_url anime =
     and_then (py_get anime ''images'' (PDict [])) (\<lambda>images.
     and_then (py_get images ''jpg'' (PDict [])) (\<lambda>jpg.
       py_get jpg ''large_image_url'' PNone))"

definition card_image :: "pyval \<Rightarrow> written" where
  "card_image anime =
     compute (image_url anime) (\<lambda>u.
       if truthy u then
         compute (and_then (py_item anime ''images'') (\<lambda>images.
                  and_then (py_item images ''jpg'') (\<lambda>jpg.
                    py_item jpg ''large_image_url''))) (\<lambda>v.
           compute (st_image v) (\<lambda>e. put e nothing))
       else nothing)"

definition card_english :: "pyval \<Rightarrow> written" where
  "card_english anime =
     compute (py_get anime ''title_english'' PNone) (\<lambda>t.
       if truthy t then
         compute (py_item anime ''title_english'') (\<lambda>v.
           put (Markdown [Lit ''*'', Fmt v, Lit ''*'']) nothing)
       else nothing)"

text \<open>\<^verbatim>\<open>score = anime.get('score', 'N/A'); st.metric(label, score)\<close>, and its three siblings.\<close>

definition card_metric :: "string \<Rightarrow> string \<Rightarrow> pyval \<Rightarrow> written" where
  "card_metric label field anime =
     compute (py_get anime field (PStr ''N/A'')) (\<lambda>v.
       compute (st_metric label v) (\<lambda>e. put e nothing))"

definition label_score :: string where
  "label_score = glyph_star @ '' Score''"
definition label_episodes :: string where
  "label_episodes = glyph_tv @ '' Episodes''"
definition label_year :: string where
  "label_year = glyph_calendar @ '' Year''"
definition label_status :: string where
  "label_status = glyph_chart @ '' Status''"

text \<open>The genre line: the names of the first five genres, joined by a bullet between two spaces.\<close>

definition genre_text :: "pyval \<Rightarrow> exn + pyval" where
  "genre_text anime =
     and_then (py_item anime ''genres'') (\<lambda>genres.
     and_then (py_slice genres 5) (\<lambda>first5.
     and_then (py_iter first5) (\<lambda>gs.
     and_then (map_exn (\<lambda>g. py_item g ''name'') gs) (\<lambda>names.
       py_join ('' '' @ glyph_bullet @ '' '') names))))"

definition card_genres :: "pyval \<Rightarrow> written" where
  "card_genres anime =
     compute (py_get anime ''genres'' PNone) (\<lambda>g.
       if truthy g then
         put (Markdown [Lit ''**Genres:**''])
           (compute (genre_text anime) (\<lambda>t.
              put (Markdown [Lit (glyph_tag @ '' ''), Fmt t]) nothing))
       else nothing)"

definition card_synopsis :: "pyval \<Rightarrow> written" where
  "card_synopsis anime =
     compute (py_get anime ''synopsis'' PNone) (\<lambda>t.
       if truthy t then
         compute (py_item anime ''synopsis'') (\<lambda>v.
           put (Expander (glyph_book @ '' Synopsis'') v) nothing)
       else nothing)"

definition card_link :: "pyval \<Rightarrow> written" where
  "card_link anime =
     compute (py_get anime ''url'' PNone) (\<lambda>u.
       if truthy u then
         compute (py_item anime ''url'') (\<lambda>v.
           compute (st_link_button (glyph_link @ '' View on MyAnimeList'') v) (\<lambda>e.
             put e nothing))
       else nothing)"

definition card_trailer :: "pyval \<Rightarrow> written" where
  "card_trailer anime =
     compute (and_then (py_get anime ''trailer'' (PDict [])) (\<lambda>t. py_get t ''url'' PNone)) (\<lambda>u.
       if truthy u then
         compute (and_then (py_item anime ''trailer'') (\<lambda>t. py_item t ''url'')) (\<lambda>v.
           compute (st_link_button (glyph_clapper @ '' Watch Trailer'') v) (\<lambda>e.
             put e nothing))
       else nothing)"

text \<open>
  The body of the favorites button:
  \<^verbatim>\<open>if anime_id not in favorites: favorites.append(anime_id); st.success(...)\<close>
  \<^verbatim>\<open>else: st.info("Already in favorites!")\<close>
\<close>

definition add_favorite :: "pyval \<Rightarrow> pyval \<Rightarrow> step" where
  "add_favorite title anime_id s =
     (if \<not> py_in anime_id (favorites s) then
        emit (SuccessMsg [Lit ''Added '', Fmt title, Lit '' to favorites!''])
          (s\<lparr>favorites := favorites s @ [anime_id]\<rparr>)
      else emit (InfoMsg [Lit ''Already in favorites!'']) s)"

definition fav_key :: "pyval \<Rightarrow> fstring" where
  "fav_key anime_id = [Lit ''fav_'', Fmt anime_id]"

definition label_add :: string where
  "label_add = glyph_heart @ '' Add to Favorites''"

definition card_favorite :: "button_id option \<Rightarrow> pyval \<Rightarrow> pyval \<Rightarrow> step" where
  "card_favorite clicked title anime =
     eval (py_get anime ''mal_id'' PNone) (\<lambda>anime_id.
       run_steps
         [st_button label_add (fav_key anime_id),
          if is_clicked clicked (fav_key anime_id) then add_favorite title anime_id
          else skip])"

definition display_anime_card :: "button_id option \<Rightarrow> pyval \<Rightarrow> step" where
  "display_anime_card clicked anime =
     run_steps
       [emit Container,
        render (card_image anime),
        eval (py_get anime ''title'' (PStr ''Unknown Title'')) (\<lambda>title.
          run_steps
            [emit (Markdown [Lit (''### '' @ glyph_flags @ '' ''), Fmt title]),
             render (card_english anime),
             render (card_metric label_score ''score'' anime),
             render (card_metric label_episodes ''episodes'' anime),
             render (card_metric label_year ''year'' anime),
             render (card_metric label_status ''status'' anime),
             render (card_genres anime),
             render (card_synopsis anime),
             card_favorite clicked title anime,
             render (card_link anime),
             render (card_trailer anime)]),
        emit Divider]"

subsection \<open>Widgets\<close>

datatype nav = Home | Search | Seasonal | TopRated | Favorites

fun nav_label :: "nav \<Rightarrow> string" where
  "nav_label Home = glyph_house @ '' Home''"
| "nav_label Search = glyph_magnifier @ '' Search''"
| "nav_label Seasonal = glyph_calendar @ '' Seasonal''"
| "nav_label TopRated = glyph_star @ '' Top Rated''"
| "nav_label Favorites = glyph_heart @ '' Favorites''"

fun nav_index :: "nav \<Rightarrow> nat" where
  "nav_index Home = 0"
| "nav_index Search = 1"
| "nav_index Seasonal = 2"
| "nav_index TopRated = 3"
| "nav_index Favorites = 4"

text \<open>
  What the user has set: the radio choice, the two select boxes (by index), the search
  text and the page number.
\<close>

record widgets =
  nav :: nav
  year_index :: nat
  season_index :: nat
  search_query :: string
  page_num :: int

text \<open>\<^verbatim>\<open>range(start, stop, -1)\<close>\<close>

function py_range_down :: "int \<Rightarrow> int \<Rightarrow> int list" where
  "py_range_down start stop =
     (if stop < start then start # py_range_down (start - 1) stop else [])"
  by pat_completeness auto
termination
  by (relation "measure (\<lambda>(start, stop). nat (start - stop))") auto

definition year_options :: "int \<Rightarrow> pyval list" where
  "year_options current_year = map PInt (py_range_down current_year 1989)"

definition season_options :: "pyval list" where
  "season_options = [PStr ''winter'', PStr ''spring'', PStr ''summer'', PStr ''fall'']"

text \<open>\<^verbatim>\<open>st.selectbox\<close> returns the option selected, \<open>None\<close> when there is no option.\<close>

definition selectbox :: "pyval list \<Rightarrow> nat \<Rightarrow> pyval" where
  "selectbox options i = (if i < length options then options ! i else PNone)"

text \<open>The bounds of \<^verbatim>\<open>st.number_input("Page", min_value=1, max_value=100, value=1, step=1)\<close>.\<close>

definition page_min :: int where
  "page_min = 1"

definition page_max :: int where
  "page_max = 100"

subsection \<open>The pages\<close>

definition with_value :: "(state \<Rightarrow> 'a \<times> state) \<Rightarrow> ('a \<Rightarrow> step) \<Rightarrow> step" where
  "with_value f k s = (case f s of (v, s') \<Rightarrow> k v s')"

definition rerun :: step where
  "rerun s = (Rerun, s)"

text \<open>\<^verbatim>\<open>data and data.get('data')\<close>, as a condition.\<close>

definition has_data :: "pyval \<Rightarrow> exn + bool" where
  "has_data data =
     (if truthy data then and_then (py_get data ''data'' PNone) (\<lambda>d. Inr (truthy d))
      else Inr False)"

text \<open>\<^verbatim>\<open>for anime in data['data']: display_anime_card(anime)\<close>\<close>

definition show_cards :: "button_id option \<Rightarrow> pyval \<Rightarrow> step" where
  "show_cards clicked data =
     eval (and_then (py_item data ''data'') py_iter) (for_each (display_anime_card clicked))"

definition data_len :: "pyval \<Rightarrow> exn + pyval" where
  "data_len data = and_then (py_item data ''data'') py_len"

text \<open>A button without a key that reruns the script when clicked.\<close>

definition rerun_button :: "string \<Rightarrow> button_id option \<Rightarrow> step" where
  "rerun_button label clicked =
     run_steps
       [emit (Button label (Labelled label)),
        if clicked = Some (Labelled label) then rerun else skip]"

definition home_page :: "network \<Rightarrow> button_id option \<Rightarrow> step" where
  "home_page net clicked =
     run_steps
       [emit (Header [Lit (glyph_fire @ '' Trending Anime'')]),
        emit (Markdown [Lit ''Explore the most popular anime titles right now!'']),
        with_value (fetch_top_anime net 1 10) (\<lambda>data.
          eval (has_data data) (\<lambda>ok.
            if ok then show_cards clicked data
            else emit (WarningMsg [Lit ''Unable to load anime data. Please try again later.''])))]"

definition search_page :: "network \<Rightarrow> widgets \<Rightarrow> button_id option \<Rightarrow> step" where
  "search_page net w clicked =
     run_steps
       [emit (Header [Lit (glyph_magnifier @ '' Search Anime'')]),
        emit (TextInput ''Enter anime name:'' (search_query w)),
        if search_query w \<noteq> [] then
          with_value (search_anime net (search_query w)) (\<lambda>data.
            eval (has_data data) (\<lambda>ok.
              if ok then
                run_steps
                  [eval (data_len data) (\<lambda>n.
                     emit (SuccessMsg [Lit ''Found '', Fmt n, Lit ('' results for '' @ [CHR 0x27]),
                                       Fmt (PStr (search_query w)), Lit [CHR 0x27]])),
                   show_cards clicked data]
              else emit (WarningMsg [Lit ''No results found. Try a different search term.''])))
        else emit (InfoMsg [Lit (glyph_point_up @ '' Enter an anime name to start searching!'')])]"

definition seasonal_page :: "network \<Rightarrow> int \<Rightarrow> widgets \<Rightarrow> button_id option \<Rightarrow> step" where
  "seasonal_page net current_year w clicked =
     (let year = selectbox (year_options current_year) (year_index w);
          season = selectbox season_options (season_index w)
      in run_steps
           [eval (py_capitalize season) (\<lambda>cap.
              emit (Header [Lit (glyph_calendar @ '' Seasonal Anime - ''), Fmt cap, Lit '' '', Fmt year])),
            with_value (fetch_seasonal_anime net year season) (\<lambda>data.
              eval (has_data data) (\<lambda>ok.
                if ok then
                  run_steps
                    [eval (data_len data) (\<lambda>n.
                     eval (py_capitalize season) (\<lambda>cap.
                       emit (SuccessMsg [Lit ''Found '', Fmt n, Lit '' anime for '', Fmt cap,
                                         Lit '' '', Fmt year]))),
                     show_cards clicked data]
                else emit (WarningMsg [Lit ''Unable to load seasonal anime data.''])))])"

definition label_previous :: string where
  "label_previous = glyph_left @ '' Previous Page''"

definition label_next :: string where
  "label_next = ''Next Page '' @ glyph_right"

definition top_rated_page :: "network \<Rightarrow> widgets \<Rightarrow> button_id option \<Rightarrow> step" where
  "top_rated_page net w clicked =
     run_steps
       [emit (Header [Lit (glyph_star @ '' Top Rated Anime of All Time'')]),
        emit (NumberInput ''Page'' page_min page_max (page_num w)),
        with_value (fetch_top_anime net (page_num w) 25) (\<lambda>data.
          eval (has_data data) (\<lambda>ok.
            if ok then
              run_steps
                [emit (SuccessMsg [Lit ''Showing top anime - Page '', Fmt (PInt (page_num w))]),
                 show_cards clicked data,
                 if 1 < page_num w then rerun_button label_previous clicked else skip,
                 rerun_button label_next clicked]
            else emit (WarningMsg [Lit ''Unable to load top anime data.''])))]"

definition remove_key :: "pyval \<Rightarrow> fstring" where
  "remove_key anime_id = [Lit ''remove_'', Fmt anime_id]"

text \<open>\<^verbatim>\<open>st.session_state.favorites.remove(anime_id); st.rerun()\<close>\<close>

definition remove_favorite :: "pyval \<Rightarrow> step" where
  "remove_favorite anime_id s =
     (case py_remove anime_id (favorites s) of
        Inl e \<Rightarrow> (Raise e, s)
      | Inr fs \<Rightarrow> (Rerun, s\<lparr>favorites := fs\<rparr>))"

text \<open>The body of the loop over the favorites.\<close>

definition favorites_entry :: "network \<Rightarrow> button_id option \<Rightarrow> pyval \<Rightarrow> step" where
  "favorites_entry net clicked anime_id =
     with_value (fetch_anime_details net anime_id) (\<lambda>details.
       eval (has_data details) (\<lambda>ok.
         if ok then
           eval (py_item details ''data'') (\<lambda>anime.
             run_steps
               [display_anime_card clicked anime,
                st_button ''Remove from Favorites'' (remove_key anime_id),
                if is_clicked clicked (remove_key anime_id) then remove_favorite anime_id
                else skip])
         else skip))"

subsection \<open>The loop over the favorites\<close>

text \<open>
  \<^verbatim>\<open>for anime_id in st.session_state.favorites:\<close> walks the live list by index, so an
  identifier that a card appends during the walk is visited too. The walk ends: a pass has
  at most one clicked button, and a pass draws a button of a given key at most once, so at
  most one card appends its identifier. The lemmas up to \<open>favorites_entry_budget\<close> establish
  this bound.
\<close>

lemma py_eq_refl: "py_eq x x"
proof (induction x rule: pyval.induct)
  case (PDict kvs)
  have "list_all (\<lambda>(k, v). case map_of kvs k of None \<Rightarrow> False
          | Some v' \<Rightarrow> map_of kvs k = Some v \<longrightarrow> py_eq v v') kvs"
    unfolding list_all_iff
  proof (clarify)
    fix k v assume kv: "(k, v) \<in> set kvs"
    then obtain w where w: "map_of kvs k = Some w"
      by (metis weak_map_of_SomeI)
    have "py_eq v v" using PDict kv by (auto simp: snds.simps)
    with w show "case map_of kvs k of None \<Rightarrow> False
          | Some v' \<Rightarrow> map_of kvs k = Some v \<longrightarrow> py_eq v v'" by auto
  qed
  then show ?case by simp
qed (auto simp: in_set_conv_nth)

fun pending :: "button_id option \<Rightarrow> fstring list \<Rightarrow> nat" where
  "pending (Some (Keyed k)) ks = (if list_ex (same_key k) ks then 0 else 1)"
| "pending _ ks = 0"

definition budget :: "button_id option \<Rightarrow> state \<Rightarrow> nat" where
  "budget clicked s = length (favorites s) + pending clicked (widget_keys s)"

definition keeps :: "(state \<Rightarrow> state \<Rightarrow> bool) \<Rightarrow> step \<Rightarrow> bool" where
  "keeps R f \<longleftrightarrow> (\<forall>s. R s (snd (f s)))"

definition preorder_on_states :: "(state \<Rightarrow> state \<Rightarrow> bool) \<Rightarrow> bool" where
  "preorder_on_states R \<longleftrightarrow> (\<forall>s. R s s) \<and> (\<forall>a b c. R a b \<longrightarrow> R b c \<longrightarrow> R a c)"

definition screen_blind :: "(state \<Rightarrow> state \<Rightarrow> bool) \<Rightarrow> bool" where
  "screen_blind R \<longleftrightarrow> (\<forall>s es. R s (s\<lparr>screen := es\<rparr>))"

definition key_blind :: "(state \<Rightarrow> state \<Rightarrow> bool) \<Rightarrow> bool" where
  "key_blind R \<longleftrightarrow> (\<forall>s ks. R s (s\<lparr>widget_keys := ks\<rparr>))"

lemma keepsD: "keeps R f \<Longrightarrow> f s = (c, s') \<Longrightarrow> R s s'"
  by (metis keeps_def snd_conv)

lemma keeps_skip: "preorder_on_states R \<Longrightarrow> keeps R skip"
  by (simp add: keeps_def skip_def preorder_on_states_def)

lemma keeps_rerun: "preorder_on_states R \<Longrightarrow> keeps R rerun"
  by (simp add: keeps_def rerun_def preorder_on_states_def)

lemma keeps_render: "screen_blind R \<Longrightarrow> keeps R (render w)"
  by (simp add: keeps_def render_def screen_blind_def)

lemma keeps_emit: "screen_blind R \<Longrightarrow> keeps R (emit e)"
  by (simp add: emit_def keeps_render)

lemma keeps_st_button:
  assumes "preorder_on_states R" "screen_blind R" "key_blind R"
  shows "keeps R (st_button label k)"
proof -
  have "R s (s\<lparr>screen := es, widget_keys := ks\<rparr>)" for s es ks
  proof -
    have "R s (s\<lparr>screen := es\<rparr>)" using assms(2) by (simp add: screen_blind_def)
    moreover have "R (s\<lparr>screen := es\<rparr>) (s\<lparr>screen := es, widget_keys := ks\<rparr>)"
      using assms(3) by (simp add: key_blind_def)
    ultimately show ?thesis using assms(1) unfolding preorder_on_states_def by blast
  qed
  moreover have "R s s" for s using assms(1) by (simp add: preorder_on_states_def)
  ultimately show ?thesis by (simp add: keeps_def st_button_def)
qed

lemma keeps_eval: "preorder_on_states R \<Longrightarrow> (\<And>v. keeps R (k v)) \<Longrightarrow> keeps R (eval r k)"
  by (auto simp: keeps_def eval_def preorder_on_states_def split: sum.splits)

lemma keeps_if: "keeps R f \<Longrightarrow> keeps R g \<Longrightarrow> keeps R (if b then f else g)"
  by simp

lemma keeps_run_steps:
  assumes R: "preorder_on_states R" and fs: "\<And>f. f \<in> set fs \<Longrightarrow> keeps R f"
  shows "keeps R (run_steps fs)"
proof -
  have "R s (snd (run_steps fs s))" for s
    using fs
  proof (induction fs arbitrary: s)
    case Nil
    then show ?case using R by (simp add: preorder_on_states_def)
  next
    case (Cons f fs)
    obtain c s' where f: "f s = (c, s')" by (cases "f s")
    have 1: "R s s'" using Cons.prems f keepsD by (metis list.set_intros(1))
    show ?case
    proof (cases c)
      case Next
      have "R s' (snd (run_steps fs s'))" using Cons by simp
      with 1 R f Next show ?thesis by (auto simp: preorder_on_states_def)
    qed (use f 1 in auto)
  qed
  then show ?thesis by (simp add: keeps_def)
qed

lemma keeps_for_each:
  assumes R: "preorder_on_states R" and f: "\<And>x. keeps R (f x)"
  shows "keeps R (for_each f xs)"
proof -
  have "R s (snd (for_each f xs s))" for s
  proof (induction xs arbitrary: s)
    case Nil
    then show ?case using R by (simp add: preorder_on_states_def)
  next
    case (Cons x xs)
    obtain c s' where fx: "f x s = (c, s')" by (cases "f x s")
    have 1: "R s s'" using f fx keepsD by blast
    show ?case
    proof (cases c)
      case Next
      with 1 R fx Cons [of s'] show ?thesis by (auto simp: preorder_on_states_def)
    qed (use fx 1 in auto)
  qed
  then show ?thesis by (simp add: keeps_def)
qed

lemma keeps_with_value:
  assumes R: "preorder_on_states R" and f: "\<And>s. R s (snd (f s))" and k: "\<And>v. keeps R (k v)"
  shows "keeps R (with_value f k)"
  unfolding keeps_def with_value_def
proof
  fix s
  obtain v s' where fs: "f s = (v, s')" by (cases "f s")
  have "R s s'" using f [of s] fs by simp
  moreover have "R s' (snd (k v s'))" using k by (simp add: keeps_def)
  ultimately show "R s (snd (case f s of (v, s') \<Rightarrow> k v s'))"
    using R fs by (auto simp: preorder_on_states_def)
qed


lemma keeps_card_favorite:
  assumes "preorder_on_states R" "screen_blind R" "key_blind R"
    and "\<And>a. keeps R (add_favorite title a)"
  shows "keeps R (card_favorite clicked title anime)"
  unfolding card_favorite_def
  by (intro keeps_eval keeps_run_steps assms(1))
    (auto simp: keeps_st_button keeps_skip assms)

lemma keeps_display_anime_card:
  assumes "preorder_on_states R" "screen_blind R"
    and "\<And>t. keeps R (card_favorite clicked t anime)"
  shows "keeps R (display_anime_card clicked anime)"
  unfolding display_anime_card_def
  apply (rule keeps_run_steps [OF assms(1)])
  apply (auto simp: keeps_emit keeps_render assms(2))
  apply (rule keeps_eval [OF assms(1)])
  apply (rule keeps_run_steps [OF assms(1)])
  apply (auto simp: keeps_emit keeps_render assms)
  done

lemma favorites_requests_get: "favorites (snd (requests_get net url s)) = favorites s"
  by (simp add: requests_get_def split: prod.splits)

lemma favorites_get_json: "favorites (snd (get_json net url s)) = favorites s"
  using favorites_requests_get [of net url s]
  by (auto simp: get_json_def split: prod.splits reply.splits)

lemma favorites_try_fetch: "favorites (snd (try_fetch net url msg s)) = favorites s"
  using favorites_get_json [of net url s]
  by (auto simp: try_fetch_def split: prod.splits sum.splits)

lemma favorites_cache_data:
  assumes "\<And>s. favorites (snd (body s)) = favorites s"
  shows "favorites (snd (cache_data k body s)) = favorites s"
  using assms [of s]
  by (auto simp: cache_data_def split: option.splits prod.splits)

lemma favorites_fetch_anime_details:
  "favorites (snd (fetch_anime_details net a s)) = favorites s"
  unfolding fetch_anime_details_def fetch_anime_details_body_def
  by (rule favorites_cache_data) (rule favorites_try_fetch)

lemma keys_requests_get: "widget_keys (snd (requests_get net url s)) = widget_keys s"
  by (simp add: requests_get_def split: prod.splits)

lemma keys_get_json: "widget_keys (snd (get_json net url s)) = widget_keys s"
  using keys_requests_get [of net url s]
  by (auto simp: get_json_def split: prod.splits reply.splits)

lemma keys_try_fetch: "widget_keys (snd (try_fetch net url msg s)) = widget_keys s"
  using keys_get_json [of net url s]
  by (auto simp: try_fetch_def split: prod.splits sum.splits)

lemma keys_cache_data:
  assumes "\<And>s. widget_keys (snd (body s)) = widget_keys s"
  shows "widget_keys (snd (cache_data k body s)) = widget_keys s"
  using assms [of s]
  by (auto simp: cache_data_def split: option.splits prod.splits)

lemma keys_fetch_anime_details:
  "widget_keys (snd (fetch_anime_details net a s)) = widget_keys s"
  unfolding fetch_anime_details_def fetch_anime_details_body_def
  by (rule keys_cache_data) (rule keys_try_fetch)

definition within_budget :: "button_id option \<Rightarrow> state \<Rightarrow> state \<Rightarrow> bool" where
  "within_budget clicked s s' \<longleftrightarrow> budget clicked s' \<le> budget clicked s"

lemma preorder_within_budget: "preorder_on_states (within_budget clicked)"
  by (auto simp: preorder_on_states_def within_budget_def)

lemma screen_blind_within_budget: "screen_blind (within_budget clicked)"
  by (auto simp: screen_blind_def within_budget_def budget_def)

lemma py_in_append: "py_in x (xs @ ys) \<longleftrightarrow> py_in x xs \<or> py_in x ys"
  by (auto simp: py_in_def list_ex_iff)

lemma py_in_single: "py_in x [y] \<longleftrightarrow> py_eq y x"
  by (simp add: py_in_def)

lemma same_key_refl: "same_key k k"
  by (simp add: same_key_def)

lemma same_key_sym: "same_key k k' \<Longrightarrow> same_key k' k"
  by (simp add: same_key_def)

lemma same_key_trans: "same_key a b \<Longrightarrow> same_key b c \<Longrightarrow> same_key a c"
  by (simp add: same_key_def)

lemma drawn_same_key: "same_key k k' \<Longrightarrow> list_ex (same_key k) ks = list_ex (same_key k') ks"
  by (simp add: same_key_def list_ex_iff)

lemma pending_append: "pending clicked (ks @ ks') \<le> pending clicked ks"
  by (cases "(clicked, ks)" rule: pending.cases) auto

lemma pending_drawn:
  "is_clicked clicked k \<Longrightarrow> \<not> list_ex (same_key k) ks
   \<Longrightarrow> pending clicked ks = 1 \<and> pending clicked (ks @ [k]) = 0"
  by (cases "(clicked, k)" rule: is_clicked.cases) (auto simp: same_key_def list_ex_iff)

lemma st_button_within_budget: "keeps (within_budget clicked) (st_button label k)"
  using pending_append [of clicked _ "[k]"]
  by (simp add: keeps_def within_budget_def budget_def st_button_def)

lemma card_favorite_within_budget:
  "keeps (within_budget clicked) (card_favorite clicked title anime)"
proof -
  have "budget clicked
          (snd (run_steps [st_button label_add k,
                           if is_clicked clicked k then add_favorite title a else skip] s))
        \<le> budget clicked s" for k a s
  proof (cases "list_ex (same_key k) (widget_keys s)")
    case True
    then show ?thesis by (simp add: st_button_def)
  next
    case False
    show ?thesis
    proof (cases "is_clicked clicked k")
      case True
      from pending_drawn [OF True False] False True show ?thesis
        by (simp add: st_button_def add_favorite_def emit_def render_def budget_def)
    next
      case no: False
      with False pending_append [of clicked "widget_keys s" "[k]"] show ?thesis
        by (simp add: st_button_def skip_def budget_def)
    qed
  qed
  then show ?thesis
    by (simp add: keeps_def within_budget_def card_favorite_def eval_def split: sum.splits)
qed

lemma card_within_budget: "keeps (within_budget clicked) (display_anime_card clicked anime)"
  by (intro keeps_display_anime_card preorder_within_budget screen_blind_within_budget
      card_favorite_within_budget)

lemma favorites_entry_budget:
  assumes "favorites_entry net clicked a s = (Next, s')"
  shows "budget clicked s' \<le> budget clicked s"
proof -
  obtain d s1 where f: "fetch_anime_details net a s = (d, s1)"
    by (cases "fetch_anime_details net a s")
  have s1: "favorites s1 = favorites s"
    using favorites_fetch_anime_details [of net a s] f by simp
  moreover have "widget_keys s1 = widget_keys s"
    using keys_fetch_anime_details [of net a s] f by simp
  ultimately have b1: "budget clicked s1 = budget clicked s" by (simp add: budget_def)
  show ?thesis
  proof (cases "has_data d")
    case (Inl e)
    with assms f show ?thesis by (simp add: favorites_entry_def with_value_def eval_def)
  next
    case (Inr ok)
    show ?thesis
    proof (cases ok)
      case False
      with assms f Inr b1 show ?thesis
        by (simp add: favorites_entry_def with_value_def eval_def skip_def)
    next
      case True
      show ?thesis
      proof (cases "py_item d ''data''")
        case (Inl e)
        with assms f Inr True show ?thesis
          by (simp add: favorites_entry_def with_value_def eval_def)
      next
        case anime: (Inr anime)
        obtain c s2 where card: "display_anime_card clicked anime s1 = (c, s2)"
          by (cases "display_anime_card clicked anime s1")
        have b2: "budget clicked s2 \<le> budget clicked s1"
          using keepsD [OF card_within_budget card] by (simp add: within_budget_def)
        from assms f Inr True anime card have "budget clicked s' \<le> budget clicked s2"
          using pending_append [of clicked "widget_keys s2"]
          by (auto simp: favorites_entry_def with_value_def eval_def emit_def render_def
              skip_def remove_favorite_def budget_def st_button_def
              split: control.splits if_splits sum.splits prod.splits)
        with b1 b2 show ?thesis by simp
      qed
    qed
  qed
qed

function favorites_loop :: "network \<Rightarrow> button_id option \<Rightarrow> nat \<Rightarrow> step" where
  "favorites_loop net clicked i s =
     (if i < length (favorites s) then
        (case favorites_entry net clicked (favorites s ! i) s of
           (Next, s') \<Rightarrow> favorites_loop net clicked (Suc i) s'
         | r \<Rightarrow> r)
      else (Next, s))"
  by pat_completeness auto
termination
proof (relation "measure (\<lambda>(net, clicked, i, s). budget clicked s - i)")
  show "wf (measure (\<lambda>(net, clicked, i, s). budget clicked s - i))" by simp
next
  fix net clicked i s c s'
  assume i: "i < length (favorites s)"
    and x: "(c, s') = favorites_entry net clicked (favorites s ! i) s"
    and c: "c = Next"
  then have "budget clicked s' \<le> budget clicked s"
    using favorites_entry_budget [of net clicked "favorites s ! i" s s'] by simp
  moreover have "i < budget clicked s" using i by (simp add: budget_def)
  ultimately show "((net, clicked, Suc i, s'), (net, clicked, i, s))
      \<in> measure (\<lambda>(net, clicked, i, s). budget clicked s - i)"
    by simp
qed

definition label_clear :: string where
  "label_clear = glyph_bin @ '' Clear All Favorites''"

definition label_go_home :: string where
  "label_go_home = glyph_house @ '' Go to Home''"

text \<open>\<^verbatim>\<open>st.session_state.favorites = []; st.rerun()\<close>\<close>

definition clear_favorites :: step where
  "clear_favorites s = (Rerun, s\<lparr>favorites := []\<rparr>)"

definition favorites_listing :: "network \<Rightarrow> button_id option \<Rightarrow> step" where
  "favorites_listing net clicked s =
     run_steps
       [emit (SuccessMsg [Lit ''You have '', Fmt (PInt (int (length (favorites s)))),
                          Lit '' favorites'']),
        emit (Button label_clear (Labelled label_clear)),
        if clicked = Some (Labelled label_clear) then clear_favorites else skip,
        favorites_loop net clicked 0] s"

definition favorites_empty :: "button_id option \<Rightarrow> step" where
  "favorites_empty clicked =
     run_steps
       [emit (InfoMsg [Lit (''You haven't added any favorites yet! Browse anime and click ''
                            @ [CHR 0x27] @ label_add @ [CHR 0x27] @ '' to save them here.'')]),
        rerun_button label_go_home clicked]"

definition favorites_page :: "network \<Rightarrow> button_id option \<Rightarrow> step" where
  "favorites_page net clicked =
     run_steps
       [emit (Header [Lit (glyph_heart @ '' Your Favorite Anime'')]),
        (\<lambda>s. if favorites s \<noteq> [] then favorites_listing net clicked s
             else favorites_empty clicked s)]"

subsection \<open>The script\<close>

definition rule_line :: element where
  "rule_line = Markdown [Lit ''---'']"

definition sidebar :: "int \<Rightarrow> widgets \<Rightarrow> element list" where
  "sidebar current_year w =
     [Title (glyph_flags @ '' Anime Hub''), rule_line,
      Radio (map nav_label [Home, Search, Seasonal, TopRated, Favorites]) (nav_index (nav w)),
      rule_line]
     @ (if nav w = TopRated \<or> nav w = Seasonal then
          Subheader ''Filters''
          # (if nav w = Seasonal then
               [Selectbox ''Year'' (year_options current_year) (year_index w),
                Selectbox ''Season'' season_options (season_index w)]
             else [])
        else [])
     @ [rule_line, Markdown [Lit ''### About''],
        InfoMsg [Lit ''Discover and explore anime from MyAnimeList database. Data provided by Jikan API.'']]"

text \<open>The footer, its HTML abridged to the first line of its text.\<close>

definition footer :: "element list" where
  "footer = [rule_line, Markdown [Lit ''Powered by Jikan API (Unofficial MyAnimeList API)'']]"

text \<open>One pass of the script: the sidebar, the title, the selected page, the footer.\<close>

definition script :: "network \<Rightarrow> int \<Rightarrow> widgets \<Rightarrow> button_id option \<Rightarrow> step" where
  "script net current_year w clicked =
     run_steps
       [render (sidebar current_year w, None),
        emit (Title (glyph_flags @ '' Anime Hub - Your Anime Discovery Platform'')),
        (case nav w of
           Home \<Rightarrow> home_page net clicked
         | Search \<Rightarrow> search_page net w clicked
         | Seasonal \<Rightarrow> seasonal_page net current_year w clicked
         | TopRated \<Rightarrow> top_rated_page net w clicked
         | Favorites \<Rightarrow> favorites_page net clicked),
        render (footer, None)]"

subsection \<open>Interaction\<close>

text \<open>
  The user changes a widget or clicks a button, and the script runs. A widget takes only
  what it offers: a select box one of its options, the number input a value within its
  bounds. Streamlit forgets the value of a widget that a pass does not draw, so choosing
  another page puts the widgets of the pages back to their defaults.
\<close>

datatype event =
    Navigate nav
  | SelectYear nat
  | SelectSeason nat
  | TypeQuery string
  | EnterPage int
  | Click button_id

definition initial_widgets :: widgets where
  "initial_widgets =
     \<lparr>nav = Home, year_index = 0, season_index = 0, search_query = [], page_num = 1\<rparr>"

definition initial_state :: state where
  "initial_state =
     \<lparr>favorites = [], cache = (\<lambda>k. None), clock = 0, sent = [], screen = [],
      widget_keys = []\<rparr>"

fun apply_event :: "int \<Rightarrow> event \<Rightarrow> widgets \<Rightarrow> widgets" where
  "apply_event cy (Navigate p) w = (if p = nav w then w else initial_widgets\<lparr>nav := p\<rparr>)"
| "apply_event cy (SelectYear i) w =
     (if nav w = Seasonal \<and> i < length (year_options cy) then w\<lparr>year_index := i\<rparr> else w)"
| "apply_event cy (SelectSeason i) w =
     (if nav w = Seasonal \<and> i < length season_options then w\<lparr>season_index := i\<rparr> else w)"
| "apply_event cy (TypeQuery q) w = (if nav w = Search then w\<lparr>search_query := q\<rparr> else w)"
| "apply_event cy (EnterPage v) w =
     (if nav w = TopRated \<and> page_min \<le> v \<and> v \<le> page_max then w\<lparr>page_num := v\<rparr> else w)"
| "apply_event cy (Click b) w = w"

fun clicked_by :: "event \<Rightarrow> button_id option" where
  "clicked_by (Click b) = Some b"
| "clicked_by _ = None"

text \<open>
  A pass starts on an empty page, with no button drawn. \<^verbatim>\<open>st.rerun()\<close> ends the pass
  and runs the script again, with the same widget values and no button clicked.
\<close>

definition pass :: "network \<Rightarrow> int \<Rightarrow> widgets \<Rightarrow> button_id option \<Rightarrow> step" where
  "pass net cy w clicked s = script net cy w clicked (s\<lparr>screen := [], widget_keys := []\<rparr>)"

definition interact :: "network \<Rightarrow> int \<Rightarrow> event \<Rightarrow> widgets \<times> state \<Rightarrow> widgets \<times> control \<times> state" where
  "interact net cy ev ws =
     (case ws of
        (w, s) \<Rightarrow>
          (let w' = apply_event cy ev w in
           case pass net cy w' (clicked_by ev) s of
             (Rerun, s') \<Rightarrow> (w', pass net cy w' None s')
           | r \<Rightarrow> (w', r)))"

declare favorites_loop.simps [simp del]
declare py_range_down.simps [simp del]

section \<open>Properties\<close>

subsection \<open>Cards of well-shaped items\<close>

text \<open>
  The card reads three fields through nested lookups, \<open>images\<close>, \<open>genres\<close> and \<open>trailer\<close>, and
  hands the image, the four metrics and the two links to Streamlit commands that check
  their arguments. An item is well shaped when these fields, where present, have the shape
  the catalog gives them:
  \<^item> \<open>images\<close> is a dict whose \<open>jpg\<close>, if any, is a dict whose \<open>large_image_url\<close>, if any, is
    false (null, empty) or an http or https URL;
  \<^item> \<open>score\<close>, \<open>episodes\<close>, \<open>year\<close> and \<open>status\<close> are null, a number or a string;
  \<^item> \<open>genres\<close> is false (absent, null, empty) or a list whose first five entries are dicts with
    a string \<open>name\<close>;
  \<^item> \<open>url\<close> is false or a string;
  \<^item> \<open>trailer\<close> is a dict whose \<open>url\<close>, if any, is false or a string.

  Any field may be missing.
\<close>

fun image_value_shaped :: "pyval option \<Rightarrow> bool" where
  "image_value_shaped None = True"
| "image_value_shaped (Some (PStr u)) = (u = [] \<or> http_url u)"
| "image_value_shaped (Some v) = (\<not> truthy v)"

fun images_shaped :: "pyval option \<Rightarrow> bool" where
  "images_shaped None = True"
| "images_shaped (Some (PDict images)) =
     (case map_of images ''jpg'' of
        None \<Rightarrow> True
      | Some (PDict jpg) \<Rightarrow> image_value_shaped (map_of jpg ''large_image_url'')
      | Some _ \<Rightarrow> False)"
| "images_shaped (Some _) = False"

fun scalar :: "pyval \<Rightarrow> bool" where
  "scalar (PList xs) = False"
| "scalar (PDict kvs) = False"
| "scalar v = True"

definition metric_shaped :: "(string \<times> pyval) list \<Rightarrow> string \<Rightarrow> bool" where
  "metric_shaped kvs field = (case map_of kvs field of None \<Rightarrow> True | Some v \<Rightarrow> scalar v)"

fun url_shaped :: "pyval option \<Rightarrow> bool" where
  "url_shaped None = True"
| "url_shaped (Some (PStr u)) = True"
| "url_shaped (Some v) = (\<not> truthy v)"

fun named :: "pyval \<Rightarrow> bool" where
  "named (PDict g) = (case map_of g ''name'' of Some (PStr n) \<Rightarrow> True | _ \<Rightarrow> False)"
| "named _ = False"

fun genres_shaped :: "pyval option \<Rightarrow> bool" where
  "genres_shaped None = True"
| "genres_shaped (Some (PList gs)) = list_all named (take 5 gs)"
| "genres_shaped (Some g) = (\<not> truthy g)"

fun trailer_shaped :: "pyval option \<Rightarrow> bool" where
  "trailer_shaped None = True"
| "trailer_shaped (Some (PDict t)) = url_shaped (map_of t ''url'')"
| "trailer_shaped (Some _) = False"

fun item_shaped :: "pyval \<Rightarrow> bool" where
  "item_shaped (PDict kvs) =
     (images_shaped (map_of kvs ''images'')
      \<and> metric_shaped kvs ''score'' \<and> metric_shaped kvs ''episodes''
      \<and> metric_shaped kvs ''year'' \<and> metric_shaped kvs ''status''
      \<and> genres_shaped (map_of kvs ''genres'')
      \<and> url_shaped (map_of kvs ''url'')
      \<and> trailer_shaped (map_of kvs ''trailer''))"
| "item_shaped _ = False"

lemma st_image_shaped:
  "image_value_shaped (Some v) \<Longrightarrow> truthy v \<Longrightarrow> st_image v = Inr (Image v)"
  by (cases v) auto

lemma st_link_button_shaped:
  "url_shaped (Some v) \<Longrightarrow> truthy v \<Longrightarrow> st_link_button label v = Inr (LinkButton label v)"
  by (cases v) auto

lemma card_image_shaped:
  "images_shaped (map_of kvs ''images'') \<Longrightarrow> snd (card_image (PDict kvs)) = None"
  by (auto simp: card_image_def image_url_def compute_def and_then_def put_def nothing_def
      st_image_shaped
      elim!: images_shaped.elims split: option.splits pyval.splits)

lemma card_english_safe: "snd (card_english (PDict kvs)) = None"
  by (auto simp: card_english_def compute_def put_def nothing_def split: option.splits)

lemma card_synopsis_safe: "snd (card_synopsis (PDict kvs)) = None"
  by (auto simp: card_synopsis_def compute_def put_def nothing_def split: option.splits)

lemma card_link_shaped:
  "url_shaped (map_of kvs ''url'') \<Longrightarrow> snd (card_link (PDict kvs)) = None"
  by (auto simp: card_link_def compute_def put_def nothing_def st_link_button_shaped
      split: option.splits)

lemma st_metric_scalar: "scalar v \<Longrightarrow> st_metric label v = Inr (Metric label v)"
  by (cases v) auto

lemma card_metric:
  "metric_shaped kvs field \<Longrightarrow>
   card_metric label field (PDict kvs) =
     ([Metric label (case map_of kvs field of None \<Rightarrow> PStr ''N/A'' | Some v \<Rightarrow> v)], None)"
  by (auto simp: card_metric_def compute_def put_def nothing_def metric_shaped_def
      st_metric_scalar split: option.splits)

lemma card_trailer_shaped:
  "trailer_shaped (map_of kvs ''trailer'') \<Longrightarrow> snd (card_trailer (PDict kvs)) = None"
  by (auto simp: card_trailer_def compute_def and_then_def put_def nothing_def
      st_link_button_shaped
      elim!: trailer_shaped.elims split: option.splits pyval.splits)

lemma names_of_named:
  "list_all named gs \<Longrightarrow> \<exists>ns. map_exn (\<lambda>g. py_item g ''name'') gs = Inr (map PStr ns)"
proof (induction gs)
  case Nil
  then show ?case by simp
next
  case (Cons g gs)
  then obtain ns where ns: "map_exn (\<lambda>g. py_item g ''name'') gs = Inr (map PStr ns)" by auto
  from Cons.prems obtain n where "py_item g ''name'' = Inr (PStr n)"
    by (auto elim!: named.elims split: option.splits pyval.splits)
  with ns have "map_exn (\<lambda>g. py_item g ''name'') (g # gs) = Inr (map PStr (n # ns))" by simp
  then show ?case by blast
qed

lemma join_strings: "py_join sep (map PStr ns) = Inr (PStr (intercalate sep ns))"
proof -
  have "map_exn str_of (map PStr ns) = Inr ns" by (induction ns) auto
  then show ?thesis by (simp add: py_join_def)
qed

lemma card_genres_shaped:
  assumes "genres_shaped (map_of kvs ''genres'')"
  shows "snd (card_genres (PDict kvs)) = None"
proof (cases "map_of kvs ''genres''")
  case None
  then show ?thesis by (simp add: card_genres_def compute_def nothing_def)
next
  case (Some g)
  show ?thesis
  proof (cases "truthy g")
    case False
    with Some show ?thesis by (simp add: card_genres_def compute_def nothing_def)
  next
    case True
    with assms Some obtain gs where g: "g = PList gs" and n: "list_all named (take 5 gs)"
      by (auto elim!: genres_shaped.elims)
    from names_of_named [OF n] obtain ns
      where "map_exn (\<lambda>g. py_item g ''name'') (take 5 gs) = Inr (map PStr ns)" by blast
    with Some g True show ?thesis
      by (simp add: card_genres_def compute_def nothing_def put_def genre_text_def and_then_def
          join_strings)
  qed
qed

definition is_metric :: "element \<Rightarrow> bool" where
  "is_metric e = (case e of Metric l v \<Rightarrow> True | _ \<Rightarrow> False)"


definition title_of :: "(string \<times> pyval) list \<Rightarrow> pyval" where
  "title_of kvs = (case map_of kvs ''title'' of None \<Rightarrow> PStr ''Unknown Title'' | Some v \<Rightarrow> v)"

definition id_of :: "(string \<times> pyval) list \<Rightarrow> pyval" where
  "id_of kvs = (case map_of kvs ''mal_id'' of None \<Rightarrow> PNone | Some v \<Rightarrow> v)"

definition metric_of :: "(string \<times> pyval) list \<Rightarrow> string \<Rightarrow> pyval" where
  "metric_of kvs field = (case map_of kvs field of None \<Rightarrow> PStr ''N/A'' | Some v \<Rightarrow> v)"

definition title_line :: "pyval \<Rightarrow> element" where
  "title_line t = Markdown [Lit (''### '' @ glyph_flags @ '' ''), Fmt t]"

definition card_head :: "(string \<times> pyval) list \<Rightarrow> element list" where
  "card_head kvs =
     Container # fst (card_image (PDict kvs)) @ title_line (title_of kvs)
     # fst (card_english (PDict kvs))
     @ [Metric label_score (metric_of kvs ''score''),
        Metric label_episodes (metric_of kvs ''episodes''),
        Metric label_year (metric_of kvs ''year''),
        Metric label_status (metric_of kvs ''status'')]
     @ fst (card_genres (PDict kvs)) @ fst (card_synopsis (PDict kvs))
     @ [Button label_add (Keyed (fav_key (id_of kvs)))]"

definition card_tail :: "(string \<times> pyval) list \<Rightarrow> element list" where
  "card_tail kvs = fst (card_link (PDict kvs)) @ fst (card_trailer (PDict kvs)) @ [Divider]"

lemma render_safe: "snd w = None \<Longrightarrow> render w s = (Next, s\<lparr>screen := screen s @ fst w\<rparr>)"
  by (simp add: render_def)

text \<open>The button of the card can be drawn: the pass has drawn no button of its key.\<close>

definition key_free :: "(string \<times> pyval) list \<Rightarrow> state \<Rightarrow> bool" where
  "key_free kvs s \<longleftrightarrow> \<not> list_ex (same_key (fav_key (id_of kvs))) (widget_keys s)"

lemma display_anime_card_shaped:
  assumes "item_shaped (PDict kvs)" and "key_free kvs s"
  shows "display_anime_card clicked (PDict kvs) s =
     (if is_clicked clicked (fav_key (id_of kvs)) then
        (if \<not> py_in (id_of kvs) (favorites s) then
           (Next, s\<lparr>favorites := favorites s @ [id_of kvs],
                    screen := screen s @ card_head kvs
                      @ SuccessMsg [Lit ''Added '', Fmt (title_of kvs), Lit '' to favorites!'']
                      # card_tail kvs,
                    widget_keys := widget_keys s @ [fav_key (id_of kvs)]\<rparr>)
         else
           (Next, s\<lparr>screen := screen s @ card_head kvs
                      @ InfoMsg [Lit ''Already in favorites!''] # card_tail kvs,
                    widget_keys := widget_keys s @ [fav_key (id_of kvs)]\<rparr>))
      else (Next, s\<lparr>screen := screen s @ card_head kvs @ card_tail kvs,
                    widget_keys := widget_keys s @ [fav_key (id_of kvs)]\<rparr>))"
proof -
  from assms have safe:
    "snd (card_image (PDict kvs)) = None" "snd (card_genres (PDict kvs)) = None"
    "snd (card_trailer (PDict kvs)) = None" "snd (card_link (PDict kvs)) = None"
    by (simp_all add: card_image_shaped card_genres_shaped card_trailer_shaped
        card_link_shaped)
  from assms have metrics:
    "metric_shaped kvs ''score''" "metric_shaped kvs ''episodes''"
    "metric_shaped kvs ''year''" "metric_shaped kvs ''status''"
    by simp_all
  from assms(2) have free: "\<not> list_ex (same_key (fav_key (id_of kvs))) (widget_keys s)"
    by (simp add: key_free_def)
  have button: "st_button label_add (fav_key (id_of kvs)) t
      = (Next, t\<lparr>screen := screen t @ [Button label_add (Keyed (fav_key (id_of kvs)))],
                  widget_keys := widget_keys t @ [fav_key (id_of kvs)]\<rparr>)"
    if "widget_keys t = widget_keys s" for t
    using free that by (simp add: st_button_def)
  show ?thesis
    by (simp add: display_anime_card_def card_favorite_def add_favorite_def emit_def eval_def
        skip_def render_safe safe card_english_safe card_synopsis_safe
        card_metric [OF metrics(1)] card_metric [OF metrics(2)] card_metric [OF metrics(3)]
        card_metric [OF metrics(4)] card_head_def card_tail_def title_of_def
        metric_of_def title_line_def button [unfolded id_of_def] id_of_def)
qed

subsection \<open>What a pass keeps\<close>

definition fetch_blind :: "(state \<Rightarrow> state \<Rightarrow> bool) \<Rightarrow> bool" where
  "fetch_blind R \<longleftrightarrow> (\<forall>s s'. favorites s' = favorites s \<longrightarrow> R s s')"

definition session_invariant :: "(state \<Rightarrow> state \<Rightarrow> bool) \<Rightarrow> bool" where
  "session_invariant R \<longleftrightarrow>
     preorder_on_states R \<and> fetch_blind R \<and> (\<forall>t a. keeps R (add_favorite t a))
     \<and> (\<forall>a. keeps R (remove_favorite a)) \<and> keeps R clear_favorites"

lemma fetch_blind_screen: "fetch_blind R \<Longrightarrow> screen_blind R"
  by (simp add: fetch_blind_def screen_blind_def)

lemma fetch_blind_keys: "fetch_blind R \<Longrightarrow> key_blind R"
  by (simp add: fetch_blind_def key_blind_def)

lemma si_pre: "session_invariant R \<Longrightarrow> preorder_on_states R"
  and si_screen: "session_invariant R \<Longrightarrow> screen_blind R"
  and si_keys: "session_invariant R \<Longrightarrow> key_blind R"
  and si_add: "session_invariant R \<Longrightarrow> keeps R (add_favorite t a)"
  and si_remove: "session_invariant R \<Longrightarrow> keeps R (remove_favorite a)"
  and si_clear: "session_invariant R \<Longrightarrow> keeps R clear_favorites"
  by (simp_all add: session_invariant_def fetch_blind_screen fetch_blind_keys)

lemma si_fetch: "session_invariant R \<Longrightarrow> favorites s' = favorites s \<Longrightarrow> R s s'"
  by (simp add: session_invariant_def fetch_blind_def)

lemma si_button: "session_invariant R \<Longrightarrow> keeps R (st_button label k)"
  by (intro keeps_st_button si_pre si_screen si_keys)

lemma keeps_card: "session_invariant R \<Longrightarrow> keeps R (display_anime_card clicked anime)"
  by (intro keeps_display_anime_card keeps_card_favorite si_pre si_screen si_keys si_add)

lemma keeps_show_cards: "session_invariant R \<Longrightarrow> keeps R (show_cards clicked data)"
  unfolding show_cards_def
  by (intro keeps_eval keeps_for_each keeps_card si_pre)

lemma keeps_rerun_button: "session_invariant R \<Longrightarrow> keeps R (rerun_button label clicked)"
  unfolding rerun_button_def
  by (intro keeps_run_steps si_pre) (auto simp: keeps_emit keeps_rerun keeps_skip si_pre si_screen)

lemma favorites_fetch_top_anime: "favorites (snd (fetch_top_anime net p l s)) = favorites s"
  unfolding fetch_top_anime_def fetch_top_anime_body_def
  by (rule favorites_cache_data) (rule favorites_try_fetch)

lemma favorites_search_anime: "favorites (snd (search_anime net q s)) = favorites s"
  unfolding search_anime_def search_anime_body_def
  by (rule favorites_cache_data) (rule favorites_try_fetch)

lemma favorites_fetch_seasonal_anime:
  "favorites (snd (fetch_seasonal_anime net y se s)) = favorites s"
  unfolding fetch_seasonal_anime_def fetch_seasonal_anime_body_def
  by (rule favorites_cache_data) (rule favorites_try_fetch)

lemma keeps_fetch:
  assumes "session_invariant R" "\<And>s. favorites (snd (f s)) = favorites s"
    and "\<And>v. keeps R (k v)"
  shows "keeps R (with_value f k)"
proof (rule keeps_with_value [OF si_pre [OF assms(1)]])
  show "R s (snd (f s))" for s using assms(1,2) by (rule si_fetch)
qed (rule assms(3))

lemma keeps_listing:
  assumes "session_invariant R" "\<And>ok. keeps R (k ok)"
  shows "keeps R (eval (has_data data) k)"
  by (intro keeps_eval si_pre assms)

lemma si_steps: "session_invariant R \<Longrightarrow> list_all (keeps R) fs \<Longrightarrow> keeps R (run_steps fs)"
  by (rule keeps_run_steps [OF si_pre]) (auto simp: list_all_iff)

lemma si_emit: "session_invariant R \<Longrightarrow> keeps R (emit e)"
  by (simp add: keeps_emit si_screen)

lemma si_render: "session_invariant R \<Longrightarrow> keeps R (render w)"
  by (simp add: keeps_render si_screen)

lemma si_skip: "session_invariant R \<Longrightarrow> keeps R skip"
  by (simp add: keeps_skip si_pre)

lemma si_rerun_button: "session_invariant R \<Longrightarrow> keeps R (rerun_button label clicked)"
  by (simp add: rerun_button_def si_steps si_emit si_skip keeps_rerun si_pre)

lemma si_eval: "session_invariant R \<Longrightarrow> (\<And>v. keeps R (k v)) \<Longrightarrow> keeps R (eval r k)"
  by (simp add: keeps_eval si_pre)

lemmas si_rules = si_steps si_emit si_render si_skip si_rerun_button si_eval keeps_fetch
  keeps_card keeps_show_cards si_remove si_clear si_button

lemma keeps_home_page: "session_invariant R \<Longrightarrow> keeps R (home_page net clicked)"
  by (simp add: home_page_def si_rules favorites_fetch_top_anime)

lemma keeps_search_page: "session_invariant R \<Longrightarrow> keeps R (search_page net w clicked)"
  by (simp add: search_page_def si_rules favorites_search_anime)

lemma keeps_seasonal_page: "session_invariant R \<Longrightarrow> keeps R (seasonal_page net cy w clicked)"
  by (simp add: seasonal_page_def Let_def si_rules favorites_fetch_seasonal_anime)

lemma keeps_top_rated_page: "session_invariant R \<Longrightarrow> keeps R (top_rated_page net w clicked)"
  by (simp add: top_rated_page_def si_rules favorites_fetch_top_anime)

lemma keeps_favorites_entry:
  "session_invariant R \<Longrightarrow> keeps R (favorites_entry net clicked a)"
  by (simp add: favorites_entry_def si_rules favorites_fetch_anime_details)

lemma keeps_favorites_loop:
  assumes "session_invariant R"
  shows "keeps R (favorites_loop net clicked i)"
proof -
  have "R s (snd (favorites_loop net clicked i s))" for s
  proof (induction net clicked i s rule: favorites_loop.induct)
    case (1 net clicked i s)
    show ?case
    proof (cases "i < length (favorites s)")
      case False
      then show ?thesis
        using si_pre [OF assms]
        by (subst favorites_loop.simps) (simp add: preorder_on_states_def)
    next
      case True
      obtain c s' where e: "favorites_entry net clicked (favorites s ! i) s = (c, s')"
        by (cases "favorites_entry net clicked (favorites s ! i) s")
      have r: "R s s'" using keepsD [OF keeps_favorites_entry [OF assms] e] .
      show ?thesis
      proof (cases "c = Next")
        case yes: True
        from "1.IH" [OF True e [symmetric] yes]
        have "R s' (snd (favorites_loop net clicked (Suc i) s'))" .
        with r si_pre [OF assms] have "R s (snd (favorites_loop net clicked (Suc i) s'))"
          unfolding preorder_on_states_def by blast
        then show ?thesis
          using True e yes by (subst favorites_loop.simps) simp
      next
        case no: False
        have "favorites_loop net clicked i s = (c, s')"
          using True e no by (subst favorites_loop.simps) (simp split: control.splits)
        with r show ?thesis by simp
      qed
    qed
  qed
  then show ?thesis by (simp add: keeps_def)
qed

lemma keeps_favorites_page:
  assumes "session_invariant R"
  shows "keeps R (favorites_page net clicked)"
proof -
  have 1: "keeps R (favorites_listing net clicked)"
    unfolding keeps_def
  proof
    fix s :: state
    have "keeps R (run_steps
       [emit (SuccessMsg [Lit ''You have '', Fmt (PInt (int (length (favorites s)))),
                          Lit '' favorites'']),
        emit (Button label_clear (Labelled label_clear)),
        if clicked = Some (Labelled label_clear) then clear_favorites else skip,
        favorites_loop net clicked 0])"
      using assms by (simp add: si_rules keeps_favorites_loop)
    then show "R s (snd (favorites_listing net clicked s))"
      by (simp add: keeps_def favorites_listing_def)
  qed
  have 2: "keeps R (favorites_empty clicked)"
    using assms by (simp add: favorites_empty_def si_rules)
  have "keeps R (\<lambda>s. if favorites s \<noteq> [] then favorites_listing net clicked s
             else favorites_empty clicked s)"
    using 1 2 by (simp add: keeps_def)
  then show ?thesis using assms by (simp add: favorites_page_def si_rules)
qed

lemma keeps_script: "session_invariant R \<Longrightarrow> keeps R (script net cy w clicked)"
  by (cases "nav w")
     (simp_all add: script_def si_rules keeps_home_page keeps_search_page keeps_seasonal_page
       keeps_top_rated_page keeps_favorites_page)

subsection \<open>The favorites list\<close>

text \<open>
  No two items of the list are equal in Python's sense. A session is the sequence of the
  user's interactions, from the first page load.
\<close>

fun no_duplicates :: "pyval list \<Rightarrow> bool" where
  "no_duplicates [] = True"
| "no_duplicates (x # xs) = (\<not> py_in x xs \<and> no_duplicates xs)"

definition session :: "network \<Rightarrow> int \<Rightarrow> event list \<Rightarrow> widgets \<times> state" where
  "session net cy evs =
     foldl (\<lambda>ws ev. case interact net cy ev ws of (w', c, s') \<Rightarrow> (w', s'))
       (initial_widgets, initial_state) evs"

lemma py_eq_dict:
  "py_eq (PDict a) (PDict b) \<longleftrightarrow>
     fst ` set a = fst ` set b \<and>
     (\<forall>k v. map_of a k = Some v \<longrightarrow> (\<exists>v'. map_of b k = Some v' \<and> py_eq v v'))"
proof -
  have "list_all (\<lambda>(k, v). case map_of b k of None \<Rightarrow> False
          | Some v' \<Rightarrow> map_of a k = Some v \<longrightarrow> py_eq v v') a
        \<longleftrightarrow> (\<forall>k v. map_of a k = Some v \<longrightarrow> (\<exists>v'. map_of b k = Some v' \<and> py_eq v v'))"
    (is "?L \<longleftrightarrow> ?R")
  proof
    assume l: ?L
    show ?R
    proof (intro allI impI)
      fix k v assume m: "map_of a k = Some v"
      then have "(k, v) \<in> set a" by (rule map_of_SomeD)
      with l m show "\<exists>v'. map_of b k = Some v' \<and> py_eq v v'"
        by (auto simp: list_all_iff split: option.splits)
    qed
  next
    assume r: ?R
    show ?L
      unfolding list_all_iff
    proof clarify
      fix k v assume "(k, v) \<in> set a"
      then obtain w where w: "map_of a k = Some w"
        by (metis weak_map_of_SomeI)
      with r obtain v' where "map_of b k = Some v'" "py_eq w v'" by blast
      with w show "case map_of b k of None \<Rightarrow> False
          | Some v' \<Rightarrow> map_of a k = Some v \<longrightarrow> py_eq v v'" by auto
    qed
  qed
  then show ?thesis by simp
qed

lemma py_eq_num: "num_val x = Some r \<Longrightarrow> py_eq x y \<longleftrightarrow> num_val y = Some r"
  by (cases x) (auto split: if_splits)

lemma py_eq_sym: "py_eq x y \<Longrightarrow> py_eq y x"
proof (induction x y rule: py_eq.induct)
  case (6 xs y)
  then show ?case by (cases y) auto
next
  case (7 a y)
  from "7.prems" obtain b where y: "y = PDict b" by (cases y) auto
  from "7.prems" have keys: "fst ` set a = fst ` set b"
    and fwd: "\<And>k v. map_of a k = Some v \<Longrightarrow> \<exists>v'. map_of b k = Some v' \<and> py_eq v v'"
    unfolding y py_eq_dict by blast+
  have "\<exists>v. map_of a k = Some v \<and> py_eq v' v" if m: "map_of b k = Some v'" for k v'
  proof -
    from m have "k \<in> fst ` set b" by (metis map_of_SomeD fst_conv image_eqI)
    with keys obtain v where v: "map_of a k = Some v"
      by (metis weak_map_of_SomeI imageE prod.collapse)
    from fwd [OF v] m have e: "py_eq v v'" by simp
    have "(k, v) \<in> set a" using v by (rule map_of_SomeD)
    from "7.IH" [OF y this refl m v e] v show ?thesis by blast
  qed
  with keys show ?case unfolding y py_eq_dict by blast
qed (auto split: pyval.splits if_splits elim: num_val.elims)

lemma py_eq_trans: "py_eq x y \<Longrightarrow> py_eq y z \<Longrightarrow> py_eq x z"
proof (induction x y arbitrary: z rule: py_eq.induct)
  case (6 xs y)
  from "6.prems" obtain ys where y: "y = PList ys" by (cases y) auto
  with "6.prems" obtain zs where z: "z = PList zs" by (cases z) auto
  from "6.prems" "6.IH" [OF y] show ?case unfolding y z by auto
next
  case (7 a y)
  from "7.prems" obtain b where y: "y = PDict b" by (cases y) auto
  with "7.prems" obtain c where z: "z = PDict c" by (cases z) auto
  from "7.prems" have keys: "fst ` set a = fst ` set c"
    and ab: "\<And>k v. map_of a k = Some v \<Longrightarrow> \<exists>v'. map_of b k = Some v' \<and> py_eq v v'"
    and bc: "\<And>k v. map_of b k = Some v \<Longrightarrow> \<exists>v'. map_of c k = Some v' \<and> py_eq v v'"
    unfolding y z py_eq_dict by auto
  have "\<exists>w. map_of c k = Some w \<and> py_eq v w" if m: "map_of a k = Some v" for k v
  proof -
    from ab [OF m] obtain v' where v': "map_of b k = Some v'" "py_eq v v'" by blast
    from bc [OF v'(1)] obtain w where w: "map_of c k = Some w" "py_eq v' w" by blast
    have "(k, v) \<in> set a" using m by (rule map_of_SomeD)
    from "7.IH" [OF y this refl v'(1) m v'(2) w(2)] w(1) show ?thesis by blast
  qed
  with keys show ?case unfolding z py_eq_dict by blast
next
  case (1 y) then show ?case by simp
next
  case (2 b y) then show ?case by (simp add: py_eq_num)
next
  case (3 i y) then show ?case by (simp add: py_eq_num)
next
  case (4 r y) then show ?case by (simp add: py_eq_num)
next
  case (5 s y) then show ?case by simp
qed

lemma py_in_Cons: "py_in x (y # ys) \<longleftrightarrow> py_eq y x \<or> py_in x ys"
  by (simp add: py_in_def)

lemma py_in_Nil: "\<not> py_in x []"
  by (simp add: py_in_def)

lemma no_duplicates_append:
  "no_duplicates xs \<Longrightarrow> \<not> py_in a xs \<Longrightarrow> no_duplicates (xs @ [a])"
proof (induction xs)
  case Nil
  then show ?case by (simp add: py_in_Nil)
next
  case (Cons x xs)
  then show ?case
    using py_eq_sym [of a x] by (auto simp: py_in_Cons py_in_append py_in_single py_in_Nil)
qed

lemma py_in_remove_first: "py_in b (remove_first a xs) \<Longrightarrow> py_in b xs"
  by (induction xs) (auto simp: py_in_Cons split: if_splits)

lemma no_duplicates_remove_first: "no_duplicates xs \<Longrightarrow> no_duplicates (remove_first a xs)"
  by (induction xs) (auto dest: py_in_remove_first)

lemma py_in_congruent: "py_eq x a \<Longrightarrow> py_in a xs \<Longrightarrow> py_in x xs"
  unfolding py_in_def list_ex_iff
  by (meson py_eq_sym py_eq_trans)

lemma removed_is_gone: "no_duplicates xs \<Longrightarrow> \<not> py_in a (remove_first a xs)"
proof (induction xs)
  case Nil
  then show ?case by (simp add: py_in_Nil)
next
  case (Cons x xs)
  then show ?case
    using py_in_congruent [of x a xs] by (auto simp: py_in_Cons)
qed


definition keeps_no_duplicates :: "state \<Rightarrow> state \<Rightarrow> bool" where
  "keeps_no_duplicates s s' \<longleftrightarrow>
     (no_duplicates (favorites s) \<longrightarrow> no_duplicates (favorites s'))"

lemma no_duplicates_invariant: "session_invariant keeps_no_duplicates"
  unfolding session_invariant_def
proof (intro conjI allI)
  show "preorder_on_states keeps_no_duplicates"
    by (auto simp: preorder_on_states_def keeps_no_duplicates_def)
  show "fetch_blind keeps_no_duplicates"
    by (simp add: fetch_blind_def keeps_no_duplicates_def)
  show "keeps keeps_no_duplicates (add_favorite t a)" for t a
    by (simp add: keeps_def keeps_no_duplicates_def add_favorite_def emit_def render_def
        no_duplicates_append)
  show "keeps keeps_no_duplicates (remove_favorite a)" for a
    by (simp add: keeps_def keeps_no_duplicates_def remove_favorite_def py_remove_def
        no_duplicates_remove_first)
  show "keeps keeps_no_duplicates clear_favorites"
    by (simp add: keeps_def keeps_no_duplicates_def clear_favorites_def)
qed

lemma pass_no_duplicates:
  assumes "no_duplicates (favorites s)" "pass net cy w clicked s = (c, s')"
  shows "no_duplicates (favorites s')"
proof -
  have "keeps_no_duplicates (s\<lparr>screen := [], widget_keys := []\<rparr>) s'"
    using keepsD [OF keeps_script [OF no_duplicates_invariant]] assms(2)
    unfolding pass_def by blast
  with assms(1) show ?thesis by (simp add: keeps_no_duplicates_def)
qed

lemma interact_no_duplicates:
  assumes "no_duplicates (favorites s)" "interact net cy ev (w, s) = (w', c, s')"
  shows "no_duplicates (favorites s')"
proof -
  obtain c1 s1 where p1: "pass net cy (apply_event cy ev w) (clicked_by ev) s = (c1, s1)"
    by (cases "pass net cy (apply_event cy ev w) (clicked_by ev) s")
  have n1: "no_duplicates (favorites s1)" using pass_no_duplicates [OF assms(1) p1] .
  show ?thesis
  proof (cases "c1 = Rerun")
    case True
    with assms(2) p1 have "pass net cy (apply_event cy ev w) None s1 = (c, s')"
      by (auto simp: interact_def Let_def)
    then show ?thesis using pass_no_duplicates [OF n1] by blast
  next
    case False
    with assms(2) p1 have "s' = s1"
      by (cases c1) (simp_all add: interact_def Let_def)
    with n1 show ?thesis by simp
  qed
qed

lemma session_no_duplicates: "no_duplicates (favorites (snd (session net cy evs)))"
proof (induction evs rule: rev_induct)
  case Nil
  then show ?case by (simp add: session_def initial_state_def)
next
  case (snoc ev evs)
  obtain w s where ws: "session net cy evs = (w, s)" by (cases "session net cy evs")
  obtain w' c s' where i: "interact net cy ev (w, s) = (w', c, s')"
    by (cases "interact net cy ev (w, s)") auto
  from snoc ws have "no_duplicates (favorites s)" by simp
  from interact_no_duplicates [OF this i] have "no_duplicates (favorites s')" .
  moreover have "session net cy (evs @ [ev]) = (w', s')"
    using ws i by (simp add: session_def)
  ultimately show ?case by simp
qed

text \<open>
  C2. Adding an identifier that is already a favorite leaves the list as it is and shows the
  notice "Already in favorites!" in place of the confirmation; adding twice leaves the same
  list as adding once; in every state a session reaches the list has no duplicates; and an
  identifier that was removed is no longer in the list, so that adding it appends it again.
\<close>

theorem favorites_add_idempotent:
  "(py_in anime_id (favorites s) \<longrightarrow>
      add_favorite title anime_id s =
        (Next, s\<lparr>screen := screen s @ [InfoMsg [Lit ''Already in favorites!'']]\<rparr>))
   \<and> favorites (snd (add_favorite title anime_id (snd (add_favorite title anime_id s))))
       = favorites (snd (add_favorite title anime_id s))
   \<and> no_duplicates (favorites (snd (session net cy evs)))
   \<and> (no_duplicates (favorites s) \<and> py_in anime_id (favorites s) \<longrightarrow>
        (\<exists>s1. remove_favorite anime_id s = (Rerun, s1)
           \<and> \<not> py_in anime_id (favorites s1)
           \<and> add_favorite title anime_id s1 =
               (Next, s1\<lparr>favorites := favorites s1 @ [anime_id],
                         screen := screen s1 @
                           [SuccessMsg [Lit ''Added '', Fmt title, Lit '' to favorites!'']]\<rparr>)))"
proof (intro conjI impI)
  show "no_duplicates (favorites (snd (session net cy evs)))"
    by (rule session_no_duplicates)
  show "favorites (snd (add_favorite title anime_id (snd (add_favorite title anime_id s))))
       = favorites (snd (add_favorite title anime_id s))"
    by (simp add: add_favorite_def emit_def render_def py_in_append py_in_single py_eq_refl)
next
  assume "py_in anime_id (favorites s)"
  then show "add_favorite title anime_id s =
        (Next, s\<lparr>screen := screen s @ [InfoMsg [Lit ''Already in favorites!'']]\<rparr>)"
    by (simp add: add_favorite_def emit_def render_def)
next
  assume a: "no_duplicates (favorites s) \<and> py_in anime_id (favorites s)"
  let ?s1 = "s\<lparr>favorites := remove_first anime_id (favorites s)\<rparr>"
  have "remove_favorite anime_id s = (Rerun, ?s1)"
    using a by (simp add: remove_favorite_def py_remove_def)
  moreover have gone: "\<not> py_in anime_id (favorites ?s1)"
    using a by (simp add: removed_is_gone)
  moreover have "add_favorite title anime_id ?s1 =
               (Next, ?s1\<lparr>favorites := favorites ?s1 @ [anime_id],
                         screen := screen ?s1 @
                           [SuccessMsg [Lit ''Added '', Fmt title, Lit '' to favorites!'']]\<rparr>)"
    using gone by (simp add: add_favorite_def emit_def render_def)
  ultimately show "\<exists>s1. remove_favorite anime_id s = (Rerun, s1)
           \<and> \<not> py_in anime_id (favorites s1)
           \<and> add_favorite title anime_id s1 =
               (Next, s1\<lparr>favorites := favorites s1 @ [anime_id],
                         screen := screen s1 @
                           [SuccessMsg [Lit ''Added '', Fmt title, Lit '' to favorites!'']]\<rparr>)"
    by blast
qed


theorem favorites_add_idempotent_witness:
  "py_in (PFloat 1) (favorites (initial_state\<lparr>favorites := [PInt 1, PInt 2]\<rparr>))
   \<and> no_duplicates (favorites (initial_state\<lparr>favorites := [PInt 1, PInt 2]\<rparr>))
   \<and> add_favorite (PStr ''A'') (PFloat 1) (initial_state\<lparr>favorites := [PInt 1, PInt 2]\<rparr>) =
        (Next, initial_state\<lparr>favorites := [PInt 1, PInt 2],
                 screen := [InfoMsg [Lit ''Already in favorites!'']]\<rparr>)
   \<and> remove_favorite (PFloat 1) (initial_state\<lparr>favorites := [PInt 1, PInt 2]\<rparr>) =
        (Rerun, initial_state\<lparr>favorites := [PInt 2]\<rparr>)
   \<and> favorites (snd (add_favorite (PStr ''A'') (PFloat 1) (initial_state\<lparr>favorites := [PInt 2]\<rparr>)))
        = [PInt 2, PFloat 1]"
  using favorites_add_idempotent [of "PFloat 1" "initial_state\<lparr>favorites := [PInt 1, PInt 2]\<rparr>"
      "PStr ''A''" "\<lambda>n u. (Fails TimedOut, 0)" 2024 "[]"]
  by (auto simp: py_in_def initial_state_def remove_favorite_def py_remove_def)

text \<open>
  C10. Adding an identifier that is not yet a favorite appends it at the end of the list:
  the identifiers stored before stay, in their order, and the confirmation is shown.
\<close>

theorem add_favorite_appends:
  "(\<not> py_in anime_id (favorites s) \<longrightarrow>
      add_favorite title anime_id s =
        (Next, s\<lparr>favorites := favorites s @ [anime_id],
                 screen := screen s @
                   [SuccessMsg [Lit ''Added '', Fmt title, Lit '' to favorites!'']]\<rparr>))"
  by (simp add: add_favorite_def emit_def render_def)

theorem add_favorite_appends_witness:
  "\<not> py_in (PInt 7) (favorites (initial_state\<lparr>favorites := [PInt 5, PInt 3]\<rparr>))
   \<and> add_favorite (PStr ''A'') (PInt 7) (initial_state\<lparr>favorites := [PInt 5, PInt 3]\<rparr>) =
        (Next, initial_state\<lparr>favorites := [PInt 5, PInt 3, PInt 7],
                 screen := [SuccessMsg [Lit ''Added '', Fmt (PStr ''A''),
                                        Lit '' to favorites!'']]\<rparr>)"
  using add_favorite_appends [of "PInt 7" "initial_state\<lparr>favorites := [PInt 5, PInt 3]\<rparr>"
      "PStr ''A''"]
  by (simp add: py_in_def initial_state_def)

subsection \<open>Fetching and caching\<close>

text \<open>The fetch function that a cache key stands for.\<close>

fun fetch_of :: "network \<Rightarrow> call \<Rightarrow> state \<Rightarrow> pyval \<times> state" where
  "fetch_of net (TopAnime page limit) = fetch_top_anime net page limit"
| "fetch_of net (SearchAnime query) = search_anime net query"
| "fetch_of net (AnimeDetails anime_id) = fetch_anime_details net anime_id"
| "fetch_of net (SeasonalAnime year season) = fetch_seasonal_anime net year season"

fun fetch_body_of :: "network \<Rightarrow> call \<Rightarrow> state \<Rightarrow> (pyval \<times> element list) \<times> state" where
  "fetch_body_of net (TopAnime page limit) = fetch_top_anime_body net page limit"
| "fetch_body_of net (SearchAnime query) = search_anime_body net query"
| "fetch_body_of net (AnimeDetails anime_id) = fetch_anime_details_body net anime_id"
| "fetch_body_of net (SeasonalAnime year season) = fetch_seasonal_anime_body net year season"

fun url_of :: "call \<Rightarrow> fstring" where
  "url_of (TopAnime page limit) = top_anime_url page limit"
| "url_of (SearchAnime query) = search_url query"
| "url_of (AnimeDetails anime_id) = details_url anime_id"
| "url_of (SeasonalAnime year season) = seasonal_url year season"

fun error_text_of :: "call \<Rightarrow> string" where
  "error_text_of (TopAnime page limit) = ''Error fetching anime data: ''"
| "error_text_of (SearchAnime query) = ''Error searching anime: ''"
| "error_text_of (AnimeDetails anime_id) = ''Error fetching anime details: ''"
| "error_text_of (SeasonalAnime year season) = ''Error fetching seasonal anime: ''"

lemma fetch_of_cache_data: "fetch_of net k = cache_data k (fetch_body_of net k)"
  by (cases k)
     (simp_all add: fetch_top_anime_def search_anime_def fetch_anime_details_def
       fetch_seasonal_anime_def)

lemma fetch_body_of_try: "fetch_body_of net k = try_fetch net (url_of k) (error_text_of k)"
  by (cases k)
     (simp_all add: fetch_top_anime_body_def search_anime_body_def fetch_anime_details_body_def
       fetch_seasonal_anime_body_def)

lemma cache_data_hit:
  "live_entry s k = Some e \<Longrightarrow>
     cache_data k body s = (payload e, s\<lparr>screen := screen s @ replay e\<rparr>)"
  by (simp add: cache_data_def)

lemma cache_data_miss:
  "live_entry s k = None \<Longrightarrow> body s = ((v, msgs), s') \<Longrightarrow>
     cache_data k body s =
       (v, s'\<lparr>cache := (cache s')(k \<mapsto> \<lparr>payload = v, replay = msgs, created = clock s'\<rparr>),
              screen := screen s' @ msgs\<rparr>)"
  by (simp add: cache_data_def)

lemma live_entryI: "cache s k = Some e \<Longrightarrow> clock s < created e + ttl \<Longrightarrow> live_entry s k = Some e"
  by (simp add: live_entry_def)

lemma live_entry_SomeD: "live_entry s k = Some e \<Longrightarrow> cache s k = Some e \<and> clock s < created e + ttl"
  by (auto simp: live_entry_def split: option.splits if_splits)

lemma cache_data_repeat:
  assumes "cache_data k body s0 = (v, s1)"
  shows "\<exists>e. cache s1 k = Some e \<and> payload e = v
           \<and> (live_entry s0 k = None \<longrightarrow> created e = clock s1)
           \<and> (\<forall>s2 body'. cache s2 k = Some e \<and> clock s2 < created e + ttl \<longrightarrow>
                 cache_data k body' s2 = (v, s2\<lparr>screen := screen s2 @ replay e\<rparr>))"
proof (cases "live_entry s0 k")
  case None
  obtain v' msgs s' where b: "body s0 = ((v', msgs), s')"
    by (cases "body s0") auto
  let ?e = "\<lparr>payload = v', replay = msgs, created = clock s'\<rparr>"
  from cache_data_miss [of s0 k body, OF None b] assms
  have v: "v = v'" and s1: "s1 = s'\<lparr>cache := (cache s')(k \<mapsto> ?e), screen := screen s' @ msgs\<rparr>"
    by simp_all
  have "cache s1 k = Some ?e" "payload ?e = v" "created ?e = clock s1"
    by (simp_all add: s1 v)
  moreover have "cache_data k body' s2 = (v, s2\<lparr>screen := screen s2 @ replay ?e\<rparr>)"
    if "cache s2 k = Some ?e \<and> clock s2 < created ?e + ttl" for s2 body'
    using cache_data_hit [OF live_entryI, of s2 k ?e body'] that v by simp
  ultimately show ?thesis by blast
next
  case (Some e)
  from cache_data_hit [OF Some] assms
  have v: "v = payload e" and s1: "s1 = s0\<lparr>screen := screen s0 @ replay e\<rparr>" by simp_all
  have "cache s1 k = Some e" using live_entry_SomeD [OF Some] by (simp add: s1)
  moreover have "cache_data k body' s2 = (v, s2\<lparr>screen := screen s2 @ replay e\<rparr>)"
    if "cache s2 k = Some e \<and> clock s2 < created e + ttl" for s2 body'
    using cache_data_hit [OF live_entryI, of s2 k e body'] that v by simp
  ultimately show ?thesis using Some v by auto
qed

text \<open>
  C3. Take any of the four fetch functions and any arguments, and let a call return \<open>v\<close>.
  Then the cache holds an entry for these arguments with payload \<open>v\<close>, created at the time
  the call ended if the call had to ask the network; and in any later state that still has
  this entry and whose clock is less than 3600 seconds past its creation, the same call,
  on whatever network, returns \<open>v\<close> again and changes nothing but the page, on which it
  replays the entry's messages: no request is sent.
\<close>

theorem cached_fetch_repeats:
  "fetch_of net k s0 = (v, s1) \<longrightarrow>
     (\<exists>e. cache s1 k = Some e \<and> payload e = v
        \<and> (live_entry s0 k = None \<longrightarrow> created e = clock s1)
        \<and> (\<forall>s2 net'. cache s2 k = Some e \<and> clock s2 < created e + 3600 \<longrightarrow>
              fetch_of net' k s2 = (v, s2\<lparr>screen := screen s2 @ replay e\<rparr>)
              \<and> sent (snd (fetch_of net' k s2)) = sent s2))"
proof
  assume "fetch_of net k s0 = (v, s1)"
  then have "cache_data k (fetch_body_of net k) s0 = (v, s1)"
    by (simp add: fetch_of_cache_data)
  from cache_data_repeat [OF this] obtain e where e:
    "cache s1 k = Some e" "payload e = v" "live_entry s0 k = None \<longrightarrow> created e = clock s1"
    "\<forall>s2 body'. cache s2 k = Some e \<and> clock s2 < created e + ttl \<longrightarrow>
        cache_data k body' s2 = (v, s2\<lparr>screen := screen s2 @ replay e\<rparr>)"
    by (elim exE conjE)
  have r: "fetch_of net' k s2 = (v, s2\<lparr>screen := screen s2 @ replay e\<rparr>)
        \<and> sent (snd (fetch_of net' k s2)) = sent s2"
    if "cache s2 k = Some e \<and> clock s2 < created e + 3600" for s2 net'
    using e(4) [rule_format, of s2 "fetch_body_of net' k"] that
    by (simp add: fetch_of_cache_data ttl_def)
  show "\<exists>e. cache s1 k = Some e \<and> payload e = v
        \<and> (live_entry s0 k = None \<longrightarrow> created e = clock s1)
        \<and> (\<forall>s2 net'. cache s2 k = Some e \<and> clock s2 < created e + 3600 \<longrightarrow>
              fetch_of net' k s2 = (v, s2\<lparr>screen := screen s2 @ replay e\<rparr>)
              \<and> sent (snd (fetch_of net' k s2)) = sent s2)"
  proof (intro exI [of _ e] conjI allI impI)
    show "cache s1 k = Some e" "payload e = v" by (fact e)+
    show "created e = clock s1" if "live_entry s0 k = None" using e(3) that by simp
  qed (use r in simp_all)
qed


text \<open>Example values for the instances below.\<close>

definition example_listing :: pyval where
  "example_listing = PDict [(''data'', PList [PDict [(''mal_id'', PInt 1), (''title'', PStr ''A'')]])]"

definition network_up :: network where
  "network_up n url = (Responds \<lparr>status_code = 200, json_body = Some example_listing\<rparr>, 2)"

definition network_down :: network where
  "network_down n url = (Fails ConnectionFailed, 10)"

theorem cached_fetch_repeats_witness:
  "fetch_of network_up (TopAnime 1 10) initial_state =
     (example_listing,
      initial_state\<lparr>cache := (\<lambda>k. None)(TopAnime 1 10 \<mapsto>
                        \<lparr>payload = example_listing, replay = [], created = 2\<rparr>),
                    clock := 2, sent := [top_anime_url 1 10]\<rparr>)
   \<and> fetch_of network_down (TopAnime 1 10)
        (initial_state\<lparr>cache := (\<lambda>k. None)(TopAnime 1 10 \<mapsto>
                        \<lparr>payload = example_listing, replay = [], created = 2\<rparr>),
                    clock := 3601, sent := [top_anime_url 1 10]\<rparr>) =
     (example_listing,
      initial_state\<lparr>cache := (\<lambda>k. None)(TopAnime 1 10 \<mapsto>
                        \<lparr>payload = example_listing, replay = [], created = 2\<rparr>),
                    clock := 3601, sent := [top_anime_url 1 10]\<rparr>)"
proof -
  let ?e = "\<lparr>payload = example_listing, replay = [], created = 2\<rparr>"
  let ?s1 = "initial_state\<lparr>cache := (\<lambda>k. None)(TopAnime 1 10 \<mapsto> ?e),
                    clock := 2, sent := [top_anime_url 1 10]\<rparr>"
  let ?s2 = "initial_state\<lparr>cache := (\<lambda>k. None)(TopAnime 1 10 \<mapsto> ?e),
                    clock := 3601, sent := [top_anime_url 1 10]\<rparr>"
  have first: "fetch_of network_up (TopAnime 1 10) initial_state = (example_listing, ?s1)"
    by (simp add: fetch_top_anime_def fetch_top_anime_body_def cache_data_def live_entry_def
        try_fetch_def get_json_def requests_get_def network_up_def raise_for_status_def
        response_json_def and_then_def initial_state_def)
  from cached_fetch_repeats [of network_up "TopAnime 1 10" initial_state example_listing ?s1] first
  obtain e where e: "cache ?s1 (TopAnime 1 10) = Some e"
    and again: "\<forall>s2 net'. cache s2 (TopAnime 1 10) = Some e \<and> clock s2 < created e + 3600 \<longrightarrow>
              fetch_of net' (TopAnime 1 10) s2 = (example_listing, s2\<lparr>screen := screen s2 @ replay e\<rparr>)
              \<and> sent (snd (fetch_of net' (TopAnime 1 10) s2)) = sent s2"
    by blast
  from e have e_eq: "e = ?e" by (simp add: initial_state_def)
  have "cache ?s2 (TopAnime 1 10) = Some e \<and> clock ?s2 < created e + 3600"
    by (simp add: e_eq initial_state_def)
  with again have "fetch_of network_down (TopAnime 1 10) ?s2
      = (example_listing, ?s2\<lparr>screen := screen ?s2 @ replay e\<rparr>)"
    by blast
  then have "fetch_of network_down (TopAnime 1 10) ?s2 = (example_listing, ?s2)"
    by (simp add: e_eq initial_state_def)
  with first show ?thesis by simp
qed

lemma sent_requests_get: "sent (snd (requests_get net url s)) = sent s @ [url]"
  by (simp add: requests_get_def split: prod.splits)

lemma sent_get_json: "sent (snd (get_json net url s)) = sent s @ [url]"
  using sent_requests_get [of net url s]
  by (auto simp: get_json_def split: prod.splits reply.splits)

lemma sent_try_fetch: "sent (snd (try_fetch net url msg s)) = sent s @ [url]"
  using sent_get_json [of net url s]
  by (auto simp: try_fetch_def split: prod.splits sum.splits)

lemma sent_fetch_miss:
  assumes "live_entry s k = None"
  shows "sent (snd (fetch_of net k s)) = sent s @ [url_of k]"
proof -
  obtain v msgs s' where b: "fetch_body_of net k s = ((v, msgs), s')"
    by (cases "fetch_body_of net k s") auto
  then have "sent s' = sent s @ [url_of k]"
    using sent_try_fetch [of net "url_of k" "error_text_of k" s] by (simp add: fetch_body_of_try)
  then show ?thesis
    using cache_data_miss [of s k "fetch_body_of net k", OF assms b]
    by (simp add: fetch_of_cache_data)
qed

text \<open>
  C7. The body of \<open>fetch_top_anime\<close> sends exactly one request, to the URL
  \<^verbatim>\<open>https://api.jikan.moe/v4/top/anime?page={page}&limit={limit}\<close> with the two arguments
  formatted into it as they are; so does the cached function whenever the cache has no
  live entry for the arguments. \<open>search_anime\<close> likewise sends its one request to
  \<^verbatim>\<open>https://api.jikan.moe/v4/anime?q={query}&limit=20\<close>. This holds for every page and
  limit, the valid ones (page at least 1, limit positive) among them.
\<close>

theorem fetch_sends_one_request:
  "sent (snd (fetch_top_anime_body net page limit s)) =
     sent s @ [[Lit ''https://api.jikan.moe/v4/top/anime?page='', Fmt (PInt page),
                Lit ''&limit='', Fmt (PInt limit)]]
   \<and> (live_entry s (TopAnime page limit) = None \<longrightarrow>
        sent (snd (fetch_top_anime net page limit s)) =
          sent s @ [[Lit ''https://api.jikan.moe/v4/top/anime?page='', Fmt (PInt page),
                     Lit ''&limit='', Fmt (PInt limit)]])
   \<and> sent (snd (search_anime_body net query s)) =
        sent s @ [[Lit ''https://api.jikan.moe/v4/anime?q='', Fmt (PStr query),
                   Lit ''&limit=20'']]
   \<and> (live_entry s (SearchAnime query) = None \<longrightarrow>
        sent (snd (search_anime net query s)) =
          sent s @ [[Lit ''https://api.jikan.moe/v4/anime?q='', Fmt (PStr query),
                     Lit ''&limit=20'']])"
  using sent_fetch_miss [of s "TopAnime page limit" net]
    sent_fetch_miss [of s "SearchAnime query" net]
  by (simp add: fetch_top_anime_body_def search_anime_body_def sent_try_fetch
      top_anime_url_def search_url_def api_def)

theorem fetch_sends_one_request_witness:
  "live_entry initial_state (TopAnime 3 25) = None
   \<and> live_entry initial_state (SearchAnime ''naruto'') = None
   \<and> sent (snd (fetch_top_anime network_up 3 25 initial_state)) =
        [[Lit ''https://api.jikan.moe/v4/top/anime?page='', Fmt (PInt 3),
          Lit ''&limit='', Fmt (PInt 25)]]
   \<and> sent (snd (search_anime network_down ''naruto'' initial_state)) =
        [[Lit ''https://api.jikan.moe/v4/anime?q='', Fmt (PStr ''naruto''), Lit ''&limit=20'']]"
  using fetch_sends_one_request [of network_up 3 25 initial_state "''naruto''"]
    fetch_sends_one_request [of network_down 3 25 initial_state "''naruto''"]
  by (simp add: live_entry_def initial_state_def)

subsection \<open>The card\<close>

lemma st_image_element: "st_image v = Inr e \<Longrightarrow> e = Image v"
  by (cases v) (auto split: if_splits)

lemma st_link_button_element: "st_link_button label v = Inr e \<Longrightarrow> e = LinkButton label v"
  by (cases v) auto

lemma no_metric_in_parts:
  "filter is_metric (fst (card_image a)) = []"
  "filter is_metric (fst (card_english a)) = []"
  "filter is_metric (fst (card_genres a)) = []"
  "filter is_metric (fst (card_synopsis a)) = []"
  "filter is_metric (fst (card_link a)) = []"
  "filter is_metric (fst (card_trailer a)) = []"
  by (auto simp: card_image_def card_english_def card_genres_def card_synopsis_def
      card_link_def card_trailer_def compute_def put_def nothing_def is_metric_def
      dest!: st_image_element st_link_button_element split: sum.splits)

lemma metrics_of_card:
  "filter is_metric (card_head kvs @ extra @ card_tail kvs) =
     [Metric label_score (metric_of kvs ''score''), Metric label_episodes (metric_of kvs ''episodes''),
      Metric label_year (metric_of kvs ''year''), Metric label_status (metric_of kvs ''status'')]
     @ filter is_metric extra"
  by (simp add: card_head_def card_tail_def no_metric_in_parts title_line_def)
     (simp add: is_metric_def)

lemma card_written:
  assumes "item_shaped (PDict kvs)" and "key_free kvs s"
  shows "\<exists>extra. filter is_metric extra = []
           \<and> display_anime_card clicked (PDict kvs) s =
               (Next, s\<lparr>favorites := favorites (snd (display_anime_card clicked (PDict kvs) s)),
                        screen := screen s @ card_head kvs @ extra @ card_tail kvs,
                        widget_keys := widget_keys s @ [fav_key (id_of kvs)]\<rparr>)"
proof -
  consider (added) "is_clicked clicked (fav_key (id_of kvs))" "\<not> py_in (id_of kvs) (favorites s)"
    | (present) "is_clicked clicked (fav_key (id_of kvs))" "py_in (id_of kvs) (favorites s)"
    | (other) "\<not> is_clicked clicked (fav_key (id_of kvs))"
    by blast
  then show ?thesis
  proof cases
    case added
    then show ?thesis
      by (intro exI [of _ "[SuccessMsg [Lit ''Added '', Fmt (title_of kvs), Lit '' to favorites!'']]"])
         (simp add: display_anime_card_shaped [OF assms] is_metric_def)
  next
    case present
    then show ?thesis
      by (intro exI [of _ "[InfoMsg [Lit ''Already in favorites!'']]"])
         (simp add: display_anime_card_shaped [OF assms] is_metric_def)
  next
    case other
    then show ?thesis
      by (intro exI [of _ "[]"]) (simp add: display_anime_card_shaped [OF assms])
  qed
qed


lemma live_entry_screen [simp]: "live_entry (s\<lparr>screen := es\<rparr>) k = live_entry s k"
  by (simp add: live_entry_def split: option.splits)

lemma live_entry_keys [simp]: "live_entry (s\<lparr>widget_keys := ks\<rparr>) k = live_entry s k"
  by (simp add: live_entry_def split: option.splits)

lemma example_image_url: "http_url ''https://cdn.myanimelist.net/images/anime/7.jpg''"
  by code_simp

text \<open>A fetch that has to ask the network and gets a JSON body with a status below 400.\<close>

lemma fetch_miss_ok:
  assumes "live_entry s k = None" "net (length (sent s)) (url_of k) = (Responds r, dt)"
    and "\<not> (400 \<le> status_code r \<and> status_code r < 600)" "json_body r = Some v"
  shows "fetch_of net k s =
     (v, s\<lparr>cache := (cache s)(k \<mapsto> \<lparr>payload = v, replay = [], created = clock s + dt\<rparr>),
            clock := clock s + dt, sent := sent s @ [url_of k]\<rparr>)"
proof -
  have "fetch_body_of net k s = ((v, []), s\<lparr>sent := sent s @ [url_of k], clock := clock s + dt\<rparr>)"
    using assms(2-4)
    by (simp add: fetch_body_of_try try_fetch_def get_json_def requests_get_def
        raise_for_status_def response_json_def and_then_def)
  from cache_data_miss [of s k "fetch_body_of net k", OF assms(1) this]
  show ?thesis by (simp add: fetch_of_cache_data)
qed

text \<open>
  C4. For every well-shaped item record without the fields \<open>score\<close>, \<open>episodes\<close>, \<open>year\<close>
  and \<open>status\<close>, on a page where no button of the card's key has been drawn,
  \<open>display_anime_card\<close> ends without an exception and the metrics it puts on the page are
  the four labels, each with the text \<open>N/A\<close>. On such a page the record with \<open>mal_id\<close> 1 and
  title \<open>A\<close> gives one card: the container, the title line with \<open>A\<close>, the four metrics
  \<open>N/A\<close>, the favorites button and the divider; and when the trending fetch returns the
  listing that holds just this record, the home page shows exactly this card under its
  heading.
\<close>

theorem card_missing_metrics:
  "(item_shaped (PDict kvs) \<and> key_free kvs s
      \<and> map_of kvs ''score'' = None \<and> map_of kvs ''episodes'' = None
      \<and> map_of kvs ''year'' = None \<and> map_of kvs ''status'' = None \<longrightarrow>
     fst (display_anime_card clicked (PDict kvs) s) = Next
     \<and> filter is_metric
         (drop (length (screen s)) (screen (snd (display_anime_card clicked (PDict kvs) s)))) =
         [Metric label_score (PStr ''N/A''), Metric label_episodes (PStr ''N/A''),
          Metric label_year (PStr ''N/A''), Metric label_status (PStr ''N/A'')])
   \<and> (key_free [(''mal_id'', PInt 1), (''title'', PStr ''A'')] s \<longrightarrow>
        display_anime_card None (PDict [(''mal_id'', PInt 1), (''title'', PStr ''A'')]) s =
          (Next, s\<lparr>screen := screen s @
             [Container, Markdown [Lit (''### '' @ glyph_flags @ '' ''), Fmt (PStr ''A'')],
              Metric label_score (PStr ''N/A''), Metric label_episodes (PStr ''N/A''),
              Metric label_year (PStr ''N/A''), Metric label_status (PStr ''N/A''),
              Button label_add (Keyed (fav_key (PInt 1))), Divider],
             widget_keys := widget_keys s @ [fav_key (PInt 1)]\<rparr>))
   \<and> (key_free [(''mal_id'', PInt 1), (''title'', PStr ''A'')] s
        \<and> live_entry s (TopAnime 1 10) = None
        \<and> net (length (sent s)) (top_anime_url 1 10) =
            (Responds \<lparr>status_code = 200, json_body = Some (PDict [(''data'',
               PList [PDict [(''mal_id'', PInt 1), (''title'', PStr ''A'')]])])\<rparr>, dt) \<longrightarrow>
        fst (home_page net None s) = Next
        \<and> screen (snd (home_page net None s)) = screen s @
          [Header [Lit (glyph_fire @ '' Trending Anime'')],
           Markdown [Lit ''Explore the most popular anime titles right now!''],
           Container, Markdown [Lit (''### '' @ glyph_flags @ '' ''), Fmt (PStr ''A'')],
           Metric label_score (PStr ''N/A''), Metric label_episodes (PStr ''N/A''),
           Metric label_year (PStr ''N/A''), Metric label_status (PStr ''N/A''),
           Button label_add (Keyed (fav_key (PInt 1))), Divider])"
proof (intro conjI impI)
  assume a: "item_shaped (PDict kvs) \<and> key_free kvs s
      \<and> map_of kvs ''score'' = None \<and> map_of kvs ''episodes'' = None
      \<and> map_of kvs ''year'' = None \<and> map_of kvs ''status'' = None"
  from card_written [of kvs s clicked] a obtain extra where extra: "filter is_metric extra = []"
    and card: "display_anime_card clicked (PDict kvs) s =
               (Next, s\<lparr>favorites := favorites (snd (display_anime_card clicked (PDict kvs) s)),
                        screen := screen s @ card_head kvs @ extra @ card_tail kvs,
                        widget_keys := widget_keys s @ [fav_key (id_of kvs)]\<rparr>)"
    by blast
  show "fst (display_anime_card clicked (PDict kvs) s) = Next"
    by (subst card) simp
  have "screen (snd (display_anime_card clicked (PDict kvs) s))
      = screen s @ card_head kvs @ extra @ card_tail kvs"
    by (subst card) simp
  then show "filter is_metric
         (drop (length (screen s)) (screen (snd (display_anime_card clicked (PDict kvs) s)))) =
         [Metric label_score (PStr ''N/A''), Metric label_episodes (PStr ''N/A''),
          Metric label_year (PStr ''N/A''), Metric label_status (PStr ''N/A'')]"
    using a extra metrics_of_card [of kvs extra] by (simp add: metric_of_def)
next
  have shaped: "item_shaped (PDict [(''mal_id'', PInt 1), (''title'', PStr ''A'')])"
    by (simp add: metric_shaped_def)
  have one: "display_anime_card None (PDict [(''mal_id'', PInt 1), (''title'', PStr ''A'')]) t =
       (Next, t\<lparr>screen := screen t @
          [Container, Markdown [Lit (''### '' @ glyph_flags @ '' ''), Fmt (PStr ''A'')],
           Metric label_score (PStr ''N/A''), Metric label_episodes (PStr ''N/A''),
           Metric label_year (PStr ''N/A''), Metric label_status (PStr ''N/A''),
           Button label_add (Keyed (fav_key (PInt 1))), Divider],
          widget_keys := widget_keys t @ [fav_key (PInt 1)]\<rparr>)"
    if "key_free [(''mal_id'', PInt 1), (''title'', PStr ''A'')] t" for t
    by (simp add: display_anime_card_shaped [OF shaped that] card_head_def card_tail_def
        title_of_def id_of_def metric_of_def title_line_def card_image_def image_url_def
        card_english_def card_genres_def card_synopsis_def card_link_def card_trailer_def
        compute_def and_then_def nothing_def)
  {
    assume "key_free [(''mal_id'', PInt 1), (''title'', PStr ''A'')] s"
    then show "display_anime_card None (PDict [(''mal_id'', PInt 1), (''title'', PStr ''A'')]) s =
       (Next, s\<lparr>screen := screen s @
          [Container, Markdown [Lit (''### '' @ glyph_flags @ '' ''), Fmt (PStr ''A'')],
           Metric label_score (PStr ''N/A''), Metric label_episodes (PStr ''N/A''),
           Metric label_year (PStr ''N/A''), Metric label_status (PStr ''N/A''),
           Button label_add (Keyed (fav_key (PInt 1))), Divider],
          widget_keys := widget_keys s @ [fav_key (PInt 1)]\<rparr>)"
      by (rule one)
  }
  assume n: "key_free [(''mal_id'', PInt 1), (''title'', PStr ''A'')] s
        \<and> live_entry s (TopAnime 1 10) = None
        \<and> net (length (sent s)) (top_anime_url 1 10) =
            (Responds \<lparr>status_code = 200, json_body = Some (PDict [(''data'',
               PList [PDict [(''mal_id'', PInt 1), (''title'', PStr ''A'')]])])\<rparr>, dt)"
  let ?s0 = "s\<lparr>screen := screen s @ [Header [Lit (glyph_fire @ '' Trending Anime'')],
           Markdown [Lit ''Explore the most popular anime titles right now!'']]\<rparr>"
  let ?s1 = "?s0\<lparr>cache := (cache ?s0)(TopAnime 1 10 \<mapsto> \<lparr>payload = PDict [(''data'',
               PList [PDict [(''mal_id'', PInt 1), (''title'', PStr ''A'')]])], replay = [],
               created = clock ?s0 + dt\<rparr>),
            clock := clock ?s0 + dt, sent := sent ?s0 @ [url_of (TopAnime 1 10)]\<rparr>"
  have f: "fetch_top_anime net 1 10 ?s0 =
     (PDict [(''data'', PList [PDict [(''mal_id'', PInt 1), (''title'', PStr ''A'')]])], ?s1)"
    using fetch_miss_ok [of ?s0 "TopAnime 1 10" net _ dt] n by simp
  have h: "home_page net None s =
      (case fetch_top_anime net 1 10 ?s0 of (data, s') \<Rightarrow>
         eval (has_data data) (\<lambda>ok.
            if ok then show_cards None data
            else emit (WarningMsg [Lit ''Unable to load anime data. Please try again later.''])) s')"
    by (simp add: home_page_def emit_def render_def with_value_def split: prod.splits control.splits)
  show "fst (home_page net None s) = Next"
    unfolding h f
    using n by (simp add: eval_def has_data_def and_then_def show_cards_def one key_free_def)
  show "screen (snd (home_page net None s)) = screen s @
          [Header [Lit (glyph_fire @ '' Trending Anime'')],
           Markdown [Lit ''Explore the most popular anime titles right now!''],
           Container, Markdown [Lit (''### '' @ glyph_flags @ '' ''), Fmt (PStr ''A'')],
           Metric label_score (PStr ''N/A''), Metric label_episodes (PStr ''N/A''),
           Metric label_year (PStr ''N/A''), Metric label_status (PStr ''N/A''),
           Button label_add (Keyed (fav_key (PInt 1))), Divider]"
    unfolding h f
    using n by (simp add: eval_def has_data_def and_then_def show_cards_def one key_free_def)
qed

theorem card_missing_metrics_witness:
  "item_shaped (PDict [(''mal_id'', PInt 7), (''title'', PStr ''B''),
       (''genres'', PList [PDict [(''name'', PStr ''Action'')]]),
       (''images'', PDict [(''jpg'', PDict [(''large_image_url'',
          PStr ''https://cdn.myanimelist.net/images/anime/7.jpg'')])])])
   \<and> key_free [(''mal_id'', PInt 7), (''title'', PStr ''B''),
       (''genres'', PList [PDict [(''name'', PStr ''Action'')]]),
       (''images'', PDict [(''jpg'', PDict [(''large_image_url'',
          PStr ''https://cdn.myanimelist.net/images/anime/7.jpg'')])])] initial_state
   \<and> fst (display_anime_card None (PDict [(''mal_id'', PInt 7), (''title'', PStr ''B''),
       (''genres'', PList [PDict [(''name'', PStr ''Action'')]]),
       (''images'', PDict [(''jpg'', PDict [(''large_image_url'',
          PStr ''https://cdn.myanimelist.net/images/anime/7.jpg'')])])])
       initial_state) = Next
   \<and> filter is_metric (screen (snd (display_anime_card None
       (PDict [(''mal_id'', PInt 7), (''title'', PStr ''B''),
         (''genres'', PList [PDict [(''name'', PStr ''Action'')]]),
         (''images'', PDict [(''jpg'', PDict [(''large_image_url'',
            PStr ''https://cdn.myanimelist.net/images/anime/7.jpg'')])])])
       initial_state))) =
       [Metric label_score (PStr ''N/A''), Metric label_episodes (PStr ''N/A''),
        Metric label_year (PStr ''N/A''), Metric label_status (PStr ''N/A'')]
   \<and> key_free [(''mal_id'', PInt 1), (''title'', PStr ''A'')] initial_state
   \<and> live_entry initial_state (TopAnime 1 10) = None
   \<and> fst (home_page network_up None initial_state) = Next
   \<and> length (filter (\<lambda>e. e = Container) (screen (snd (home_page network_up None initial_state)))) = 1"
  using card_missing_metrics [of "[(''mal_id'', PInt 7), (''title'', PStr ''B''),
       (''genres'', PList [PDict [(''name'', PStr ''Action'')]]),
       (''images'', PDict [(''jpg'', PDict [(''large_image_url'',
          PStr ''https://cdn.myanimelist.net/images/anime/7.jpg'')])])]"
      initial_state None network_up 2] example_image_url
  by (simp add: network_up_def example_listing_def initial_state_def live_entry_def
      key_free_def metric_shaped_def)

theorem card_missing_metrics_counterexample:
  "map_of [(''mal_id'', PInt 1), (''title'', PStr ''A''), (''images'', PNone)] ''score'' = None
   \<and> map_of [(''mal_id'', PInt 1), (''title'', PStr ''A''), (''images'', PNone)] ''episodes'' = None
   \<and> map_of [(''mal_id'', PInt 1), (''title'', PStr ''A''), (''images'', PNone)] ''year'' = None
   \<and> map_of [(''mal_id'', PInt 1), (''title'', PStr ''A''), (''images'', PNone)] ''status'' = None
   \<and> display_anime_card None
        (PDict [(''mal_id'', PInt 1), (''title'', PStr ''A''), (''images'', PNone)]) initial_state
       = (Raise AttributeError, initial_state\<lparr>screen := [Container]\<rparr>)"
  by (simp add: display_anime_card_def emit_def render_def card_image_def image_url_def
      compute_def and_then_def initial_state_def)

text \<open>
  C9. For every well-shaped item record without a \<open>title\<close> field, on a page where no button
  of the card's key has been drawn, \<open>display_anime_card\<close> ends without an exception and the
  card it puts on the page has the title line with the text \<open>Unknown Title\<close>.
\<close>

theorem card_unknown_title:
  "item_shaped (PDict kvs) \<and> key_free kvs s \<and> map_of kvs ''title'' = None \<longrightarrow>
     fst (display_anime_card clicked (PDict kvs) s) = Next
     \<and> Markdown [Lit (''### '' @ glyph_flags @ '' ''), Fmt (PStr ''Unknown Title'')]
         \<in> set (drop (length (screen s)) (screen (snd (display_anime_card clicked (PDict kvs) s))))"
proof
  assume a: "item_shaped (PDict kvs) \<and> key_free kvs s \<and> map_of kvs ''title'' = None"
  from card_written [of kvs s clicked] a obtain extra where
    card: "display_anime_card clicked (PDict kvs) s =
               (Next, s\<lparr>favorites := favorites (snd (display_anime_card clicked (PDict kvs) s)),
                        screen := screen s @ card_head kvs @ extra @ card_tail kvs,
                        widget_keys := widget_keys s @ [fav_key (id_of kvs)]\<rparr>)"
    by blast
  have 1: "fst (display_anime_card clicked (PDict kvs) s) = Next"
    by (subst card) simp
  have "screen (snd (display_anime_card clicked (PDict kvs) s))
      = screen s @ card_head kvs @ extra @ card_tail kvs"
    by (subst card) simp
  moreover have "Markdown [Lit (''### '' @ glyph_flags @ '' ''), Fmt (PStr ''Unknown Title'')]
      \<in> set (card_head kvs)"
    using a by (simp add: card_head_def title_line_def title_of_def)
  ultimately show "fst (display_anime_card clicked (PDict kvs) s) = Next
     \<and> Markdown [Lit (''### '' @ glyph_flags @ '' ''), Fmt (PStr ''Unknown Title'')]
         \<in> set (drop (length (screen s)) (screen (snd (display_anime_card clicked (PDict kvs) s))))"
    using 1 by simp
qed

theorem card_unknown_title_witness:
  "item_shaped (PDict [(''mal_id'', PInt 9), (''score'', PFloat 8)])
   \<and> key_free [(''mal_id'', PInt 9), (''score'', PFloat 8)] initial_state
   \<and> map_of [(''mal_id'', PInt 9), (''score'', PFloat 8)] ''title'' = None
   \<and> fst (display_anime_card None (PDict [(''mal_id'', PInt 9), (''score'', PFloat 8)])
        initial_state) = Next
   \<and> Markdown [Lit (''### '' @ glyph_flags @ '' ''), Fmt (PStr ''Unknown Title'')]
       \<in> set (screen (snd (display_anime_card None
            (PDict [(''mal_id'', PInt 9), (''score'', PFloat 8)]) initial_state)))"
  using card_unknown_title [of "[(''mal_id'', PInt 9), (''score'', PFloat 8)]" initial_state None]
  by (simp add: initial_state_def key_free_def metric_shaped_def)

theorem card_unknown_title_counterexample:
  "map_of [(''mal_id'', PInt 2), (''images'', PNone)] ''title'' = None
   \<and> display_anime_card None (PDict [(''mal_id'', PInt 2), (''images'', PNone)]) initial_state
       = (Raise AttributeError, initial_state\<lparr>screen := [Container]\<rparr>)"
  by (simp add: display_anime_card_def emit_def render_def card_image_def image_url_def
      compute_def and_then_def initial_state_def)

subsection \<open>A fetch that fails\<close>

text \<open>
  A reply is a failure when the transport fails (no connection, timeout) or the status is
  one that \<open>raise_for_status\<close> rejects; \<open>failure_of\<close> is the exception the fetch then catches.
\<close>

fun fetch_fails :: "reply \<Rightarrow> bool" where
  "fetch_fails (Fails e) = True"
| "fetch_fails (Responds r) = (400 \<le> status_code r \<and> status_code r < 600)"

fun failure_of :: "reply \<Rightarrow> exn" where
  "failure_of (Fails e) = RequestException e"
| "failure_of (Responds r) = HTTPError (status_code r)"

definition error_message :: "call \<Rightarrow> reply \<Rightarrow> element" where
  "error_message k rep = ErrorMsg [Lit (error_text_of k), FmtExc (failure_of rep)]"

text \<open>
  The fetch that a page makes and the warning it shows when the fetch gives no data. The
  Favorites page has neither: it fetches once for each favorite and has no warning.
\<close>

fun page_fetch :: "int \<Rightarrow> widgets \<Rightarrow> (call \<times> element) option" where
  "page_fetch cy w =
     (case nav w of
        Home \<Rightarrow>
          Some (TopAnime 1 10,
                WarningMsg [Lit ''Unable to load anime data. Please try again later.''])
      | Search \<Rightarrow>
          Some (SearchAnime (search_query w),
                WarningMsg [Lit ''No results found. Try a different search term.''])
      | Seasonal \<Rightarrow>
          Some (SeasonalAnime (selectbox (year_options cy) (year_index w))
                              (selectbox season_options (season_index w)),
                WarningMsg [Lit ''Unable to load seasonal anime data.''])
      | TopRated \<Rightarrow>
          Some (TopAnime (page_num w) 25, WarningMsg [Lit ''Unable to load top anime data.''])
      | Favorites \<Rightarrow> None)"

definition is_warning :: "element \<Rightarrow> bool" where
  "is_warning e = (case e of WarningMsg t \<Rightarrow> True | _ \<Rightarrow> False)"

definition cards_shown :: "element list \<Rightarrow> nat" where
  "cards_shown es = length (filter (\<lambda>e. e = Container) es)"

lemma fetch_miss_fail:
  assumes "live_entry s k = None" "net (length (sent s)) (url_of k) = (rep, dt)"
    and "fetch_fails rep"
  shows "fetch_of net k s =
     (PNone, s\<lparr>cache := (cache s)(k \<mapsto> \<lparr>payload = PNone, replay = [error_message k rep],
                                          created = clock s + dt\<rparr>),
               clock := clock s + dt, sent := sent s @ [url_of k],
               screen := screen s @ [error_message k rep]\<rparr>)"
proof -
  have "fetch_body_of net k s =
      ((PNone, [error_message k rep]), s\<lparr>sent := sent s @ [url_of k], clock := clock s + dt\<rparr>)"
    using assms(2,3)
    by (cases rep)
       (simp_all add: fetch_body_of_try try_fetch_def get_json_def requests_get_def
         raise_for_status_def and_then_def error_message_def)
  from cache_data_miss [of s k "fetch_body_of net k", OF assms(1) this]
  show ?thesis by (simp add: fetch_of_cache_data)
qed

lemma has_data_None [simp]: "has_data PNone = Inr False"
  by (simp add: has_data_def)

lemma length_season_options [simp]: "length season_options = 4"
  by (simp add: season_options_def)

lemma capitalize_season:
  "i < 4 \<Longrightarrow> \<exists>c. py_capitalize (selectbox season_options i) = Inr (PStr c)"
  by (auto simp: selectbox_def season_options_def nth_Cons split: nat.splits)


lemma fetch_fails_result:
  assumes "live_entry s k = None" "fetch_fails (fst (net (length (sent s)) (url_of k)))"
  shows "fetch_of net k s =
     (PNone,
      s\<lparr>cache := (cache s)(k \<mapsto>
             \<lparr>payload = PNone,
              replay = [error_message k (fst (net (length (sent s)) (url_of k)))],
              created = clock s + snd (net (length (sent s)) (url_of k))\<rparr>),
        clock := clock s + snd (net (length (sent s)) (url_of k)),
        sent := sent s @ [url_of k],
        screen := screen s @ [error_message k (fst (net (length (sent s)) (url_of k)))]\<rparr>)"
  using fetch_miss_fail [OF assms(1) _ assms(2)] by simp

lemmas fetch_top_anime_fails =
  fetch_fails_result [where k = "TopAnime page limit" for page limit, simplified]
lemmas search_anime_fails =
  fetch_fails_result [where k = "SearchAnime query" for query, simplified]
lemmas fetch_anime_details_fails =
  fetch_fails_result [where k = "AnimeDetails anime_id" for anime_id, simplified]
lemmas fetch_seasonal_anime_fails =
  fetch_fails_result [where k = "SeasonalAnime year season" for year season, simplified]

lemma cards_shown_simps [simp]:
  "cards_shown [] = 0"
  "cards_shown (e # es) = (if e = Container then 1 else 0) + cards_shown es"
  "cards_shown (xs @ ys) = cards_shown xs + cards_shown ys"
  by (simp_all add: cards_shown_def)

lemma sidebar_quiet: "cards_shown (sidebar cy w) = 0" "filter is_warning (sidebar cy w) = []"
  by (simp_all add: sidebar_def rule_line_def is_warning_def)

lemma footer_quiet: "cards_shown footer = 0" "filter is_warning footer = []"
  by (simp_all add: footer_def rule_line_def is_warning_def)

lemma pass_fetch_fails:
  assumes "page_fetch cy w = Some (k, warning)" "nav w = Search \<longrightarrow> search_query w \<noteq> []"
    and "nav w = Seasonal \<longrightarrow> season_index w < 4"
    and "live_entry s k = None"
    and "fetch_fails (fst (net (length (sent s)) (url_of k)))"
  shows "fst (pass net cy w clicked s) = Next
    \<and> cards_shown (screen (snd (pass net cy w clicked s))) = 0
    \<and> filter is_warning (screen (snd (pass net cy w clicked s))) = [warning]
    \<and> error_message k (fst (net (length (sent s)) (url_of k)))
        \<in> set (screen (snd (pass net cy w clicked s)))"
proof (cases "nav w")
  case Home
  with assms(1,4,5) show ?thesis
    by (auto simp: pass_def script_def home_page_def emit_def render_def with_value_def
        eval_def fetch_top_anime_fails sidebar_quiet footer_quiet is_warning_def
        error_message_def)
next
  case Search
  with assms(1,2,4,5) show ?thesis
    by (auto simp: pass_def script_def search_page_def emit_def render_def with_value_def
        eval_def search_anime_fails sidebar_quiet footer_quiet is_warning_def
        error_message_def)
next
  case Seasonal
  with assms(3) obtain c where c: "py_capitalize (selectbox season_options (season_index w)) = Inr (PStr c)"
    using capitalize_season by blast
  with Seasonal assms(1,4,5) show ?thesis
    by (auto simp: pass_def script_def seasonal_page_def Let_def emit_def render_def with_value_def
        eval_def fetch_seasonal_anime_fails sidebar_quiet footer_quiet is_warning_def
        error_message_def)
next
  case TopRated
  with assms(1,4,5) show ?thesis
    by (auto simp: pass_def script_def top_rated_page_def emit_def render_def with_value_def
        eval_def fetch_top_anime_fails sidebar_quiet footer_quiet is_warning_def
        error_message_def)
next
  case Favorites
  with assms(1) show ?thesis by simp
qed

lemma favorites_loop_end:
  "\<not> i < length (favorites s) \<Longrightarrow> favorites_loop net clicked i s = (Next, s)"
  by (subst favorites_loop.simps) simp

lemma favorites_loop_step:
  "i < length (favorites s) \<Longrightarrow>
     favorites_loop net clicked i s =
       (case favorites_entry net clicked (favorites s ! i) s of
          (Next, s') \<Rightarrow> favorites_loop net clicked (Suc i) s'
        | r \<Rightarrow> r)"
  by (subst favorites_loop.simps) simp

lemma favorites_entry_fetch_fails:
  assumes "live_entry s (AnimeDetails anime_id) = None"
    and "fetch_fails (fst (net (length (sent s)) (details_url anime_id)))"
  shows "fst (favorites_entry net clicked anime_id s) = Next
    \<and> favorites (snd (favorites_entry net clicked anime_id s)) = favorites s
    \<and> screen (snd (favorites_entry net clicked anime_id s)) =
        screen s @ [error_message (AnimeDetails anime_id)
                      (fst (net (length (sent s)) (details_url anime_id)))]"
  using assms
  by (simp add: favorites_entry_def with_value_def eval_def skip_def fetch_anime_details_fails)

definition network_multiple_choices :: network where
  "network_multiple_choices n url =
     (Responds \<lparr>status_code = 300, json_body = Some example_listing\<rparr>, 1)"

text \<open>
  C1. Let a fetch have no live cache entry, so that it asks the network, and let the reply be
  a failure: a transport error, a timeout, or a status from 400 to 599. Then each of the four
  fetch functions returns \<open>None\<close> and puts its error message, with the exception caught, on
  the page. The pass of the Home, Search (with a query), Seasonal and Top Rated page around
  it runs to the end, shows the warning of the page as its only warning and no card. The
  step of the Favorites page for an identifier whose fetch fails goes on to the next
  identifier, with the error message and no card.
\<close>

theorem fetch_failure_handled:
  "(live_entry s k = None \<and> fetch_fails (fst (net (length (sent s)) (url_of k))) \<longrightarrow>
      fst (fetch_of net k s) = PNone
      \<and> screen (snd (fetch_of net k s)) = screen s @
          [ErrorMsg [Lit (error_text_of k),
                     FmtExc (failure_of (fst (net (length (sent s)) (url_of k))))]]
      \<and> (page_fetch cy w = Some (k, warning) \<and> (nav w = Search \<longrightarrow> search_query w \<noteq> [])
           \<and> (nav w = Seasonal \<longrightarrow> season_index w < 4) \<longrightarrow>
         fst (pass net cy w clicked s) = Next
         \<and> cards_shown (screen (snd (pass net cy w clicked s))) = 0
         \<and> filter is_warning (screen (snd (pass net cy w clicked s))) = [warning]
         \<and> ErrorMsg [Lit (error_text_of k),
                      FmtExc (failure_of (fst (net (length (sent s)) (url_of k))))]
             \<in> set (screen (snd (pass net cy w clicked s)))))
   \<and> (live_entry s (AnimeDetails anime_id) = None
        \<and> fetch_fails (fst (net (length (sent s)) (details_url anime_id))) \<longrightarrow>
      fst (favorites_entry net clicked anime_id s) = Next
      \<and> screen (snd (favorites_entry net clicked anime_id s)) = screen s @
          [ErrorMsg [Lit ''Error fetching anime details: '',
                     FmtExc (failure_of (fst (net (length (sent s)) (details_url anime_id))))]])"
proof (intro conjI impI)
  assume a: "live_entry s k = None \<and> fetch_fails (fst (net (length (sent s)) (url_of k)))"
  then show "fst (fetch_of net k s) = PNone"
    and "screen (snd (fetch_of net k s)) = screen s @
          [ErrorMsg [Lit (error_text_of k),
                     FmtExc (failure_of (fst (net (length (sent s)) (url_of k))))]]"
    by (simp_all add: fetch_fails_result error_message_def)
  assume b: "page_fetch cy w = Some (k, warning) \<and> (nav w = Search \<longrightarrow> search_query w \<noteq> [])
           \<and> (nav w = Seasonal \<longrightarrow> season_index w < 4)"
  have p: "fst (pass net cy w clicked s) = Next
    \<and> cards_shown (screen (snd (pass net cy w clicked s))) = 0
    \<and> filter is_warning (screen (snd (pass net cy w clicked s))) = [warning]
    \<and> error_message k (fst (net (length (sent s)) (url_of k)))
        \<in> set (screen (snd (pass net cy w clicked s)))"
    using a b by (intro pass_fetch_fails) blast+
  from p show "fst (pass net cy w clicked s) = Next" by blast
  from p show "cards_shown (screen (snd (pass net cy w clicked s))) = 0" by blast
  from p show "filter is_warning (screen (snd (pass net cy w clicked s))) = [warning]"
    by blast
  from p show "ErrorMsg [Lit (error_text_of k),
            FmtExc (failure_of (fst (net (length (sent s)) (url_of k))))]
          \<in> set (screen (snd (pass net cy w clicked s)))"
    by (simp add: error_message_def)
next
  assume a: "live_entry s (AnimeDetails anime_id) = None
        \<and> fetch_fails (fst (net (length (sent s)) (details_url anime_id)))"
  then show "fst (favorites_entry net clicked anime_id s) = Next"
    and "screen (snd (favorites_entry net clicked anime_id s)) = screen s @
          [ErrorMsg [Lit ''Error fetching anime details: '',
                     FmtExc (failure_of (fst (net (length (sent s)) (details_url anime_id))))]]"
    using favorites_entry_fetch_fails [of s anime_id net clicked]
    by (simp_all add: error_message_def)
qed

theorem fetch_failure_handled_witness:
  "live_entry initial_state (TopAnime 1 10) = None
   \<and> fetch_fails (fst (network_down 0 (top_anime_url 1 10)))
   \<and> fetch_fails (fst (network_down 0 (details_url (PInt 1))))
   \<and> page_fetch 2024 initial_widgets =
       Some (TopAnime 1 10, WarningMsg [Lit ''Unable to load anime data. Please try again later.''])
   \<and> fst (fetch_top_anime network_down 1 10 initial_state) = PNone
   \<and> screen (snd (fetch_top_anime network_down 1 10 initial_state)) =
       [ErrorMsg [Lit ''Error fetching anime data: '', FmtExc (RequestException ConnectionFailed)]]
   \<and> fst (pass network_down 2024 initial_widgets None initial_state) = Next
   \<and> cards_shown (screen (snd (pass network_down 2024 initial_widgets None initial_state))) = 0
   \<and> filter is_warning (screen (snd (pass network_down 2024 initial_widgets None initial_state)))
       = [WarningMsg [Lit ''Unable to load anime data. Please try again later.'']]
   \<and> fst (favorites_entry network_down None (PInt 1) initial_state) = Next"
  using fetch_failure_handled [where s = initial_state and k = "TopAnime 1 10"
      and net = network_down and w = initial_widgets and cy = 2024 and anime_id = "PInt 1"
      and clicked = None
      and warning = "WarningMsg [Lit ''Unable to load anime data. Please try again later.'']"]
  by (simp add: live_entry_def initial_state_def initial_widgets_def network_down_def)

theorem fetch_failure_handled_counterexample:
  "fetch_fails (fst (network_down 0 (details_url (PInt 1))))
   \<and> fst (pass network_down 2024 (initial_widgets\<lparr>nav := Favorites\<rparr>) None
        (initial_state\<lparr>favorites := [PInt 1]\<rparr>)) = Next
   \<and> filter is_warning (screen (snd (pass network_down 2024 (initial_widgets\<lparr>nav := Favorites\<rparr>)
        None (initial_state\<lparr>favorites := [PInt 1]\<rparr>)))) = []
   \<and> fetch_top_anime network_multiple_choices 1 10 initial_state =
       (example_listing,
        initial_state\<lparr>cache := (\<lambda>k. None)(TopAnime 1 10 \<mapsto>
                          \<lparr>payload = example_listing, replay = [], created = 1\<rparr>),
                      clock := 1, sent := [top_anime_url 1 10]\<rparr>)"
proof -
  have "fetch_top_anime network_multiple_choices 1 10 initial_state =
       (example_listing,
        initial_state\<lparr>cache := (\<lambda>k. None)(TopAnime 1 10 \<mapsto>
                          \<lparr>payload = example_listing, replay = [], created = 1\<rparr>),
                      clock := 1, sent := [top_anime_url 1 10]\<rparr>)"
    by (simp add: fetch_top_anime_def fetch_top_anime_body_def cache_data_def live_entry_def
        try_fetch_def get_json_def requests_get_def network_multiple_choices_def
        raise_for_status_def response_json_def and_then_def initial_state_def)
  moreover have "fst (pass network_down 2024 (initial_widgets\<lparr>nav := Favorites\<rparr>) None
        (initial_state\<lparr>favorites := [PInt 1]\<rparr>)) = Next
   \<and> filter is_warning (screen (snd (pass network_down 2024 (initial_widgets\<lparr>nav := Favorites\<rparr>)
        None (initial_state\<lparr>favorites := [PInt 1]\<rparr>)))) = []"
    by (simp add: pass_def script_def favorites_page_def favorites_listing_def emit_def
        render_def skip_def favorites_loop_step favorites_loop_end favorites_entry_def
        with_value_def eval_def fetch_anime_details_fails network_down_def live_entry_def
        initial_state_def initial_widgets_def sidebar_def footer_def rule_line_def
        is_warning_def error_message_def)
  ultimately show ?thesis by (simp add: network_down_def)
qed

subsection \<open>Listings\<close>

text \<open>
  The catalog answers the three listing requests with an object whose \<open>data\<close> field is a
  list of item records. \<open>listing\<close> holds of such a payload, also when \<open>data\<close> is missing or
  null, and of \<open>None\<close>, which a failed fetch returns; \<open>items_of\<close> are the records.
\<close>

fun listing :: "pyval \<Rightarrow> bool" where
  "listing PNone = True"
| "listing (PDict kvs) =
     (case map_of kvs ''data'' of
        None \<Rightarrow> True | Some PNone \<Rightarrow> True | Some (PList xs) \<Rightarrow> True | Some _ \<Rightarrow> False)"
| "listing _ = False"

fun items_of :: "pyval \<Rightarrow> pyval list" where
  "items_of (PDict kvs) = (case map_of kvs ''data'' of Some (PList xs) \<Rightarrow> xs | _ \<Rightarrow> [])"
| "items_of _ = []"

lemma listing_has_data: "listing data \<Longrightarrow> has_data data = Inr (items_of data \<noteq> [])"
  by (cases data)
     (auto simp: has_data_def and_then_def split: option.splits pyval.splits)

lemma listing_items:
  "listing data \<Longrightarrow> items_of data \<noteq> [] \<Longrightarrow>
     and_then (py_item data ''data'') py_iter = Inr (items_of data)
     \<and> data_len data = Inr (PInt (int (length (items_of data))))"
  by (cases data)
     (auto simp: data_len_def and_then_def split: option.splits pyval.splits)

lemma show_cards_listing:
  "listing data \<Longrightarrow> items_of data \<noteq> [] \<Longrightarrow>
     show_cards clicked data = for_each (display_anime_card clicked) (items_of data)"
  by (simp add: show_cards_def eval_def listing_items fun_eq_iff)

definition same_network :: "state \<Rightarrow> state \<Rightarrow> bool" where
  "same_network s s' \<longleftrightarrow> sent s' = sent s \<and> cache s' = cache s \<and> clock s' = clock s"

lemma preorder_same_network: "preorder_on_states same_network"
  by (simp add: preorder_on_states_def same_network_def)

lemma screen_blind_same_network: "screen_blind same_network"
  by (simp add: screen_blind_def same_network_def)

lemma key_blind_same_network: "key_blind same_network"
  by (simp add: key_blind_def same_network_def)

lemma add_favorite_same_network: "keeps same_network (add_favorite t a)"
  by (simp add: keeps_def same_network_def add_favorite_def emit_def render_def)

lemma card_same_network: "keeps same_network (display_anime_card clicked anime)"
  by (intro keeps_display_anime_card keeps_card_favorite preorder_same_network
      screen_blind_same_network key_blind_same_network add_favorite_same_network)

lemma cards_same_network: "keeps same_network (for_each (display_anime_card clicked) items)"
  by (rule keeps_for_each [OF preorder_same_network card_same_network])

text \<open>
  The cards of a list of items. \<open>card_key\<close> is the key of the favorites button of an item.
  The buttons of the items can be drawn in turn when no key is the key of a button that the
  page has, or of an item before it in the list. \<open>card_elements\<close> is what the card of an item
  puts on the page: its head, the notice of its button when that is the button clicked, and
  its tail; \<open>card_added\<close> is what it appends to the favorites.
\<close>

fun fields :: "pyval \<Rightarrow> (string \<times> pyval) list" where
  "fields (PDict kvs) = kvs"
| "fields v = []"

definition card_key :: "pyval \<Rightarrow> fstring" where
  "card_key item = fav_key (id_of (fields item))"

fun drawable :: "fstring list \<Rightarrow> fstring list \<Rightarrow> bool" where
  "drawable drawn [] = True"
| "drawable drawn (k # ks) = (\<not> list_ex (same_key k) drawn \<and> drawable (drawn @ [k]) ks)"

definition card_added :: "button_id option \<Rightarrow> pyval list \<Rightarrow> pyval \<Rightarrow> pyval list" where
  "card_added clicked favs item =
     (if is_clicked clicked (card_key item) \<and> \<not> py_in (id_of (fields item)) favs
      then [id_of (fields item)] else [])"

definition card_notice :: "button_id option \<Rightarrow> pyval list \<Rightarrow> pyval \<Rightarrow> element list" where
  "card_notice clicked favs item =
     (if is_clicked clicked (card_key item) then
        (if \<not> py_in (id_of (fields item)) favs then
           [SuccessMsg [Lit ''Added '', Fmt (title_of (fields item)), Lit '' to favorites!'']]
         else [InfoMsg [Lit ''Already in favorites!'']])
      else [])"

definition card_elements :: "button_id option \<Rightarrow> pyval list \<Rightarrow> pyval \<Rightarrow> element list" where
  "card_elements clicked favs item =
     card_head (fields item) @ card_notice clicked favs item @ card_tail (fields item)"

lemma card_step:
  assumes "item_shaped item" and "\<not> list_ex (same_key (card_key item)) (widget_keys s)"
  shows "display_anime_card clicked item s =
     (Next, s\<lparr>favorites := favorites s @ card_added clicked (favorites s) item,
              screen := screen s @ card_elements clicked (favorites s) item,
              widget_keys := widget_keys s @ [card_key item]\<rparr>)"
proof -
  from assms(1) obtain kvs where k: "item = PDict kvs" by (cases item) auto
  from assms(2) have free: "key_free kvs s" by (simp add: key_free_def card_key_def k)
  from assms(1) have shaped: "item_shaped (PDict kvs)" by (simp add: k)
  show ?thesis
    unfolding k
    by (simp add: display_anime_card_shaped [OF shaped free] card_added_def card_notice_def
        card_elements_def card_key_def)
qed

lemma clicked_once: "is_clicked clicked k \<Longrightarrow> is_clicked clicked k' \<Longrightarrow> same_key k k'"
  by (cases "(clicked, k)" rule: is_clicked.cases) (auto simp: same_key_def)

lemma drawable_apart:
  "drawable drawn ks \<Longrightarrow> k \<in> set drawn \<Longrightarrow> k' \<in> set ks \<Longrightarrow> \<not> same_key k' k"
proof (induction ks arbitrary: drawn)
  case Nil
  then show ?case by simp
next
  case (Cons a ks)
  show ?case
  proof (cases "k' = a")
    case True
    with Cons.prems show ?thesis by (auto simp: list_ex_iff)
  next
    case False
    with Cons.prems have "drawable (drawn @ [a]) ks" "k \<in> set (drawn @ [a])" "k' \<in> set ks"
      by auto
    then show ?thesis by (rule Cons.IH)
  qed
qed

lemma unclicked_card:
  assumes "\<not> is_clicked clicked (card_key item)"
  shows "card_added clicked favs item = []" and "card_notice clicked favs item = []"
  using assms by (simp_all add: card_added_def card_notice_def)

lemma cards_step:
  assumes "list_all item_shaped items" and "drawable (widget_keys s) (map card_key items)"
  shows "for_each (display_anime_card clicked) items s =
     (Next, s\<lparr>favorites := favorites s @ concat (map (card_added clicked (favorites s)) items),
              screen := screen s @ concat (map (card_elements clicked (favorites s)) items),
              widget_keys := widget_keys s @ map card_key items\<rparr>)"
  using assms
proof (induction items arbitrary: s)
  case Nil
  then show ?case by simp
next
  case (Cons a items)
  let ?s' = "s\<lparr>favorites := favorites s @ card_added clicked (favorites s) a,
              screen := screen s @ card_elements clicked (favorites s) a,
              widget_keys := widget_keys s @ [card_key a]\<rparr>"
  from Cons.prems have a: "item_shaped a" "\<not> list_ex (same_key (card_key a)) (widget_keys s)"
    and rest: "list_all item_shaped items"
      "drawable (widget_keys s @ [card_key a]) (map card_key items)"
    by simp_all
  have card: "display_anime_card clicked a s = (Next, ?s')"
    using a by (rule card_step)
  have same: "card_added clicked (favorites ?s') x = card_added clicked (favorites s) x
      \<and> card_elements clicked (favorites ?s') x = card_elements clicked (favorites s) x"
    if x: "x \<in> set items" for x
  proof (cases "is_clicked clicked (card_key a)")
    case True
    have "\<not> same_key (card_key x) (card_key a)"
      using drawable_apart [OF rest(2), of "card_key a" "card_key x"] x by simp
    with True have "\<not> is_clicked clicked (card_key x)"
      using clicked_once [of clicked "card_key x" "card_key a"] by blast
    then show ?thesis by (simp add: unclicked_card card_elements_def)
  next
    case False
    then show ?thesis by (simp add: unclicked_card)
  qed
  then have maps: "map (card_added clicked (favorites ?s')) items
        = map (card_added clicked (favorites s)) items"
      "map (card_elements clicked (favorites ?s')) items
        = map (card_elements clicked (favorites s)) items"
    by (simp_all cong: map_cong)
  from Cons.IH [of ?s'] rest
  have "for_each (display_anime_card clicked) items ?s' =
     (Next, ?s'\<lparr>favorites := favorites ?s' @ concat (map (card_added clicked (favorites ?s')) items),
              screen := screen ?s' @ concat (map (card_elements clicked (favorites ?s')) items),
              widget_keys := widget_keys ?s' @ map card_key items\<rparr>)"
    by simp
  then show ?case
    unfolding maps by (simp add: card)
qed

lemma keys_search_anime: "widget_keys (snd (search_anime net q s)) = widget_keys s"
  unfolding search_anime_def search_anime_body_def
  by (rule keys_cache_data) (rule keys_try_fetch)

subsection \<open>The Search page\<close>

lemma last_step [simp]:
  "(case r of (Next, s') \<Rightarrow> run_steps [] s' | (Rerun, s') \<Rightarrow> (Rerun, s')
    | (Raise e, s') \<Rightarrow> (Raise e, s')) = r"
  by (auto split: prod.splits control.splits)

lemma sent_same: "keeps same_network f \<Longrightarrow> sent (snd (f s)) = sent s"
  by (simp add: keeps_def same_network_def)

lemma show_cards_same_network: "keeps same_network (show_cards clicked data)"
  unfolding show_cards_def
  by (intro keeps_eval preorder_same_network cards_same_network)

lemma steps_same_network:
  "list_all (keeps same_network) fs \<Longrightarrow> keeps same_network (run_steps fs)"
  by (rule keeps_run_steps [OF preorder_same_network]) (simp add: list_all_iff)

lemmas same_network_rules =
  steps_same_network show_cards_same_network
  keeps_eval [OF preorder_same_network] keeps_emit [OF screen_blind_same_network]
  keeps_skip [OF preorder_same_network]

definition search_header :: "string \<Rightarrow> element list" where
  "search_header q =
     [Header [Lit (glyph_magnifier @ '' Search Anime'')], TextInput ''Enter anime name:'' q]"

definition found_message :: "nat \<Rightarrow> string \<Rightarrow> element" where
  "found_message n q =
     SuccessMsg [Lit ''Found '', Fmt (PInt (int n)), Lit ('' results for '' @ [CHR 0x27]),
                 Fmt (PStr q), Lit [CHR 0x27]]"

text \<open>Replies that are no listing of distinct items: a bare list, and an item given twice.\<close>

definition network_bare_list :: network where
  "network_bare_list n url = (Responds \<lparr>status_code = 200, json_body = Some (PList [PInt 1])\<rparr>, 1)"

definition network_repeats :: network where
  "network_repeats n url =
     (Responds \<lparr>status_code = 200, json_body = Some (PDict [(''data'',
        PList [PDict [(''mal_id'', PInt 1), (''title'', PStr ''A'')],
               PDict [(''mal_id'', PInt 1), (''title'', PStr ''A'')]])])\<rparr>, 1)"

text \<open>
  C6. With an empty query the Search page shows its heading, the input and the prompt, and
  does nothing else: no fetch, no request. With a query \<open>q\<close> it calls \<open>search_anime\<close> with
  \<open>q\<close>, which sends the request for \<open>q\<close> when the cache has no live entry. When the payload is
  a listing without items, the page shows the notice "No results found". When the payload is
  a listing of well-shaped items whose buttons can be drawn in turn, the page shows the
  message "Found n results for 'q'" followed by the cards of the items, in their order, and
  ends without an exception.
\<close>

theorem search_page_branches:
  "(search_query w = [] \<longrightarrow>
      search_page net w clicked s =
        (Next, s\<lparr>screen := screen s @ search_header []
           @ [InfoMsg [Lit (glyph_point_up @ '' Enter an anime name to start searching!'')]]\<rparr>))
   \<and> (search_query w \<noteq> []
        \<and> search_anime net (search_query w)
             (s\<lparr>screen := screen s @ search_header (search_query w)\<rparr>) = (data, s1)
        \<and> listing data \<longrightarrow>
      (items_of data = [] \<longrightarrow>
         search_page net w clicked s =
           (Next, s1\<lparr>screen := screen s1 @
              [WarningMsg [Lit ''No results found. Try a different search term.'']]\<rparr>))
      \<and> (items_of data \<noteq> [] \<and> list_all item_shaped (items_of data)
           \<and> drawable (widget_keys s) (map card_key (items_of data)) \<longrightarrow>
         search_page net w clicked s =
           (Next, s1\<lparr>favorites := favorites s1
                        @ concat (map (card_added clicked (favorites s1)) (items_of data)),
                     screen := screen s1
                        @ found_message (length (items_of data)) (search_query w)
                        # concat (map (card_elements clicked (favorites s1)) (items_of data)),
                     widget_keys := widget_keys s1 @ map card_key (items_of data)\<rparr>)))
   \<and> (search_query w \<noteq> [] \<and> live_entry s (SearchAnime (search_query w)) = None \<longrightarrow>
        sent (snd (search_page net w clicked s)) = sent s @ [search_url (search_query w)])"
proof (intro conjI impI)
  assume "search_query w = []"
  then show "search_page net w clicked s =
        (Next, s\<lparr>screen := screen s @ search_header []
           @ [InfoMsg [Lit (glyph_point_up @ '' Enter an anime name to start searching!'')]]\<rparr>)"
    by (simp add: search_page_def emit_def render_def search_header_def)
next
  assume a: "search_query w \<noteq> []
        \<and> search_anime net (search_query w)
             (s\<lparr>screen := screen s @ search_header (search_query w)\<rparr>) = (data, s1)
        \<and> listing data"
  let ?found = "found_message (length (items_of data)) (search_query w)"
  from a have page: "search_page net w clicked s =
      eval (has_data data) (\<lambda>ok.
              if ok then
                run_steps
                  [eval (data_len data) (\<lambda>n.
                     emit (SuccessMsg [Lit ''Found '', Fmt n, Lit ('' results for '' @ [CHR 0x27]),
                                       Fmt (PStr (search_query w)), Lit [CHR 0x27]])),
                   show_cards clicked data]
              else emit (WarningMsg [Lit ''No results found. Try a different search term.''])) s1"
    by (simp add: search_page_def emit_def render_def with_value_def search_header_def)
  show "search_page net w clicked s =
           (Next, s1\<lparr>screen := screen s1 @
              [WarningMsg [Lit ''No results found. Try a different search term.'']]\<rparr>)"
    if "items_of data = []"
    using a that by (simp add: page listing_has_data eval_def emit_def render_def)
  assume b: "items_of data \<noteq> [] \<and> list_all item_shaped (items_of data)
           \<and> drawable (widget_keys s) (map card_key (items_of data))"
  have found: "search_page net w clicked s =
           for_each (display_anime_card clicked) (items_of data)
             (s1\<lparr>screen := screen s1 @ [?found]\<rparr>)"
    using a b
    by (simp add: page listing_has_data listing_items show_cards_listing eval_def emit_def
        render_def found_message_def)
  have "widget_keys s1 = widget_keys s"
    using a keys_search_anime [of net "search_query w"
        "s\<lparr>screen := screen s @ search_header (search_query w)\<rparr>"]
    by simp
  with b have "drawable (widget_keys (s1\<lparr>screen := screen s1 @ [?found]\<rparr>))
      (map card_key (items_of data))"
    by simp
  from cards_step [OF _ this, of clicked] b
  show "search_page net w clicked s =
           (Next, s1\<lparr>favorites := favorites s1
                        @ concat (map (card_added clicked (favorites s1)) (items_of data)),
                     screen := screen s1
                        @ found_message (length (items_of data)) (search_query w)
                        # concat (map (card_elements clicked (favorites s1)) (items_of data)),
                     widget_keys := widget_keys s1 @ map card_key (items_of data)\<rparr>)"
    unfolding found by simp
next
  assume a: "search_query w \<noteq> [] \<and> live_entry s (SearchAnime (search_query w)) = None"
  let ?s0 = "s\<lparr>screen := screen s @ search_header (search_query w)\<rparr>"
  let ?k = "\<lambda>data. eval (has_data data) (\<lambda>ok.
              if ok then
                run_steps
                  [eval (data_len data) (\<lambda>n.
                     emit (SuccessMsg [Lit ''Found '', Fmt n, Lit ('' results for '' @ [CHR 0x27]),
                                       Fmt (PStr (search_query w)), Lit [CHR 0x27]])),
                   show_cards clicked data]
              else emit (WarningMsg [Lit ''No results found. Try a different search term.'']))"
  obtain data s1 where f: "search_anime net (search_query w) ?s0 = (data, s1)"
    by (cases "search_anime net (search_query w) ?s0")
  from a f have page: "search_page net w clicked s = ?k data s1"
    by (simp add: search_page_def emit_def render_def with_value_def search_header_def)
  have "keeps same_network (?k data)"
    by (simp add: same_network_rules)
  then have "sent (snd (?k data s1)) = sent s1" by (rule sent_same)
  moreover have "sent s1 = sent s @ [search_url (search_query w)]"
    using sent_fetch_miss [of ?s0 "SearchAnime (search_query w)" net] a f by simp
  ultimately show "sent (snd (search_page net w clicked s)) = sent s @ [search_url (search_query w)]"
    by (simp add: page)
qed

theorem search_page_branches_witness:
  "search_query (initial_widgets\<lparr>nav := Search\<rparr>) = []
   \<and> search_page network_up (initial_widgets\<lparr>nav := Search\<rparr>) None initial_state =
       (Next, initial_state\<lparr>screen := search_header []
          @ [InfoMsg [Lit (glyph_point_up @ '' Enter an anime name to start searching!'')]]\<rparr>)
   \<and> listing example_listing \<and> list_all item_shaped (items_of example_listing)
   \<and> drawable (widget_keys initial_state) (map card_key (items_of example_listing))
   \<and> live_entry initial_state (SearchAnime ''naruto'') = None
   \<and> search_page network_up (initial_widgets\<lparr>nav := Search, search_query := ''naruto''\<rparr>)
        None initial_state =
       (Next, initial_state\<lparr>cache := (\<lambda>k. None)(SearchAnime ''naruto'' \<mapsto>
                 \<lparr>payload = example_listing, replay = [], created = 2\<rparr>),
               clock := 2, sent := [search_url ''naruto''],
               screen := search_header ''naruto'' @
                 [found_message 1 ''naruto'',
                  Container, Markdown [Lit (''### '' @ glyph_flags @ '' ''), Fmt (PStr ''A'')],
                  Metric label_score (PStr ''N/A''), Metric label_episodes (PStr ''N/A''),
                  Metric label_year (PStr ''N/A''), Metric label_status (PStr ''N/A''),
                  Button label_add (Keyed (fav_key (PInt 1))), Divider],
               widget_keys := [fav_key (PInt 1)]\<rparr>)"
proof -
  let ?w = "initial_widgets\<lparr>nav := Search, search_query := ''naruto''\<rparr>"
  let ?s1 = "initial_state\<lparr>cache := (\<lambda>k. None)(SearchAnime ''naruto'' \<mapsto>
                 \<lparr>payload = example_listing, replay = [], created = 2\<rparr>),
               clock := 2, sent := [search_url ''naruto''],
               screen := search_header ''naruto''\<rparr>"
  have f: "search_anime network_up (search_query ?w)
      (initial_state\<lparr>screen := screen initial_state @ search_header (search_query ?w)\<rparr>)
      = (example_listing, ?s1)"
    by (simp add: search_anime_def search_anime_body_def cache_data_def live_entry_def
        try_fetch_def get_json_def requests_get_def network_up_def raise_for_status_def
        response_json_def and_then_def initial_state_def)
  have l: "listing example_listing" "items_of example_listing \<noteq> []"
    "list_all item_shaped (items_of example_listing)"
    "drawable (widget_keys initial_state) (map card_key (items_of example_listing))"
    by (simp_all add: example_listing_def metric_shaped_def initial_state_def)
  from search_page_branches [where w = "initial_widgets\<lparr>nav := Search\<rparr>" and net = network_up
      and clicked = None and s = initial_state]
  have 1: "search_page network_up (initial_widgets\<lparr>nav := Search\<rparr>) None initial_state =
       (Next, initial_state\<lparr>screen := search_header []
          @ [InfoMsg [Lit (glyph_point_up @ '' Enter an anime name to start searching!'')]]\<rparr>)"
    by (simp add: initial_widgets_def initial_state_def)
  note T = search_page_branches [where w = ?w and net = network_up and clicked = None
      and s = initial_state and data = example_listing and ?s1.0 = ?s1]
  have h: "search_query ?w \<noteq> []
        \<and> search_anime network_up (search_query ?w)
             (initial_state\<lparr>screen := screen initial_state @ search_header (search_query ?w)\<rparr>)
           = (example_listing, ?s1)
        \<and> listing example_listing"
    using f l by simp
  have h3: "items_of example_listing \<noteq> [] \<and> list_all item_shaped (items_of example_listing)
      \<and> drawable (widget_keys initial_state) (map card_key (items_of example_listing))"
    using l by simp
  note B = T [THEN conjunct2, THEN conjunct1, THEN mp, OF h]
  note C = B [THEN conjunct2, THEN mp, OF h3]
  have 2: "search_page network_up ?w None initial_state =
       (Next, initial_state\<lparr>cache := (\<lambda>k. None)(SearchAnime ''naruto'' \<mapsto>
                 \<lparr>payload = example_listing, replay = [], created = 2\<rparr>),
               clock := 2, sent := [search_url ''naruto''],
               screen := search_header ''naruto'' @
                 [found_message 1 ''naruto'',
                  Container, Markdown [Lit (''### '' @ glyph_flags @ '' ''), Fmt (PStr ''A'')],
                  Metric label_score (PStr ''N/A''), Metric label_episodes (PStr ''N/A''),
                  Metric label_year (PStr ''N/A''), Metric label_status (PStr ''N/A''),
                  Button label_add (Keyed (fav_key (PInt 1))), Divider],
               widget_keys := [fav_key (PInt 1)]\<rparr>)"
    unfolding C
    by (simp add: example_listing_def initial_state_def card_added_def card_elements_def
        card_notice_def card_key_def card_head_def card_tail_def title_of_def id_of_def
        metric_of_def title_line_def card_image_def image_url_def card_english_def
        card_genres_def card_synopsis_def card_link_def card_trailer_def compute_def
        and_then_def nothing_def)
  have 5: "search_query (initial_widgets\<lparr>nav := Search\<rparr>) = []"
    "live_entry initial_state (SearchAnime ''naruto'') = None"
    by (simp_all add: initial_widgets_def live_entry_def initial_state_def)
  from 1 2 5 l show ?thesis by blast
qed

theorem search_page_branches_counterexample:
  "search_query (initial_widgets\<lparr>nav := Search, search_query := ''naruto''\<rparr>) \<noteq> []
   \<and> search_page network_bare_list (initial_widgets\<lparr>nav := Search, search_query := ''naruto''\<rparr>)
        None initial_state =
       (Raise AttributeError,
        initial_state\<lparr>cache := (\<lambda>k. None)(SearchAnime ''naruto'' \<mapsto>
                 \<lparr>payload = PList [PInt 1], replay = [], created = 1\<rparr>),
               clock := 1, sent := [search_url ''naruto''],
               screen := search_header ''naruto''\<rparr>)
   \<and> fst (search_page network_repeats (initial_widgets\<lparr>nav := Search, search_query := ''naruto''\<rparr>)
        None initial_state) = Raise DuplicateElementKey"
  by (simp add: search_page_def emit_def render_def with_value_def search_header_def
      search_anime_def search_anime_body_def cache_data_def live_entry_def
      try_fetch_def get_json_def requests_get_def network_bare_list_def network_repeats_def
      raise_for_status_def response_json_def and_then_def initial_state_def initial_widgets_def
      eval_def has_data_def data_len_def show_cards_def display_anime_card_def
      card_favorite_def st_button_def skip_def fav_key_def same_key_def key_id_def
      card_image_def image_url_def card_english_def card_metric_def
      card_genres_def card_synopsis_def card_link_def card_trailer_def compute_def
      put_def nothing_def)

subsection \<open>The Seasonal page\<close>

lemma py_range_down_eq: "py_range_down start stop = rev [stop + 1..start]"
proof (induction start stop rule: py_range_down.induct)
  case (1 start stop)
  show ?case
  proof (cases "stop < start")
    case True
    then have "[stop + 1..start] = [stop + 1..start - 1] @ [start]"
      by (simp add: upto_rec2)
    with True "1.IH" show ?thesis by (subst py_range_down.simps) simp
  next
    case False
    then show ?thesis by (subst py_range_down.simps) simp
  qed
qed

lemma year_options_eq: "year_options cy = map PInt (rev [1990..cy])"
  by (simp add: year_options_def py_range_down_eq)

lemma year_option_nth:
  assumes "i < length (year_options cy)"
  shows "selectbox (year_options cy) i = PInt (cy - int i)"
proof -
  from assms have i: "i < nat (cy - 1989)" by (simp add: year_options_eq)
  then have "rev [1990..cy] ! i = [1990..cy] ! (nat (cy - 1989) - Suc i)"
    by (simp add: rev_nth)
  also have "\<dots> = 1990 + int (nat (cy - 1989) - Suc i)"
    using i by (intro nth_upto) linarith
  also have "\<dots> = cy - int i" using i by linarith
  finally show ?thesis using assms i by (simp add: selectbox_def year_options_eq)
qed

lemma keys_fetch_seasonal_anime:
  "widget_keys (snd (fetch_seasonal_anime net y se s)) = widget_keys s"
  unfolding fetch_seasonal_anime_def fetch_seasonal_anime_body_def
  by (rule keys_cache_data) (rule keys_try_fetch)

definition seasonal_header :: "pyval \<Rightarrow> pyval \<Rightarrow> element" where
  "seasonal_header cap year =
     Header [Lit (glyph_calendar @ '' Seasonal Anime - ''), Fmt cap, Lit '' '', Fmt year]"

definition seasonal_message :: "nat \<Rightarrow> pyval \<Rightarrow> pyval \<Rightarrow> element" where
  "seasonal_message n cap year =
     SuccessMsg [Lit ''Found '', Fmt (PInt (int n)), Lit '' anime for '', Fmt cap, Lit '' '',
                 Fmt year]"

definition seasonal_widgets :: widgets where
  "seasonal_widgets = initial_widgets\<lparr>nav := Seasonal\<rparr>"

lemma capitalize_fall: "py_capitalize (PStr ''fall'') = Inr (PStr ''Fall'')"
  by code_simp

lemma capitalize_winter: "py_capitalize (PStr ''winter'') = Inr (PStr ''Winter'')"
  by code_simp

lemma first_year: "selectbox (year_options 2024) 0 = PInt 2024"
  using year_option_nth [of 0 2024] by (simp add: year_options_eq)

text \<open>
  C8. The year select box offers the years from the current year down to 1990, in this
  order, and the season select box offers winter, spring, summer and fall; both are in the
  sidebar of the Seasonal page, and the year selected at index \<open>i\<close> is the current year
  minus \<open>i\<close>. The page calls \<open>fetch_seasonal_anime\<close> with the year and the season selected,
  which requests \<^verbatim>\<open>/seasons/{year}/{season}\<close> when the cache has no live entry for the pair.
  When the payload is a listing without items, the page shows its warning. When the payload
  is a listing of well-shaped items whose buttons can be drawn in turn, the page shows the
  message "Found n anime for Season year" followed by the cards of the items, in their
  order, and ends without an exception.
\<close>

theorem seasonal_page_selection:
  "year_options cy = map PInt (rev [1990..cy])
   \<and> season_options = [PStr ''winter'', PStr ''spring'', PStr ''summer'', PStr ''fall'']
   \<and> (nav w = Seasonal \<longrightarrow>
        Selectbox ''Year'' (year_options cy) (year_index w) \<in> set (sidebar cy w)
        \<and> Selectbox ''Season'' season_options (season_index w) \<in> set (sidebar cy w))
   \<and> (year_index w < length (year_options cy) \<longrightarrow>
        selectbox (year_options cy) (year_index w) = PInt (cy - int (year_index w)))
   \<and> (season_index w < 4 \<and> year = selectbox (year_options cy) (year_index w)
        \<and> season = selectbox season_options (season_index w) \<longrightarrow>
      (\<exists>cap. py_capitalize season = Inr cap
         \<and> (fetch_seasonal_anime net year season
               (s\<lparr>screen := screen s @ [seasonal_header cap year]\<rparr>) = (data, s1)
             \<and> listing data \<longrightarrow>
            (items_of data = [] \<longrightarrow>
               seasonal_page net cy w clicked s =
                 (Next, s1\<lparr>screen := screen s1 @
                    [WarningMsg [Lit ''Unable to load seasonal anime data.'']]\<rparr>))
            \<and> (items_of data \<noteq> [] \<and> list_all item_shaped (items_of data)
                 \<and> drawable (widget_keys s) (map card_key (items_of data)) \<longrightarrow>
               seasonal_page net cy w clicked s =
                 (Next, s1\<lparr>favorites := favorites s1
                              @ concat (map (card_added clicked (favorites s1)) (items_of data)),
                           screen := screen s1
                              @ seasonal_message (length (items_of data)) cap year
                              # concat (map (card_elements clicked (favorites s1)) (items_of data)),
                           widget_keys := widget_keys s1 @ map card_key (items_of data)\<rparr>)))
         \<and> (live_entry s (SeasonalAnime year season) = None \<longrightarrow>
              sent (snd (seasonal_page net cy w clicked s)) = sent s @
                [[Lit ''https://api.jikan.moe/v4/seasons/'', Fmt year, Lit ''/'', Fmt season]])))"
proof (intro conjI impI)
  show "year_options cy = map PInt (rev [1990..cy])" by (rule year_options_eq)
  show "season_options = [PStr ''winter'', PStr ''spring'', PStr ''summer'', PStr ''fall'']"
    by (rule season_options_def)
  show "Selectbox ''Year'' (year_options cy) (year_index w) \<in> set (sidebar cy w)"
    and "Selectbox ''Season'' season_options (season_index w) \<in> set (sidebar cy w)"
    if "nav w = Seasonal"
    using that by (simp_all add: sidebar_def)
  show "selectbox (year_options cy) (year_index w) = PInt (cy - int (year_index w))"
    if "year_index w < length (year_options cy)"
    using that by (rule year_option_nth)
next
  assume a: "season_index w < 4 \<and> year = selectbox (year_options cy) (year_index w)
        \<and> season = selectbox season_options (season_index w)"
  then obtain c where cap: "py_capitalize season = Inr (PStr c)"
    using capitalize_season [of "season_index w"] by auto
  let ?s0 = "s\<lparr>screen := screen s @ [seasonal_header (PStr c) year]\<rparr>"
  let ?k = "\<lambda>data. eval (has_data data) (\<lambda>ok.
                if ok then
                  run_steps
                    [eval (data_len data) (\<lambda>n.
                     eval (py_capitalize season) (\<lambda>cap.
                       emit (SuccessMsg [Lit ''Found '', Fmt n, Lit '' anime for '', Fmt cap,
                                         Lit '' '', Fmt year]))),
                     show_cards clicked data]
                else emit (WarningMsg [Lit ''Unable to load seasonal anime data.'']))"
  have page: "seasonal_page net cy w clicked s = ?k d s'"
    if "fetch_seasonal_anime net year season ?s0 = (d, s')" for d s'
    using a cap that
    by (auto simp: seasonal_page_def Let_def eval_def emit_def render_def with_value_def
        seasonal_header_def)
  have listed: "(items_of data = [] \<longrightarrow>
               seasonal_page net cy w clicked s =
                 (Next, s1\<lparr>screen := screen s1 @
                    [WarningMsg [Lit ''Unable to load seasonal anime data.'']]\<rparr>))
            \<and> (items_of data \<noteq> [] \<and> list_all item_shaped (items_of data)
                 \<and> drawable (widget_keys s) (map card_key (items_of data)) \<longrightarrow>
               seasonal_page net cy w clicked s =
                 (Next, s1\<lparr>favorites := favorites s1
                              @ concat (map (card_added clicked (favorites s1)) (items_of data)),
                           screen := screen s1
                              @ seasonal_message (length (items_of data)) (PStr c) year
                              # concat (map (card_elements clicked (favorites s1)) (items_of data)),
                           widget_keys := widget_keys s1 @ map card_key (items_of data)\<rparr>))"
    if f: "fetch_seasonal_anime net year season ?s0 = (data, s1) \<and> listing data"
  proof (intro conjI impI)
    let ?found = "seasonal_message (length (items_of data)) (PStr c) year"
    from f have p: "seasonal_page net cy w clicked s = ?k data s1" by (simp add: page)
    show "seasonal_page net cy w clicked s =
                 (Next, s1\<lparr>screen := screen s1 @
                    [WarningMsg [Lit ''Unable to load seasonal anime data.'']]\<rparr>)"
      if "items_of data = []"
      using f that by (simp add: p listing_has_data eval_def emit_def render_def)
    assume b: "items_of data \<noteq> [] \<and> list_all item_shaped (items_of data)
                 \<and> drawable (widget_keys s) (map card_key (items_of data))"
    have found: "seasonal_page net cy w clicked s =
                 for_each (display_anime_card clicked) (items_of data)
                   (s1\<lparr>screen := screen s1 @ [?found]\<rparr>)"
      using f b cap
      by (simp add: p listing_has_data listing_items show_cards_listing eval_def emit_def
          render_def seasonal_message_def)
    have "widget_keys s1 = widget_keys s"
      using f keys_fetch_seasonal_anime [of net year season ?s0] by simp
    with b have "drawable (widget_keys (s1\<lparr>screen := screen s1 @ [?found]\<rparr>))
        (map card_key (items_of data))"
      by simp
    from cards_step [OF _ this, of clicked] b
    show "seasonal_page net cy w clicked s =
                 (Next, s1\<lparr>favorites := favorites s1
                              @ concat (map (card_added clicked (favorites s1)) (items_of data)),
                           screen := screen s1
                              @ seasonal_message (length (items_of data)) (PStr c) year
                              # concat (map (card_elements clicked (favorites s1)) (items_of data)),
                           widget_keys := widget_keys s1 @ map card_key (items_of data)\<rparr>)"
      unfolding found by simp
  qed
  have miss: "sent (snd (seasonal_page net cy w clicked s)) = sent s @
                [[Lit ''https://api.jikan.moe/v4/seasons/'', Fmt year, Lit ''/'', Fmt season]]"
    if m: "live_entry s (SeasonalAnime year season) = None"
  proof -
    obtain d s' where f: "fetch_seasonal_anime net year season ?s0 = (d, s')"
      by (cases "fetch_seasonal_anime net year season ?s0")
    have "keeps same_network (?k d)"
      by (simp add: same_network_rules)
    then have "sent (snd (?k d s')) = sent s'" by (rule sent_same)
    moreover have "sent s' = sent s @ [seasonal_url year season]"
      using sent_fetch_miss [of ?s0 "SeasonalAnime year season" net] m f by simp
    ultimately show ?thesis
      by (simp add: page [OF f] seasonal_url_def api_def)
  qed
  show "\<exists>cap. py_capitalize season = Inr cap
         \<and> (fetch_seasonal_anime net year season
               (s\<lparr>screen := screen s @ [seasonal_header cap year]\<rparr>) = (data, s1)
             \<and> listing data \<longrightarrow>
            (items_of data = [] \<longrightarrow>
               seasonal_page net cy w clicked s =
                 (Next, s1\<lparr>screen := screen s1 @
                    [WarningMsg [Lit ''Unable to load seasonal anime data.'']]\<rparr>))
            \<and> (items_of data \<noteq> [] \<and> list_all item_shaped (items_of data)
                 \<and> drawable (widget_keys s) (map card_key (items_of data)) \<longrightarrow>
               seasonal_page net cy w clicked s =
                 (Next, s1\<lparr>favorites := favorites s1
                              @ concat (map (card_added clicked (favorites s1)) (items_of data)),
                           screen := screen s1
                              @ seasonal_message (length (items_of data)) cap year
                              # concat (map (card_elements clicked (favorites s1)) (items_of data)),
                           widget_keys := widget_keys s1 @ map card_key (items_of data)\<rparr>)))
         \<and> (live_entry s (SeasonalAnime year season) = None \<longrightarrow>
              sent (snd (seasonal_page net cy w clicked s)) = sent s @
                [[Lit ''https://api.jikan.moe/v4/seasons/'', Fmt year, Lit ''/'', Fmt season]])"
    using cap listed miss by (intro exI [of _ "PStr c"]) blast
qed


theorem seasonal_page_selection_witness:
  "nav (initial_widgets\<lparr>nav := Seasonal, season_index := 3\<rparr>) = Seasonal
   \<and> year_index (initial_widgets\<lparr>nav := Seasonal, season_index := 3\<rparr>) < length (year_options 2024)
   \<and> selectbox (year_options 2024) 0 = PInt 2024
   \<and> selectbox season_options 3 = PStr ''fall''
   \<and> listing example_listing \<and> list_all item_shaped (items_of example_listing)
   \<and> drawable (widget_keys initial_state) (map card_key (items_of example_listing))
   \<and> live_entry initial_state (SeasonalAnime (PInt 2024) (PStr ''fall'')) = None
   \<and> seasonal_page network_up 2024 (initial_widgets\<lparr>nav := Seasonal, season_index := 3\<rparr>)
        None initial_state =
       (Next, initial_state\<lparr>cache := (\<lambda>k. None)(SeasonalAnime (PInt 2024) (PStr ''fall'') \<mapsto>
                 \<lparr>payload = example_listing, replay = [], created = 2\<rparr>),
               clock := 2,
               sent := [[Lit ''https://api.jikan.moe/v4/seasons/'', Fmt (PInt 2024), Lit ''/'',
                         Fmt (PStr ''fall'')]],
               screen :=
                 [seasonal_header (PStr ''Fall'') (PInt 2024),
                  seasonal_message 1 (PStr ''Fall'') (PInt 2024),
                  Container, Markdown [Lit (''### '' @ glyph_flags @ '' ''), Fmt (PStr ''A'')],
                  Metric label_score (PStr ''N/A''), Metric label_episodes (PStr ''N/A''),
                  Metric label_year (PStr ''N/A''), Metric label_status (PStr ''N/A''),
                  Button label_add (Keyed (fav_key (PInt 1))), Divider],
               widget_keys := [fav_key (PInt 1)]\<rparr>)"
proof -
  let ?w = "initial_widgets\<lparr>nav := Seasonal, season_index := 3\<rparr>"
  let ?s1 = "initial_state\<lparr>cache := (\<lambda>k. None)(SeasonalAnime (PInt 2024) (PStr ''fall'') \<mapsto>
                 \<lparr>payload = example_listing, replay = [], created = 2\<rparr>),
               clock := 2, sent := [seasonal_url (PInt 2024) (PStr ''fall'')],
               screen := [seasonal_header (PStr ''Fall'') (PInt 2024)]\<rparr>"
  note T = seasonal_page_selection [where cy = 2024 and w = ?w and net = network_up
      and clicked = None and s = initial_state and data = example_listing and ?s1.0 = ?s1
      and year = "PInt 2024" and season = "PStr ''fall''"]
  have len: "year_index ?w < length (year_options 2024)"
    by (simp add: year_options_eq initial_widgets_def)
  have y: "selectbox (year_options 2024) 0 = PInt 2024"
    using T [THEN conjunct2, THEN conjunct2, THEN conjunct2, THEN conjunct1, THEN mp, OF len]
    by (simp add: initial_widgets_def)
  have se: "selectbox season_options 3 = PStr ''fall''"
    by (simp add: selectbox_def season_options_def)
  have h: "season_index ?w < 4 \<and> PInt 2024 = selectbox (year_options 2024) (year_index ?w)
        \<and> PStr ''fall'' = selectbox season_options (season_index ?w)"
    using y se by (simp add: initial_widgets_def)
  from T [THEN conjunct2, THEN conjunct2, THEN conjunct2, THEN conjunct2, THEN mp, OF h]
  obtain cap where cap: "py_capitalize (PStr ''fall'') = Inr cap"
    and B: "fetch_seasonal_anime network_up (PInt 2024) (PStr ''fall'')
               (initial_state\<lparr>screen := screen initial_state @ [seasonal_header cap (PInt 2024)]\<rparr>)
              = (example_listing, ?s1)
             \<and> listing example_listing \<longrightarrow>
            (items_of example_listing = [] \<longrightarrow>
               seasonal_page network_up 2024 ?w None initial_state =
                 (Next, ?s1\<lparr>screen := screen ?s1 @
                    [WarningMsg [Lit ''Unable to load seasonal anime data.'']]\<rparr>))
            \<and> (items_of example_listing \<noteq> [] \<and> list_all item_shaped (items_of example_listing)
                 \<and> drawable (widget_keys initial_state) (map card_key (items_of example_listing)) \<longrightarrow>
               seasonal_page network_up 2024 ?w None initial_state =
                 (Next, ?s1\<lparr>favorites := favorites ?s1
                              @ concat (map (card_added None (favorites ?s1)) (items_of example_listing)),
                           screen := screen ?s1
                              @ seasonal_message (length (items_of example_listing)) cap (PInt 2024)
                              # concat (map (card_elements None (favorites ?s1)) (items_of example_listing)),
                           widget_keys := widget_keys ?s1 @ map card_key (items_of example_listing)\<rparr>))"
    by blast
  from cap [unfolded capitalize_fall] have c: "cap = PStr ''Fall''" by simp
  have f: "fetch_seasonal_anime network_up (PInt 2024) (PStr ''fall'')
               (initial_state\<lparr>screen := screen initial_state @ [seasonal_header cap (PInt 2024)]\<rparr>)
              = (example_listing, ?s1)"
    unfolding c
    by (simp add: fetch_seasonal_anime_def fetch_seasonal_anime_body_def cache_data_def
        live_entry_def try_fetch_def get_json_def requests_get_def network_up_def
        raise_for_status_def response_json_def and_then_def initial_state_def)
  have l: "listing example_listing" "items_of example_listing \<noteq> []"
    "list_all item_shaped (items_of example_listing)"
    "drawable (widget_keys initial_state) (map card_key (items_of example_listing))"
    by (simp_all add: example_listing_def metric_shaped_def initial_state_def)
  have m: "live_entry initial_state (SeasonalAnime (PInt 2024) (PStr ''fall'')) = None"
    by (simp add: live_entry_def initial_state_def)
  from B f l have C: "seasonal_page network_up 2024 ?w None initial_state =
                 (Next, ?s1\<lparr>favorites := favorites ?s1
                              @ concat (map (card_added None (favorites ?s1)) (items_of example_listing)),
                           screen := screen ?s1
                              @ seasonal_message (length (items_of example_listing)) cap (PInt 2024)
                              # concat (map (card_elements None (favorites ?s1)) (items_of example_listing)),
                           widget_keys := widget_keys ?s1 @ map card_key (items_of example_listing)\<rparr>)"
    by blast
  have 1: "seasonal_page network_up 2024 ?w None initial_state =
       (Next, initial_state\<lparr>cache := (\<lambda>k. None)(SeasonalAnime (PInt 2024) (PStr ''fall'') \<mapsto>
                 \<lparr>payload = example_listing, replay = [], created = 2\<rparr>),
               clock := 2,
               sent := [[Lit ''https://api.jikan.moe/v4/seasons/'', Fmt (PInt 2024), Lit ''/'',
                         Fmt (PStr ''fall'')]],
               screen :=
                 [seasonal_header (PStr ''Fall'') (PInt 2024),
                  seasonal_message 1 (PStr ''Fall'') (PInt 2024),
                  Container, Markdown [Lit (''### '' @ glyph_flags @ '' ''), Fmt (PStr ''A'')],
                  Metric label_score (PStr ''N/A''), Metric label_episodes (PStr ''N/A''),
                  Metric label_year (PStr ''N/A''), Metric label_status (PStr ''N/A''),
                  Button label_add (Keyed (fav_key (PInt 1))), Divider],
               widget_keys := [fav_key (PInt 1)]\<rparr>)"
    unfolding C c
    by (simp add: example_listing_def initial_state_def card_added_def card_elements_def
        card_notice_def card_key_def card_head_def card_tail_def title_of_def id_of_def
        metric_of_def title_line_def card_image_def image_url_def card_english_def
        card_genres_def card_synopsis_def card_link_def card_trailer_def compute_def
        and_then_def nothing_def seasonal_url_def api_def)
  have 0: "nav ?w = Seasonal" by simp
  from 0 len y se l(1,3,4) m 1 show ?thesis by blast
qed

theorem seasonal_page_selection_counterexample:
  "selectbox (year_options 2024) (year_index seasonal_widgets) = PInt 2024
   \<and> selectbox season_options (season_index seasonal_widgets) = PStr ''winter''
   \<and> fetch_seasonal_anime network_bare_list (PInt 2024) (PStr ''winter'')
        (initial_state\<lparr>screen := [seasonal_header (PStr ''Winter'') (PInt 2024)]\<rparr>) =
       (PList [PInt 1],
        initial_state\<lparr>cache := (\<lambda>k. None)(SeasonalAnime (PInt 2024) (PStr ''winter'') \<mapsto>
                 \<lparr>payload = PList [PInt 1], replay = [], created = 1\<rparr>),
               clock := 1, sent := [seasonal_url (PInt 2024) (PStr ''winter'')],
               screen := [seasonal_header (PStr ''Winter'') (PInt 2024)]\<rparr>)
   \<and> seasonal_page network_bare_list 2024 seasonal_widgets None initial_state =
       (Raise AttributeError,
        initial_state\<lparr>cache := (\<lambda>k. None)(SeasonalAnime (PInt 2024) (PStr ''winter'') \<mapsto>
                 \<lparr>payload = PList [PInt 1], replay = [], created = 1\<rparr>),
               clock := 1, sent := [seasonal_url (PInt 2024) (PStr ''winter'')],
               screen := [seasonal_header (PStr ''Winter'') (PInt 2024)]\<rparr>)
   \<and> fst (seasonal_page network_repeats 2024 seasonal_widgets None initial_state)
       = Raise DuplicateElementKey"
proof -
  have y: "selectbox (year_options 2024) (year_index seasonal_widgets) = PInt 2024"
    using first_year by (simp add: seasonal_widgets_def initial_widgets_def)
  have se: "selectbox season_options (season_index seasonal_widgets) = PStr ''winter''"
    by (simp add: seasonal_widgets_def initial_widgets_def selectbox_def season_options_def)
  show ?thesis
    by (simp add: y se capitalize_winter seasonal_page_def Let_def emit_def render_def
      with_value_def seasonal_header_def
      fetch_seasonal_anime_def fetch_seasonal_anime_body_def cache_data_def live_entry_def
      try_fetch_def get_json_def requests_get_def network_bare_list_def network_repeats_def
      raise_for_status_def response_json_def and_then_def initial_state_def
      eval_def has_data_def data_len_def show_cards_def display_anime_card_def
      card_favorite_def st_button_def skip_def fav_key_def same_key_def key_id_def
      card_image_def image_url_def card_english_def card_metric_def
      card_genres_def card_synopsis_def card_link_def card_trailer_def compute_def
      put_def nothing_def del: py_capitalize.simps)
qed

subsection \<open>The Top Rated page\<close>

lemma keys_fetch_top_anime: "widget_keys (snd (fetch_top_anime net p l s)) = widget_keys s"
  unfolding fetch_top_anime_def fetch_top_anime_body_def
  by (rule keys_cache_data) (rule keys_try_fetch)

lemma interact_widgets: "fst (interact net cy ev (w, s)) = apply_event cy ev w"
  by (simp add: interact_def Let_def split: prod.splits control.splits)

lemma apply_event_bounds:
  "page_min \<le> page_num w \<and> page_num w \<le> page_max
   \<Longrightarrow> page_min \<le> page_num (apply_event cy ev w) \<and> page_num (apply_event cy ev w) \<le> page_max"
  by (cases ev) (auto simp: initial_widgets_def page_min_def page_max_def)

lemma session_page_bounds:
  "page_min \<le> page_num (fst (session net cy evs)) \<and> page_num (fst (session net cy evs)) \<le> page_max"
proof (induction evs rule: rev_induct)
  case Nil
  then show ?case by (simp add: session_def initial_widgets_def page_min_def page_max_def)
next
  case (snoc ev evs)
  obtain w s where ws: "session net cy evs = (w, s)" by (cases "session net cy evs")
  obtain w' c s' where i: "interact net cy ev (w, s) = (w', c, s')"
    by (cases "interact net cy ev (w, s)") auto
  have "w' = apply_event cy ev w"
    using interact_widgets [of net cy ev w s] i by simp
  moreover have "session net cy (evs @ [ev]) = (w', s')"
    using ws i by (simp add: session_def)
  ultimately show ?case
    using snoc ws apply_event_bounds [of w cy ev] by simp
qed

lemma rerun_button_same_network: "keeps same_network (rerun_button label clicked)"
  by (simp add: rerun_button_def same_network_rules keeps_rerun preorder_same_network)

lemma labels_differ: "label_previous \<noteq> label_next"
  by (simp add: label_previous_def label_next_def glyph_left_def)

lemma unclicked_cards:
  assumes "\<And>k. \<not> is_clicked clicked k"
  shows "concat (map (card_added clicked favs) items) = []"
    and "map (card_elements clicked favs) items = map (card_elements None favs) items"
  using assms by (simp_all add: card_added_def card_elements_def card_notice_def)

definition top_rated_header :: "widgets \<Rightarrow> element list" where
  "top_rated_header w =
     [Header [Lit (glyph_star @ '' Top Rated Anime of All Time'')],
      NumberInput ''Page'' 1 100 (page_num w)]"

definition showing_message :: "widgets \<Rightarrow> element" where
  "showing_message w = SuccessMsg [Lit ''Showing top anime - Page '', Fmt (PInt (page_num w))]"

definition previous_control :: "element list" where
  "previous_control = [Button label_previous (Labelled label_previous)]"

definition next_control :: "element list" where
  "next_control = [Button label_next (Labelled label_next)]"

definition pagination :: "widgets \<Rightarrow> element list" where
  "pagination w = (if 1 < page_num w then previous_control else []) @ next_control"

definition top_rated_widgets :: widgets where
  "top_rated_widgets = initial_widgets\<lparr>nav := TopRated, page_num := 2\<rparr>"

text \<open>
  C5. In every state a session reaches the page number is from 1 to 100: on the Top Rated
  page the number input takes a value from 1 to 100 and keeps its value otherwise. The page
  calls \<open>fetch_top_anime\<close> with the page number and the limit 25, which requests
  \<^verbatim>\<open>/top/anime?page={page}&limit=25\<close> when the cache has no live entry. When the payload is a
  listing without items the page shows its warning. When the payload is a listing of
  well-shaped items whose buttons can be drawn in turn, the page shows the number input with
  the bounds 1 and 100, the cards, and the controls: "Previous Page" when the page number is
  above 1, and "Next Page". Each control, when it is the button clicked, draws itself and
  ends the pass with \<^verbatim>\<open>st.rerun()\<close>, and so does the page at that control. A click leaves
  the widgets, and so the page number, as they are, and when its pass ends with
  \<^verbatim>\<open>st.rerun()\<close> the script runs once more with the same widgets and no button clicked.
\<close>

theorem top_rated_paging:
  "(1 \<le> page_num (fst (session net cy evs)) \<and> page_num (fst (session net cy evs)) \<le> 100)
   \<and> (nav w = TopRated \<longrightarrow>
        page_num (apply_event cy (EnterPage v) w) = (if 1 \<le> v \<and> v \<le> 100 then v else page_num w))
   \<and> (live_entry s (TopAnime (page_num w) 25) = None \<longrightarrow>
        sent (snd (top_rated_page net w clicked s)) = sent s @ [top_anime_url (page_num w) 25])
   \<and> (fetch_top_anime net (page_num w) 25 (s\<lparr>screen := screen s @ top_rated_header w\<rparr>)
          = (data, s1)
        \<and> listing data \<longrightarrow>
      (items_of data = [] \<longrightarrow>
         top_rated_page net w clicked s =
           (Next, s1\<lparr>screen := screen s1 @
              [WarningMsg [Lit ''Unable to load top anime data.'']]\<rparr>))
      \<and> (items_of data \<noteq> [] \<and> list_all item_shaped (items_of data)
           \<and> drawable (widget_keys s) (map card_key (items_of data)) \<longrightarrow>
         top_rated_page net w None s =
           (Next, s1\<lparr>screen := screen s1 @ showing_message w
                        # concat (map (card_elements None (favorites s1)) (items_of data))
                        @ pagination w,
                     widget_keys := widget_keys s1 @ map card_key (items_of data)\<rparr>)
         \<and> top_rated_page net w (Some (Labelled label_next)) s =
           (Rerun, s1\<lparr>screen := screen s1 @ showing_message w
                        # concat (map (card_elements None (favorites s1)) (items_of data))
                        @ pagination w,
                     widget_keys := widget_keys s1 @ map card_key (items_of data)\<rparr>)
         \<and> (1 < page_num w \<longrightarrow>
              top_rated_page net w (Some (Labelled label_previous)) s =
                (Rerun, s1\<lparr>screen := screen s1 @ showing_message w
                        # concat (map (card_elements None (favorites s1)) (items_of data))
                        @ previous_control,
                     widget_keys := widget_keys s1 @ map card_key (items_of data)\<rparr>))))
   \<and> rerun_button label_previous (Some (Labelled label_previous)) s
       = (Rerun, s\<lparr>screen := screen s @ previous_control\<rparr>)
   \<and> rerun_button label_next (Some (Labelled label_next)) s
       = (Rerun, s\<lparr>screen := screen s @ next_control\<rparr>)
   \<and> fst (interact net cy (Click b) (w, s)) = w
   \<and> (fst (pass net cy w (Some b) s) = Rerun \<longrightarrow>
        interact net cy (Click b) (w, s)
          = (w, pass net cy w None (snd (pass net cy w (Some b) s))))"
proof (intro conjI impI)
  show "1 \<le> page_num (fst (session net cy evs))" "page_num (fst (session net cy evs)) \<le> 100"
    using session_page_bounds [of net cy evs] by (simp_all add: page_min_def page_max_def)
  show "page_num (apply_event cy (EnterPage v) w) = (if 1 \<le> v \<and> v \<le> 100 then v else page_num w)"
    if "nav w = TopRated"
    using that by (simp add: page_min_def page_max_def)
  show "fst (interact net cy (Click b) (w, s)) = w"
    by (simp add: interact_widgets)
  show "rerun_button label_previous (Some (Labelled label_previous)) s
       = (Rerun, s\<lparr>screen := screen s @ previous_control\<rparr>)"
    and "rerun_button label_next (Some (Labelled label_next)) s
       = (Rerun, s\<lparr>screen := screen s @ next_control\<rparr>)"
    by (simp_all add: rerun_button_def emit_def render_def rerun_def previous_control_def
        next_control_def)
  show "interact net cy (Click b) (w, s)
          = (w, pass net cy w None (snd (pass net cy w (Some b) s)))"
    if "fst (pass net cy w (Some b) s) = Rerun"
    using that by (cases "pass net cy w (Some b) s") (simp add: interact_def)
next
  assume m: "live_entry s (TopAnime (page_num w) 25) = None"
  let ?s0 = "s\<lparr>screen := screen s @ top_rated_header w\<rparr>"
  let ?k = "\<lambda>data. eval (has_data data) (\<lambda>ok.
            if ok then
              run_steps
                [emit (SuccessMsg [Lit ''Showing top anime - Page '', Fmt (PInt (page_num w))]),
                 show_cards clicked data,
                 if 1 < page_num w then rerun_button label_previous clicked else skip,
                 rerun_button label_next clicked]
            else emit (WarningMsg [Lit ''Unable to load top anime data.'']))"
  obtain d s' where f: "fetch_top_anime net (page_num w) 25 ?s0 = (d, s')"
    by (cases "fetch_top_anime net (page_num w) 25 ?s0")
  then have page: "top_rated_page net w clicked s = ?k d s'"
    by (simp add: top_rated_page_def emit_def render_def with_value_def top_rated_header_def
        page_min_def page_max_def)
  have "keeps same_network (?k d)"
    by (simp add: same_network_rules rerun_button_same_network)
  then have "sent (snd (?k d s')) = sent s'" by (rule sent_same)
  moreover have "sent s' = sent s @ [top_anime_url (page_num w) 25]"
    using sent_fetch_miss [of ?s0 "TopAnime (page_num w) 25" net] m f by simp
  ultimately show "sent (snd (top_rated_page net w clicked s))
      = sent s @ [top_anime_url (page_num w) 25]"
    by (simp add: page)
next
  assume a: "fetch_top_anime net (page_num w) 25 (s\<lparr>screen := screen s @ top_rated_header w\<rparr>)
          = (data, s1)
        \<and> listing data"
  have page: "top_rated_page net w c s =
      eval (has_data data) (\<lambda>ok.
            if ok then
              run_steps
                [emit (showing_message w),
                 show_cards c data,
                 if 1 < page_num w then rerun_button label_previous c else skip,
                 rerun_button label_next c]
            else emit (WarningMsg [Lit ''Unable to load top anime data.''])) s1" for c
    using a unfolding showing_message_def
    by (simp add: top_rated_page_def emit_def render_def with_value_def top_rated_header_def
        page_min_def page_max_def)
  show "top_rated_page net w clicked s =
           (Next, s1\<lparr>screen := screen s1 @
              [WarningMsg [Lit ''Unable to load top anime data.'']]\<rparr>)"
    if "items_of data = []"
    using a that by (simp add: page listing_has_data eval_def emit_def render_def)
  assume b: "items_of data \<noteq> [] \<and> list_all item_shaped (items_of data)
           \<and> drawable (widget_keys s) (map card_key (items_of data))"
  let ?s2 = "s1\<lparr>screen := screen s1 @ [showing_message w]\<rparr>"
  let ?cards = "concat (map (card_elements None (favorites s1)) (items_of data))"
  have "widget_keys s1 = widget_keys s"
    using a keys_fetch_top_anime [of net "page_num w" 25
        "s\<lparr>screen := screen s @ top_rated_header w\<rparr>"]
    by simp
  with b have d: "drawable (widget_keys ?s2) (map card_key (items_of data))"
    by simp
  have cards: "for_each (display_anime_card c) (items_of data) ?s2 =
      (Next, s1\<lparr>screen := screen s1 @ showing_message w # ?cards,
                widget_keys := widget_keys s1 @ map card_key (items_of data)\<rparr>)"
    if "\<And>k. \<not> is_clicked c k" for c
    using cards_step [OF _ d, of c] b unclicked_cards [of c, OF that]
    by simp
  have rest: "top_rated_page net w c s =
      run_steps [if 1 < page_num w then rerun_button label_previous c else skip,
                 rerun_button label_next c]
        (s1\<lparr>screen := screen s1 @ showing_message w # ?cards,
            widget_keys := widget_keys s1 @ map card_key (items_of data)\<rparr>)"
    if "\<And>k. \<not> is_clicked c k" for c
    using a b cards [OF that]
    by (simp add: page listing_has_data show_cards_listing eval_def emit_def render_def)
  show "top_rated_page net w None s =
           (Next, s1\<lparr>screen := screen s1 @ showing_message w # ?cards @ pagination w,
                     widget_keys := widget_keys s1 @ map card_key (items_of data)\<rparr>)"
    by (subst rest)
       (simp_all add: rerun_button_def emit_def render_def skip_def pagination_def
         previous_control_def next_control_def)
  show "top_rated_page net w (Some (Labelled label_next)) s =
           (Rerun, s1\<lparr>screen := screen s1 @ showing_message w # ?cards @ pagination w,
                     widget_keys := widget_keys s1 @ map card_key (items_of data)\<rparr>)"
    using labels_differ
    by (subst rest)
       (auto simp: rerun_button_def emit_def render_def skip_def rerun_def pagination_def
         previous_control_def next_control_def)
  show "top_rated_page net w (Some (Labelled label_previous)) s =
           (Rerun, s1\<lparr>screen := screen s1 @ showing_message w # ?cards @ previous_control,
                     widget_keys := widget_keys s1 @ map card_key (items_of data)\<rparr>)"
    if "1 < page_num w"
    using that
    by (subst rest)
       (simp_all add: rerun_button_def emit_def render_def skip_def rerun_def
         previous_control_def)
qed


theorem top_rated_paging_witness:
  "nav top_rated_widgets = TopRated
   \<and> page_num (apply_event 2024 (EnterPage 3) top_rated_widgets) = 3
   \<and> page_num (apply_event 2024 (EnterPage 101) top_rated_widgets) = 2
   \<and> live_entry initial_state (TopAnime (page_num top_rated_widgets) 25) = None
   \<and> sent (snd (top_rated_page network_up top_rated_widgets None initial_state))
       = [top_anime_url 2 25]
   \<and> listing example_listing \<and> list_all item_shaped (items_of example_listing)
   \<and> drawable (widget_keys initial_state) (map card_key (items_of example_listing))
   \<and> 1 < page_num top_rated_widgets
   \<and> top_rated_page network_up top_rated_widgets (Some (Labelled label_previous)) initial_state =
       (Rerun, initial_state\<lparr>cache := (\<lambda>k. None)(TopAnime 2 25 \<mapsto>
                 \<lparr>payload = example_listing, replay = [], created = 2\<rparr>),
               clock := 2, sent := [top_anime_url 2 25],
               screen := top_rated_header top_rated_widgets @
                 [showing_message top_rated_widgets,
                  Container, Markdown [Lit (''### '' @ glyph_flags @ '' ''), Fmt (PStr ''A'')],
                  Metric label_score (PStr ''N/A''), Metric label_episodes (PStr ''N/A''),
                  Metric label_year (PStr ''N/A''), Metric label_status (PStr ''N/A''),
                  Button label_add (Keyed (fav_key (PInt 1))), Divider,
                  Button label_previous (Labelled label_previous)],
               widget_keys := [fav_key (PInt 1)]\<rparr>)
   \<and> fst (pass network_up 2024 top_rated_widgets (Some (Labelled label_next)) initial_state) = Rerun
   \<and> interact network_up 2024 (Click (Labelled label_next)) (top_rated_widgets, initial_state)
       = (top_rated_widgets,
          pass network_up 2024 top_rated_widgets None
            (snd (pass network_up 2024 top_rated_widgets (Some (Labelled label_next))
               initial_state)))"
proof -
  let ?w = "top_rated_widgets"
  let ?s1 = "initial_state\<lparr>cache := (\<lambda>k. None)(TopAnime 2 25 \<mapsto>
                 \<lparr>payload = example_listing, replay = [], created = 2\<rparr>),
               clock := 2, sent := [top_anime_url 2 25],
               screen := top_rated_header top_rated_widgets\<rparr>"
  note T = top_rated_paging [where w = ?w and net = network_up and cy = 2024
      and s = initial_state and data = example_listing and ?s1.0 = ?s1
      and b = "Labelled label_next" and clicked = None]
  have n: "nav ?w = TopRated" and p: "page_num ?w = 2" and p1: "1 < page_num ?w"
    by (simp_all add: top_rated_widgets_def initial_widgets_def)
  have e3: "page_num (apply_event 2024 (EnterPage 3) ?w) = 3"
    using T [where v = 3, THEN conjunct2, THEN conjunct1, THEN mp, OF n] by simp
  have e101: "page_num (apply_event 2024 (EnterPage 101) ?w) = 2"
    using T [where v = 101, THEN conjunct2, THEN conjunct1, THEN mp, OF n] p by simp
  have m: "live_entry initial_state (TopAnime (page_num ?w) 25) = None"
    by (simp add: live_entry_def initial_state_def)
  have sent: "sent (snd (top_rated_page network_up ?w None initial_state)) = [top_anime_url 2 25]"
    using T [THEN conjunct2, THEN conjunct2, THEN conjunct1, THEN mp, OF m] p
    by (simp add: initial_state_def)
  have f: "fetch_top_anime network_up (page_num ?w) 25
      (initial_state\<lparr>screen := screen initial_state @ top_rated_header ?w\<rparr>)
      = (example_listing, ?s1)"
    by (simp add: p fetch_top_anime_def fetch_top_anime_body_def cache_data_def live_entry_def
        try_fetch_def get_json_def requests_get_def network_up_def raise_for_status_def
        response_json_def and_then_def initial_state_def)
  have l: "listing example_listing" "items_of example_listing \<noteq> []"
    "list_all item_shaped (items_of example_listing)"
    "drawable (widget_keys initial_state) (map card_key (items_of example_listing))"
    by (simp_all add: example_listing_def metric_shaped_def initial_state_def)
  have h: "fetch_top_anime network_up (page_num ?w) 25
      (initial_state\<lparr>screen := screen initial_state @ top_rated_header ?w\<rparr>)
      = (example_listing, ?s1) \<and> listing example_listing"
    using f l by simp
  have h3: "items_of example_listing \<noteq> [] \<and> list_all item_shaped (items_of example_listing)
      \<and> drawable (widget_keys initial_state) (map card_key (items_of example_listing))"
    using l by simp
  note B = T [THEN conjunct2, THEN conjunct2, THEN conjunct2, THEN conjunct1, THEN mp, OF h]
  note C = B [THEN conjunct2, THEN mp, OF h3]
  note D = C [THEN conjunct2, THEN conjunct2, THEN mp, OF p1]
  have prev: "top_rated_page network_up ?w (Some (Labelled label_previous)) initial_state =
       (Rerun, initial_state\<lparr>cache := (\<lambda>k. None)(TopAnime 2 25 \<mapsto>
                 \<lparr>payload = example_listing, replay = [], created = 2\<rparr>),
               clock := 2, sent := [top_anime_url 2 25],
               screen := top_rated_header top_rated_widgets @
                 [showing_message top_rated_widgets,
                  Container, Markdown [Lit (''### '' @ glyph_flags @ '' ''), Fmt (PStr ''A'')],
                  Metric label_score (PStr ''N/A''), Metric label_episodes (PStr ''N/A''),
                  Metric label_year (PStr ''N/A''), Metric label_status (PStr ''N/A''),
                  Button label_add (Keyed (fav_key (PInt 1))), Divider,
                  Button label_previous (Labelled label_previous)],
               widget_keys := [fav_key (PInt 1)]\<rparr>)"
    unfolding D
    by (simp add: example_listing_def initial_state_def card_elements_def
        card_notice_def card_key_def card_head_def card_tail_def title_of_def id_of_def
        metric_of_def title_line_def card_image_def image_url_def card_english_def
        card_genres_def card_synopsis_def card_link_def card_trailer_def compute_def
        and_then_def nothing_def previous_control_def)
  have r: "fst (pass network_up 2024 ?w (Some (Labelled label_next)) initial_state) = Rerun"
    by (simp add: pass_def script_def n render_def emit_def top_rated_page_def
        with_value_def p fetch_top_anime_def fetch_top_anime_body_def cache_data_def
        live_entry_def try_fetch_def get_json_def requests_get_def network_up_def
        raise_for_status_def response_json_def and_then_def initial_state_def
        example_listing_def eval_def has_data_def data_len_def show_cards_def
        display_anime_card_def card_favorite_def st_button_def skip_def
        card_image_def image_url_def card_english_def card_metric_def
        card_genres_def card_synopsis_def card_link_def card_trailer_def compute_def
        put_def nothing_def rerun_button_def rerun_def labels_differ)
  have i: "interact network_up 2024 (Click (Labelled label_next)) (?w, initial_state)
       = (?w, pass network_up 2024 ?w None
            (snd (pass network_up 2024 ?w (Some (Labelled label_next)) initial_state)))"
    using T [THEN conjunct2, THEN conjunct2, THEN conjunct2, THEN conjunct2, THEN conjunct2,
        THEN conjunct2, THEN conjunct2, THEN mp, OF r] .
  from n e3 e101 m sent l(1,3,4) p1 prev r i show ?thesis by blast
qed

end
